(* ===== verification/Prelude.thy ===== *)
theory Prelude
  imports Main "HOL-Library.Word"
begin

text \<open>
  Shared vocabulary of the Modbus bridge development.
  \<^item> \<open>byte\<close> and \<open>reg16\<close> name the 8-bit and 16-bit machine words of the frame layout.
  \<^item> \<open>pyval\<close> is the part of Python's dynamic value space that reaches the bridge: the
    values \<^verbatim>\<open>json.loads\<close> produces (int, bool, str, None, list, dict) and the ints the
    text front ends compute. JSON floats are not modelled.
  \<^item> \<open>py_error\<close> lists the exceptions the sources raise or let through; a fallible
    Python expression has type \<open>'a py = py_error + 'a\<close> (\<open>Inl\<close> is the raise).
  \<^item> The built-ins the sources call on these values (\<^verbatim>\<open>bytes([...])\<close>,
    \<^verbatim>\<open>int.to_bytes(n, 'little')\<close>, indexing \<^verbatim>\<open>b[i]\<close>, comparison of a value with an
    int, \<^verbatim>\<open>int(str)\<close>) are modelled here once, with the exception each raises.
  The generic word and list lemmas the components share are collected in \<open>py_simps\<close>
  and \<open>word_helpers\<close>.
\<close>

unbundle bit_operations_syntax

named_theorems py_simps "evaluation rules of the modelled Python built-ins"
named_theorems word_helpers "generic facts on bytes and 16-bit words"

type_synonym byte = "8 word"
type_synonym reg16 = "16 word"

datatype pyval =
    PInt int
  | PBool bool
  | PStr string
  | PNone
  | PList "pyval list"
  | PDict "(string \<times> pyval) list"

datatype py_error =
    ValueError string
  | TypeError string
  | IndexError string
  | KeyError string
  | OverflowError string
  | AttributeError string
  | EOFError string
  | UnicodeDecodeError string

type_synonym 'a py = "py_error + 'a"

subsection \<open>Python built-ins\<close>

definition py_quote :: "string \<Rightarrow> string" where
  "py_quote s = [CHR 0x27] @ s @ [CHR 0x27]"

text \<open>The integer a value denotes in arithmetic: Python's \<open>bool\<close> is a subclass of \<open>int\<close>.\<close>

fun py_as_int :: "pyval \<Rightarrow> int option" where
  "py_as_int (PInt i) = Some i"
| "py_as_int (PBool b) = Some (if b then 1 else 0)"
| "py_as_int _ = None"

text \<open>\<^verbatim>\<open>v < k\<close> and \<^verbatim>\<open>v > k\<close> for an int \<open>k\<close>: a \<open>TypeError\<close> unless \<open>v\<close> is a number.\<close>

definition py_lt :: "pyval \<Rightarrow> int \<Rightarrow> bool py" where
  "py_lt v k = (case py_as_int v of
     None \<Rightarrow> Inl (TypeError ''< not supported between instances'')
   | Some i \<Rightarrow> Inr (i < k))"

definition py_gt :: "pyval \<Rightarrow> int \<Rightarrow> bool py" where
  "py_gt v k = (case py_as_int v of
     None \<Rightarrow> Inl (TypeError ''> not supported between instances'')
   | Some i \<Rightarrow> Inr (k < i))"

text \<open>\<^verbatim>\<open>k + v\<close> for an int \<open>k\<close>.\<close>

definition py_add :: "int \<Rightarrow> pyval \<Rightarrow> int py" where
  "py_add k v = (case py_as_int v of
     None \<Rightarrow> Inl (TypeError ''unsupported operand type(s) for +'')
   | Some i \<Rightarrow> Inr (k + i))"

text \<open>
  \<^verbatim>\<open>bytes([v0, v1, ...])\<close>: the elements are checked in order; a non-integer raises
  \<open>TypeError\<close>, an integer outside \<open>range(0, 256)\<close> raises \<open>ValueError\<close>.
\<close>

fun py_bytes :: "pyval list \<Rightarrow> byte list py" where
  "py_bytes [] = Inr []"
| "py_bytes (v # vs) =
     (case py_as_int v of
        None \<Rightarrow> Inl (TypeError ''object cannot be interpreted as an integer'')
      | Some i \<Rightarrow>
          if 0 \<le> i \<and> i < 256 then
            (case py_bytes vs of Inl e \<Rightarrow> Inl e | Inr bs \<Rightarrow> Inr (word_of_int i # bs))
          else Inl (ValueError ''bytes must be in range(0, 256)''))"

text \<open>\<^verbatim>\<open>x.to_bytes(n, byteorder='little')\<close> on a Python int.\<close>

fun le_bytes :: "nat \<Rightarrow> int \<Rightarrow> byte list" where
  "le_bytes 0 x = []"
| "le_bytes (Suc n) x = word_of_int x # le_bytes n (drop_bit 8 x)"

definition to_bytes_le :: "nat \<Rightarrow> int \<Rightarrow> byte list py" where
  "to_bytes_le n x =
     (if x < 0 then Inl (OverflowError ''can't convert negative int to unsigned'')
      else if 2 ^ (8 * n) \<le> x then Inl (OverflowError ''int too big to convert'')
      else Inr (le_bytes n x))"

text \<open>\<^verbatim>\<open>sep.join(parts)\<close> on strings.\<close>

fun py_join :: "string \<Rightarrow> string list \<Rightarrow> string" where
  "py_join sep [] = []"
| "py_join sep [x] = x"
| "py_join sep (x # y # ys) = x @ sep @ py_join sep (y # ys)"

text \<open>\<^verbatim>\<open>str(e)\<close> of a raised exception: a \<open>KeyError\<close> shows its key quoted.\<close>

fun py_str_error :: "py_error \<Rightarrow> string" where
  "py_str_error (ValueError m) = m"
| "py_str_error (TypeError m) = m"
| "py_str_error (IndexError m) = m"
| "py_str_error (KeyError k) = py_quote k"
| "py_str_error (OverflowError m) = m"
| "py_str_error (AttributeError m) = m"
| "py_str_error (EOFError m) = m"
| "py_str_error (UnicodeDecodeError m) = m"

text \<open>\<^verbatim>\<open>d[k]\<close> and \<^verbatim>\<open>d.get(k)\<close> on a dict decoded from JSON (keys are distinct).\<close>

definition py_getitem :: "pyval \<Rightarrow> string \<Rightarrow> pyval py" where
  "py_getitem d k = (case d of
     PDict kvs \<Rightarrow> (case map_of kvs k of None \<Rightarrow> Inl (KeyError k) | Some v \<Rightarrow> Inr v)
   | _ \<Rightarrow> Inl (TypeError ''object is not subscriptable''))"

definition py_get :: "pyval \<Rightarrow> string \<Rightarrow> pyval py" where
  "py_get d k = (case d of
     PDict kvs \<Rightarrow> Inr (case map_of kvs k of None \<Rightarrow> PNone | Some v \<Rightarrow> v)
   | _ \<Rightarrow> Inl (AttributeError ''object has no attribute get''))"

text \<open>\<^verbatim>\<open>b[i]\<close> on a bytes object, for \<open>0 \<le> i\<close>: \<open>IndexError\<close> past the end.\<close>

definition py_index :: "'a list \<Rightarrow> nat \<Rightarrow> 'a py" where
  "py_index xs i = (if i < length xs then Inr (xs ! i) else Inl (IndexError ''index out of range''))"

subsection \<open>Lemmas on the built-ins\<close>

lemma py_bytes_ints [py_simps]:
  "list_all (\<lambda>i. 0 \<le> i \<and> i < 256) xs \<Longrightarrow> py_bytes (map PInt xs) = Inr (map word_of_int xs)"
  by (induction xs) auto

lemma py_bytes_length:
  "py_bytes vs = Inr bs \<Longrightarrow> length bs = length vs"
  by (induction vs arbitrary: bs) (auto split: option.splits if_splits sum.splits)

lemma le_bytes_length [simp]: "length (le_bytes n x) = n"
  by (induction n arbitrary: x) auto

lemma py_index_Inr [py_simps]: "i < length xs \<Longrightarrow> py_index xs i = Inr (xs ! i)"
  by (simp add: py_index_def)

lemma py_index_Inl [py_simps]: "length xs \<le> i \<Longrightarrow> py_index xs i = Inl (IndexError ''index out of range'')"
  by (simp add: py_index_def)

lemma py_lt_int [py_simps]: "py_lt (PInt i) k = Inr (i < k)"
  and py_gt_int [py_simps]: "py_gt (PInt i) k = Inr (k < i)"
  and py_add_int [py_simps]: "py_add k (PInt i) = Inr (k + i)"
  by (simp_all add: py_lt_def py_gt_def py_add_def)

subsection \<open>Word lemmas\<close>

lemma word_xor_eq_0_iff [word_helpers]: "((a::'a::len word) XOR b = 0) = (a = b)"
  by (auto simp: bit_eq_iff bit_xor_iff)

lemma word_xor_right_cancel [word_helpers]: "((a::'a::len word) XOR c = b XOR c) = (a = b)"
  by (auto simp: bit_eq_iff bit_xor_iff)

lemma word_xor_left_cancel [word_helpers]: "((c::'a::len word) XOR a = c XOR b) = (a = b)"
  by (auto simp: bit_eq_iff bit_xor_iff)

lemma and_1_ne_0_odd [word_helpers]: "((w::'a::len word) AND 1 \<noteq> 0) = odd w"
  by (simp add: and_one_eq mod_2_eq_odd)

lemma int_and_1_ne_0_odd: "((k::int) AND 1 \<noteq> 0) = odd k"
  by (simp add: and_one_eq mod_2_eq_odd)

lemma even_drop_1_0 [word_helpers]: "even (x::'a::len word) \<Longrightarrow> drop_bit 1 x = 0 \<Longrightarrow> x = 0"
  using bits_ident [of 1 x] by (simp add: even_iff_mod_2_eq_zero)

lemma unat_byte_lt [word_helpers]: "unat (x::byte) < 256"
proof -
  have "unat x < 2 ^ LENGTH(8)" by (rule unsigned_less)
  then show ?thesis by simp
qed

lemma uint_and_1_ne_0 [word_helpers]: "(w AND 1 \<noteq> (0::'a::len word)) = (uint w AND 1 \<noteq> 0)"
  by (metis uint_and uint_1 uint_0_iff)

end
