(* ===== verification/Crc.thy ===== *)
theory Crc
  imports Prelude
begin

text \<open>
  The Modbus CRC16 of \<^verbatim>\<open>crc16(data)\<close> (identical in all three front ends, e.g.
  \<^verbatim>\<open>src/modbus_mqtt_bridge_json.py\<close> lines 30--39). The register is a Python int:
  \<open>crc_shift\<close> is one iteration of the inner \<^verbatim>\<open>for _ in range(8)\<close> loop,
  \<open>crc_bits\<close> the inner loop, \<open>crc_update\<close> one iteration of \<^verbatim>\<open>for byte in data\<close>,
  \<open>crc_loop\<close> the outer loop and \<open>crc16\<close> the function with its final
  \<^verbatim>\<open>crc.to_bytes(2, 'little')\<close>, which would raise \<open>OverflowError\<close> if the register
  ever left 16 bits.

  The second group is the same algorithm on \<open>16 word\<close> registers. The refinement lemma
  \<open>crc_loop_refines\<close> says the int register is always the unsigned value of the word
  register; from it follow the bound on the register, that \<open>crc16\<close> never raises, and
  the properties proved on words: the residue of a frame with its CRC appended is zero,
  and every change of a single byte changes the CRC.
\<close>

unbundle bit_operations_syntax

subsection \<open>The code: int register\<close>

definition crc_shift :: "int \<Rightarrow> int" where
  "crc_shift crc = (if crc AND 1 \<noteq> 0 then drop_bit 1 crc XOR 0xA001 else drop_bit 1 crc)"

fun crc_bits :: "nat \<Rightarrow> int \<Rightarrow> int" where
  "crc_bits 0 crc = crc"
| "crc_bits (Suc n) crc = crc_bits n (crc_shift crc)"

definition crc_update :: "int \<Rightarrow> byte \<Rightarrow> int" where
  "crc_update crc b = crc_bits 8 (crc XOR uint b)"

fun crc_loop :: "int \<Rightarrow> byte list \<Rightarrow> int" where
  "crc_loop crc [] = crc"
| "crc_loop crc (b # bs) = crc_loop (crc_update crc b) bs"

definition crc16 :: "byte list \<Rightarrow> byte list py" where
  "crc16 data = to_bytes_le 2 (crc_loop 0xFFFF data)"

subsection \<open>The same algorithm on 16-bit registers\<close>

definition crc_shift_w :: "reg16 \<Rightarrow> reg16" where
  "crc_shift_w crc = (if crc AND 1 \<noteq> 0 then drop_bit 1 crc XOR 0xA001 else drop_bit 1 crc)"

fun crc_bits_w :: "nat \<Rightarrow> reg16 \<Rightarrow> reg16" where
  "crc_bits_w 0 crc = crc"
| "crc_bits_w (Suc n) crc = crc_bits_w n (crc_shift_w crc)"

definition crc_update_w :: "reg16 \<Rightarrow> byte \<Rightarrow> reg16" where
  "crc_update_w crc b = crc_bits_w 8 (crc XOR ucast b)"

fun crc_loop_w :: "reg16 \<Rightarrow> byte list \<Rightarrow> reg16" where
  "crc_loop_w crc [] = crc"
| "crc_loop_w crc (b # bs) = crc_loop_w (crc_update_w crc b) bs"

text \<open>The two CRC bytes as they are sent: low byte first.\<close>

definition le16 :: "reg16 \<Rightarrow> byte list" where
  "le16 r = [ucast r, ucast (drop_bit 8 r)]"

text \<open>
  The strict receive check that the specification recommends (section 4.4): the last two
  bytes of a frame are the CRC16 of the rest. The sources never perform it; it is the
  contract the frames they build are proved to satisfy.
\<close>

definition crc_valid :: "byte list \<Rightarrow> bool" where
  "crc_valid fr \<longleftrightarrow> 2 \<le> length fr \<and> crc16 (take (length fr - 2) fr) = Inr (drop (length fr - 2) fr)"

subsection \<open>Refinement: the int register is the word register\<close>

lemma uint_crc_shift_w: "uint (crc_shift_w w) = crc_shift (uint w)"
  unfolding crc_shift_w_def crc_shift_def uint_and_1_ne_0
  by (simp add: uint_xor unsigned_drop_bit_eq bintr_uint)

lemma crc_bits_uint: "crc_bits n (uint w) = uint (crc_bits_w n w)"
  by (induction n arbitrary: w) (simp_all flip: uint_crc_shift_w)

lemma uint_ucast_byte: "uint (ucast (b::byte) :: reg16) = uint b"
  by (simp add: unsigned_ucast_eq bintr_uint)

lemma crc_update_uint: "crc_update (uint w) b = uint (crc_update_w w b)"
proof -
  have "uint w XOR uint b = uint (w XOR ucast b :: reg16)"
    by (simp add: uint_xor uint_ucast_byte)
  then show ?thesis by (simp add: crc_update_def crc_update_w_def crc_bits_uint)
qed

lemma crc_loop_uint: "crc_loop (uint w) data = uint (crc_loop_w w data)"
  by (induction data arbitrary: w) (simp_all add: crc_update_uint)

lemma le_bytes_uint16: "le_bytes 2 (uint (r::reg16)) = le16 r"
proof -
  have d: "drop_bit 8 (uint r) = uint (drop_bit 8 r)"
    by (simp add: unsigned_drop_bit_eq bintr_uint)
  have lo: "(word_of_int (uint r) :: byte) = ucast r"
    by (simp only: ucast_eq)
  have hi: "(word_of_int (uint (drop_bit 8 r)) :: byte) = ucast (drop_bit 8 r)"
    by (simp only: ucast_eq)
  show ?thesis
    by (simp only: le16_def numeral_2_eq_2 le_bytes.simps d lo hi)
qed

lemma crc16_eq_w: "crc16 data = Inr (le16 (crc_loop_w 0xFFFF data))"
proof -
  have "crc_loop 0xFFFF data = uint (crc_loop_w 0xFFFF data)"
    using crc_loop_uint [of "0xFFFF" data] by simp
  moreover have "uint (crc_loop_w 0xFFFF data) < 2 ^ (8 * 2)"
    using uint_lt2p [of "crc_loop_w 0xFFFF data"] by simp
  ultimately show ?thesis
    by (simp add: crc16_def to_bytes_le_def le_bytes_uint16)
qed

lemma crc16_length: "crc16 data = Inr c \<Longrightarrow> length c = 2"
  by (auto simp: crc16_eq_w le16_def)

subsection \<open>The shift step is linear and invertible\<close>

lemma crc_shift_w_xor: "crc_shift_w (a XOR b) = crc_shift_w a XOR crc_shift_w b"
  unfolding crc_shift_w_def and_1_ne_0_odd
  by (auto simp: even_xor_iff ac_simps)

lemma crc_shift_w_eq_0: "crc_shift_w x = 0 \<longleftrightarrow> x = 0"
proof
  assume z: "crc_shift_w x = 0"
  show "x = 0"
  proof (cases "odd x")
    case True
    with z have "drop_bit 1 x = 0xA001"
      by (simp add: crc_shift_w_def word_helpers)
    moreover have "drop_bit 1 x < (0x8000 :: reg16)"
    proof -
      have "unat x < 2 ^ LENGTH(16)" by (rule unsigned_less)
      then show ?thesis by (simp add: word_less_nat_alt drop_bit_eq_div unat_div)
    qed
    ultimately show ?thesis by simp
  next
    case False
    with z have "drop_bit 1 x = 0" by (simp add: crc_shift_w_def and_1_ne_0_odd)
    with False show ?thesis by (simp add: even_drop_1_0)
  qed
qed (simp add: crc_shift_w_def)

lemma crc_shift_w_inj: "crc_shift_w a = crc_shift_w b \<longleftrightarrow> a = b"
proof -
  have "crc_shift_w a = crc_shift_w b \<longleftrightarrow> crc_shift_w (a XOR b) = 0"
    by (simp add: crc_shift_w_xor word_xor_eq_0_iff)
  also have "\<dots> \<longleftrightarrow> a = b"
    by (simp add: crc_shift_w_eq_0 word_xor_eq_0_iff)
  finally show ?thesis .
qed

lemma crc_bits_w_inj: "crc_bits_w n a = crc_bits_w n b \<longleftrightarrow> a = b"
  by (induction n arbitrary: a b) (simp_all add: crc_shift_w_inj)

lemma crc_bits_w_zero: "crc_bits_w n 0 = 0"
  by (induction n) (simp_all add: crc_shift_w_def)

text \<open>Eight shifts of a register whose low byte is clear only move it down.\<close>

lemma crc_bits_w_take0: "take_bit n w = 0 \<Longrightarrow> crc_bits_w n w = drop_bit n w"
proof (induction n arbitrary: w)
  case 0
  then show ?case by simp
next
  case (Suc n)
  have "even w" using Suc.prems even_take_bit_eq [of "Suc n" w] by simp
  then have "crc_shift_w w = drop_bit 1 w" by (simp add: crc_shift_w_def and_1_ne_0_odd)
  moreover have "take_bit n (drop_bit 1 w) = 0"
    using Suc.prems by (simp add: take_bit_drop_bit)
  ultimately show ?case using Suc.IH by simp
qed

lemma ucast_byte_inj: "(ucast (a::byte) :: reg16) = ucast b \<longleftrightarrow> a = b"
  by (simp add: word_uint_eq_iff unsigned_ucast_eq bintr_uint)

lemma crc_update_w_inj_reg: "crc_update_w a b = crc_update_w a' b \<longleftrightarrow> a = a'"
  by (simp add: crc_update_w_def crc_bits_w_inj word_xor_right_cancel)

lemma crc_update_w_inj_byte: "crc_update_w a b = crc_update_w a b' \<longleftrightarrow> b = b'"
proof -
  have "crc_update_w a b = crc_update_w a b' \<longleftrightarrow> (ucast b :: reg16) = ucast b'"
    by (simp add: crc_update_w_def crc_bits_w_inj word_xor_left_cancel)
  then show ?thesis by (simp add: ucast_byte_inj)
qed

lemma crc_loop_w_append: "crc_loop_w r (xs @ ys) = crc_loop_w (crc_loop_w r xs) ys"
  by (induction xs arbitrary: r) simp_all

lemma crc_loop_w_inj: "crc_loop_w a xs = crc_loop_w b xs \<longleftrightarrow> a = b"
  by (induction xs arbitrary: a b) (simp_all add: crc_update_w_inj_reg)

subsection \<open>Residue of a frame with its CRC appended\<close>

lemma low_byte_cleared: "take_bit 8 (r XOR ucast (ucast r :: byte) :: reg16) = 0"
  by (rule bit_word_eqI) (auto simp: bit_simps)

lemma drop_bit_8_ucast_byte: "drop_bit 8 (ucast (b :: byte) :: reg16) = 0"
  by (rule bit_word_eqI) (auto simp: bit_simps dest: bit_imp_le_length)

lemma high_byte_cleared: "drop_bit 8 r XOR ucast (ucast (drop_bit 8 r) :: byte) = (0 :: reg16)"
  by (rule bit_word_eqI) (auto simp: bit_simps dest: bit_imp_le_length)

lemma crc_loop_w_le16: "crc_loop_w r (le16 r) = 0"
proof -
  have "crc_bits_w 8 (r XOR ucast (ucast r :: byte)) = drop_bit 8 (r XOR ucast (ucast r :: byte))"
    by (rule crc_bits_w_take0 [OF low_byte_cleared])
  then have "crc_update_w r (ucast r) = drop_bit 8 r"
    by (simp add: crc_update_w_def drop_bit_8_ucast_byte)
  moreover have "crc_update_w (drop_bit 8 r) (ucast (drop_bit 8 r)) = 0"
    by (simp add: crc_update_w_def high_byte_cleared crc_bits_w_zero)
  ultimately show ?thesis by (simp add: le16_def)
qed

lemma le16_inj: "le16 a = le16 b \<longleftrightarrow> a = b"
proof
  assume eq: "le16 a = le16 b"
  then have lo: "(ucast a :: byte) = ucast b" and hi: "(ucast (drop_bit 8 a) :: byte) = ucast (drop_bit 8 b)"
    by (simp_all add: le16_def)
  show "a = b"
  proof (rule bit_word_eqI)
    fix n assume n: "n < LENGTH(16)"
    show "bit a n = bit b n"
    proof (cases "n < 8")
      case True
      from lo have "bit (ucast a :: byte) n = bit (ucast b :: byte) n" by simp
      with True show ?thesis by (simp add: bit_simps)
    next
      case False
      from hi have "bit (ucast (drop_bit 8 a) :: byte) (n - 8) = bit (ucast (drop_bit 8 b) :: byte) (n - 8)"
        by simp
      moreover have "n - 8 < 8" using n by simp
      ultimately show ?thesis using False by (simp add: bit_simps)
    qed
  qed
qed simp

subsection \<open>A changed byte changes the CRC\<close>

lemma crc_loop_w_update_ne:
  "i < length xs \<Longrightarrow> e \<noteq> xs ! i \<Longrightarrow> crc_loop_w r (xs[i := e]) \<noteq> crc_loop_w r xs"
proof (induction xs arbitrary: r i)
  case Nil
  then show ?case by simp
next
  case (Cons x xs)
  show ?case
  proof (cases i)
    case 0
    with Cons.prems have "e \<noteq> x" by simp
    then show ?thesis
      using 0 by (simp add: crc_loop_w_inj crc_update_w_inj_byte)
  next
    case (Suc j)
    with Cons.prems have "j < length xs" and "e \<noteq> xs ! j" by simp_all
    then show ?thesis
      using Suc Cons.IH by simp
  qed
qed

lemma crc16_update_ne:
  "i < length data \<Longrightarrow> e \<noteq> data ! i \<Longrightarrow> crc16 (data[i := e]) \<noteq> crc16 data"
  by (simp add: crc16_eq_w le16_inj crc_loop_w_update_ne)

lemma crc16_append_zero: "crc16 data = Inr c \<Longrightarrow> crc16 (data @ c) = Inr [0, 0]"
proof -
  assume "crc16 data = Inr c"
  then have "c = le16 (crc_loop_w 0xFFFF data)" by (simp add: crc16_eq_w)
  then have "crc16 (data @ c) = Inr (le16 0)"
    by (simp add: crc16_eq_w crc_loop_w_append crc_loop_w_le16)
  then show ?thesis by (simp add: le16_def)
qed

lemma crc_valid_append: "crc16 body = Inr c \<Longrightarrow> crc_valid (body @ c)"
  using crc16_length [of body c] by (simp add: crc_valid_def)

subsection \<open>Properties of crc16\<close>

text \<open>
  The reference vectors, checked by evaluation. The CRC16 of the three request bodies documented for the
  device (and of the fourth example frame of \<^verbatim>\<open>EXAMPLES\<close>) is the pair of bytes that
  the device manual lists after them.
\<close>

theorem crc16_reference_vectors:
  "crc16 [1, 6, 0, 1, 1, 0] = Inr [0xD9, 0x9A] \<and>
   crc16 [1, 6, 0, 1, 2, 0] = Inr [0xD9, 0x6A] \<and>
   crc16 [1, 3, 0, 1, 0, 1] = Inr [0xD5, 0xCA] \<and>
   crc16 [1, 6, 0, 0xFD, 0, 0] = Inr [0x18, 0x3A]"
  by code_simp

text \<open>
  C1: the bound. Whatever the data, the Python int register of \<^verbatim>\<open>crc16\<close> stays within
  16 bits, so the final \<^verbatim>\<open>to_bytes(2, 'little')\<close> never raises and the result is two
  bytes.
\<close>

theorem crc16_register_bounds:
  "0 \<le> crc_loop 0xFFFF data \<and> crc_loop 0xFFFF data < 2 ^ 16 \<and>
   (\<exists>c. crc16 data = Inr c \<and> length c = 2)"
proof -
  have "crc_loop 0xFFFF data = uint (crc_loop_w 0xFFFF data)"
    using crc_loop_uint [of "0xFFFF" data] by simp
  moreover have "uint (crc_loop_w 0xFFFF data) < 2 ^ 16"
    using uint_lt2p [of "crc_loop_w 0xFFFF data"] by simp
  ultimately show ?thesis
    by (simp add: crc16_eq_w le16_def)
qed

text \<open>
  Refinement by a word register. The Python int register, started at any 16-bit value, is the unsigned
  value of the 16-bit word register run on the same bytes; hence \<^verbatim>\<open>crc16\<close> returns the
  word register's low and high byte.
\<close>

theorem crc16_refines_word:
  "crc_loop (uint r) data = uint (crc_loop_w r data) \<and>
   crc16 data = Inr (le16 (crc_loop_w 0xFFFF data))"
  by (simp add: crc_loop_uint crc16_eq_w)

text \<open>
  C2: the residue. Appending to any data its CRC16 (low byte first, as every builder
  does) gives data whose CRC16 is zero: the check a Modbus receiver performs succeeds.
\<close>

theorem crc16_residue_zero:
  "crc16 data = Inr c \<Longrightarrow> crc16 (data @ c) = Inr [0, 0]"
  by (rule crc16_append_zero)

theorem crc16_residue_zero_witness:
  "crc16 [1, 6, 0, 1, 1, 0] = Inr [0xD9, 0x9A] \<and>
   crc16 ([1, 6, 0, 1, 1, 0] @ [0xD9, 0x9A]) = Inr [0, 0]"
proof -
  have h: "crc16 [1, 6, 0, 1, 1, 0] = Inr [0xD9, 0x9A]" by code_simp
  show ?thesis using h crc16_residue_zero [OF h] by simp
qed

text \<open>
  C3: error detection. In a frame that passes the strict CRC check, changing any single
  byte (body or checksum) makes the check fail.
\<close>

theorem crc_valid_detects_byte_error:
  assumes "crc_valid fr" and "i < length fr" and "e \<noteq> fr ! i"
  shows "\<not> crc_valid (fr[i := e])"
proof
  assume v: "crc_valid (fr[i := e])"
  define n where "n = length fr - 2"
  from assms(1) have body: "crc16 (take n fr) = Inr (drop n fr)" and len: "2 \<le> length fr"
    by (simp_all add: crc_valid_def n_def)
  from v have body': "crc16 (take n (fr[i := e])) = Inr (drop n (fr[i := e]))"
    by (simp add: crc_valid_def n_def)
  show False
  proof (cases "i < n")
    case True
    then have "take n (fr[i := e]) = (take n fr)[i := e]" and "drop n (fr[i := e]) = drop n fr"
      by (simp_all add: take_update_swap)
    moreover have "crc16 ((take n fr)[i := e]) \<noteq> crc16 (take n fr)"
      using True assms(2,3) n_def by (intro crc16_update_ne) simp_all
    ultimately show False using body body' by simp
  next
    case False
    then have "take n (fr[i := e]) = take n fr"
      by simp
    moreover have "drop n (fr[i := e]) \<noteq> drop n fr"
    proof
      assume "drop n (fr[i := e]) = drop n fr"
      then have "drop n (fr[i := e]) ! (i - n) = drop n fr ! (i - n)" by simp
      with False assms(2,3) show False by simp
    qed
    ultimately show False using body body' by simp
  qed
qed

theorem crc_valid_detects_byte_error_witness:
  "crc_valid [1, 6, 0, 1, 1, 0, 0xD9, 0x9A] \<and> (3::nat) < 8 \<and> (2::byte) \<noteq> 1 \<and>
   \<not> crc_valid ([1, 6, 0, 1, 1, 0, 0xD9, 0x9A][3 := 2])"
proof -
  have v: "crc_valid [1, 6, 0, 1, 1, 0, 0xD9, 0x9A]" by code_simp
  have "\<not> crc_valid ([1, 6, 0, 1, 1, 0, 0xD9, 0x9A][3 := 2])"
    using crc_valid_detects_byte_error [OF v, of 3 2] by simp
  with v show ?thesis by simp
qed

end
