(* ===== verification/Frames.thy ===== *)
theory Frames
  imports Crc
begin

text \<open>
  The Modbus request builders. The JSON bridge (\<^verbatim>\<open>src/modbus_mqtt_bridge_json.py\<close>)
  has \<open>build_relay_command\<close>, \<open>build_read_input\<close> and \<open>build_read_output\<close>; the text
  front ends (\<^verbatim>\<open>src/modbus_mqtt_bridge.py\<close>, \<^verbatim>\<open>src/raw_modbus_test.py\<close>) have their own
  \<open>build_relay_command\<close> (here \<open>build_relay_command_text\<close>, which checks the action before
  the channel), the same \<open>build_read_input\<close>, and \<^verbatim>\<open>builst_read_output\<close>, which the MQTT
  text bridge addresses directly (\<open>builst_read_output\<close>) and the interactive tester at
  \<open>channel + 1\<close> (\<open>builst_read_output_raw\<close>). Every builder ends in
  \<^verbatim>\<open>frame + crc16(frame)\<close>, modelled once as \<open>frame_with_crc\<close>.

  The JSON bridge passes the decoded JSON values of \<^verbatim>\<open>channel\<close> and \<^verbatim>\<open>state\<close> through
  unchanged, so its builders take \<open>pyval\<close>s; the text front ends pass ints and strings.

  The second part is the abstract channel address map of the specification (sections
  4.2 and 4.3): a request kind with its function code, register and data word, and the
  frame it denotes. The builders are proved to implement it.
\<close>

unbundle bit_operations_syntax

subsection \<open>Builders of the JSON bridge\<close>

definition WRITE_REG :: int where
  "WRITE_REG = 0x06"

definition READ_REG :: int where
  "READ_REG = 0x03"

definition action_error :: py_error where
  "action_error = ValueError (''action must be '' @ py_quote ''on'' @ '' or '' @ py_quote ''off'')"

definition frame_with_crc :: "pyval list \<Rightarrow> byte list py" where
  "frame_with_crc vals =
     (case py_bytes vals of
        Inl e \<Rightarrow> Inl e
      | Inr frame \<Rightarrow> (case crc16 frame of Inl e \<Rightarrow> Inl e | Inr c \<Rightarrow> Inr (frame @ c)))"

definition build_relay_command :: "int \<Rightarrow> pyval \<Rightarrow> pyval \<Rightarrow> byte list py" where
  "build_relay_command device channel action =
     (case py_lt channel 1 of
        Inl e \<Rightarrow> Inl e
      | Inr below \<Rightarrow>
          (case (if below then Inr True else py_gt channel 8) of
             Inl e \<Rightarrow> Inl e
           | Inr out_of_range \<Rightarrow>
               if out_of_range then Inl (ValueError ''channel must be 1-8'')
               else if action = PStr ''on'' then
                 frame_with_crc [PInt device, PInt WRITE_REG, PInt 0, channel, PInt 1, PInt 0]
               else if action = PStr ''off'' then
                 frame_with_crc [PInt device, PInt WRITE_REG, PInt 0, channel, PInt 2, PInt 0]
               else Inl action_error))"

definition build_read_input :: "int \<Rightarrow> pyval \<Rightarrow> byte list py" where
  "build_read_input device input_num =
     (case py_add 0x0080 input_num of
        Inl e \<Rightarrow> Inl e
      | Inr addr \<Rightarrow>
          frame_with_crc [PInt device, PInt READ_REG, PInt (drop_bit 8 addr AND 0xFF),
                          PInt (addr AND 0xFF), PInt 0, PInt 1])"

definition build_read_output :: "int \<Rightarrow> pyval \<Rightarrow> byte list py" where
  "build_read_output device output_num =
     frame_with_crc [PInt device, PInt READ_REG, PInt 0, output_num, PInt 0, PInt 1]"

subsection \<open>Builders of the text front ends\<close>

definition build_relay_command_text :: "int \<Rightarrow> int \<Rightarrow> string \<Rightarrow> byte list py" where
  "build_relay_command_text device channel action =
     (let reg_hi = 0; reg_lo = channel in
      case (if action = ''on'' then Some (1, 0)
            else if action = ''off'' then Some (2, 0) else None) of
        None \<Rightarrow> Inl action_error
      | Some (data_hi, data_lo) \<Rightarrow>
          if 8 < channel \<or> channel < 1 then Inl (ValueError ''channel must be 1-8'')
          else frame_with_crc (map PInt [device, WRITE_REG, reg_hi, reg_lo, data_hi, data_lo]))"

definition builst_read_output :: "int \<Rightarrow> int \<Rightarrow> byte list py" where
  "builst_read_output device output_num =
     (let addr = output_num in
      frame_with_crc (map PInt [device, READ_REG, drop_bit 8 addr AND 0xFF, addr AND 0xFF, 0, 1]))"

definition builst_read_output_raw :: "int \<Rightarrow> int \<Rightarrow> byte list py" where
  "builst_read_output_raw device output_num =
     (let addr = output_num + 1 in
      frame_with_crc (map PInt [device, READ_REG, drop_bit 8 addr AND 0xFF, addr AND 0xFF, 0, 1]))"

text \<open>
  \<^verbatim>\<open>build_read_input\<close> of the text bridge and of the tester, two identical copies taking
  the input number as an int.
\<close>

definition build_read_input_text :: "int \<Rightarrow> int \<Rightarrow> byte list py" where
  "build_read_input_text device input_num =
     (let addr = 0x0080 + input_num in
      frame_with_crc (map PInt [device, READ_REG, drop_bit 8 addr AND 0xFF, addr AND 0xFF, 0, 1]))"

definition build_read_input_raw :: "int \<Rightarrow> int \<Rightarrow> byte list py" where
  "build_read_input_raw device input_num =
     (let addr = 0x0080 + input_num in
      frame_with_crc (map PInt [device, READ_REG, drop_bit 8 addr AND 0xFF, addr AND 0xFF, 0, 1]))"

subsection \<open>The abstract channel address map\<close>

datatype relay_action = On | Off

datatype request =
    RelayWrite nat relay_action
  | InputRead nat
  | OutputRead nat

fun action_word :: "relay_action \<Rightarrow> string" where
  "action_word On = ''on''"
| "action_word Off = ''off''"

fun request_code :: "request \<Rightarrow> byte" where
  "request_code (RelayWrite _ _) = 0x06"
| "request_code (InputRead _) = 0x03"
| "request_code (OutputRead _) = 0x03"

fun request_register :: "request \<Rightarrow> reg16" where
  "request_register (RelayWrite ch _) = of_nat ch"
| "request_register (InputRead ch) = 0x0080 + of_nat ch"
| "request_register (OutputRead ch) = of_nat ch"

fun request_data :: "request \<Rightarrow> reg16" where
  "request_data (RelayWrite _ On) = 0x0100"
| "request_data (RelayWrite _ Off) = 0x0200"
| "request_data (InputRead _) = 0x0001"
| "request_data (OutputRead _) = 0x0001"

definition request_body :: "byte \<Rightarrow> request \<Rightarrow> byte list" where
  "request_body dev rq =
     [dev, request_code rq,
      ucast (drop_bit 8 (request_register rq)), ucast (request_register rq),
      ucast (drop_bit 8 (request_data rq)), ucast (request_data rq)]"

definition request_frame :: "byte \<Rightarrow> request \<Rightarrow> byte list" where
  "request_frame dev rq = request_body dev rq @ le16 (crc_loop_w 0xFFFF (request_body dev rq))"

definition valid_channel :: "nat \<Rightarrow> bool" where
  "valid_channel ch \<longleftrightarrow> 1 \<le> ch \<and> ch \<le> 8"

subsection \<open>Lemmas on frame_with_crc\<close>

lemma frame_with_crc_Inr:
  "frame_with_crc vals = Inr fr \<Longrightarrow>
     \<exists>body. py_bytes vals = Inr body \<and> fr = body @ le16 (crc_loop_w 0xFFFF body)"
  by (auto simp: frame_with_crc_def crc16_eq_w split: sum.splits)

lemma frame_with_crc_valid:
  assumes "frame_with_crc vals = Inr fr"
  shows "length fr = length vals + 2 \<and> crc_valid fr"
proof -
  obtain body where b: "py_bytes vals = Inr body" and fr: "fr = body @ le16 (crc_loop_w 0xFFFF body)"
    using frame_with_crc_Inr [OF assms] by blast
  have "length body = length vals" using b by (rule py_bytes_length)
  moreover have "crc_valid fr"
    unfolding fr by (rule crc_valid_append) (simp add: crc16_eq_w)
  ultimately show ?thesis by (simp add: fr le16_def)
qed

lemma frame_with_crc_bytes:
  "py_bytes vals = Inr body \<Longrightarrow> frame_with_crc vals = Inr (body @ le16 (crc_loop_w 0xFFFF body))"
  by (simp add: frame_with_crc_def crc16_eq_w)

lemma frame_with_crc_error:
  "py_bytes vals = Inl e \<Longrightarrow> frame_with_crc vals = Inl e"
  by (simp add: frame_with_crc_def)

lemma byte_field_range [simp]: "0 \<le> (k::int) AND 0xFF" "(k::int) AND 0xFF < 256"
  by simp_all

lemma frame_with_crc_ints:
  "list_all (\<lambda>i. 0 \<le> i \<and> i < 256) xs \<Longrightarrow>
     frame_with_crc (map PInt xs) = Inr (map word_of_int xs @ le16 (crc_loop_w 0xFFFF (map word_of_int xs)))"
  by (simp add: frame_with_crc_bytes py_bytes_ints del: list.map)

lemma uint_byte_less [simp]: "uint (d::byte) < 256"
  using uint_lt2p [of d] by simp

lemma valid_channel_cases:
  "valid_channel ch \<Longrightarrow> ch = 1 \<or> ch = 2 \<or> ch = 3 \<or> ch = 4 \<or> ch = 5 \<or> ch = 6 \<or> ch = 7 \<or> ch = 8"
  unfolding valid_channel_def by presburger

subsection \<open>Lemmas on the builders\<close>

lemma build_relay_command_in_range:
  "\<not> ch < 1 \<Longrightarrow> \<not> 8 < ch \<Longrightarrow> build_relay_command dev (PInt ch) action =
     (if action = PStr ''on'' then frame_with_crc (map PInt [dev, WRITE_REG, 0, ch, 1, 0])
      else if action = PStr ''off'' then frame_with_crc (map PInt [dev, WRITE_REG, 0, ch, 2, 0])
      else Inl action_error)"
  by (simp add: build_relay_command_def py_simps)

lemma relay_body:
  "valid_channel ch \<Longrightarrow>
     map word_of_int [uint d, WRITE_REG, 0, int ch, if a = On then 1 else 2, 0] = request_body d (RelayWrite ch a)"
  by (cases a; drule valid_channel_cases; auto simp: request_body_def WRITE_REG_def)

lemma build_relay_command_frame:
  "build_relay_command dev c act = Inr fr \<Longrightarrow> length fr = 8 \<and> crc_valid fr"
  unfolding build_relay_command_def
  by (auto split: sum.splits if_splits dest!: frame_with_crc_valid)

lemma build_read_input_frame:
  "build_read_input dev c = Inr fr \<Longrightarrow> length fr = 8 \<and> crc_valid fr"
  unfolding build_read_input_def
  by (auto split: sum.splits dest!: frame_with_crc_valid)

lemma build_read_output_frame:
  "build_read_output dev c = Inr fr \<Longrightarrow> length fr = 8 \<and> crc_valid fr"
  unfolding build_read_output_def
  by (auto dest!: frame_with_crc_valid)

lemma build_relay_command_text_frame:
  "build_relay_command_text dev k a = Inr fr \<Longrightarrow> length fr = 8 \<and> crc_valid fr"
  unfolding build_relay_command_text_def Let_def
  by (auto split: if_splits dest!: frame_with_crc_valid)

lemma builst_read_output_frame:
  "builst_read_output dev k = Inr fr \<Longrightarrow> length fr = 8 \<and> crc_valid fr"
  unfolding builst_read_output_def Let_def
  by (auto dest!: frame_with_crc_valid)

lemma builst_read_output_raw_shift:
  "builst_read_output_raw dev k = builst_read_output dev (k + 1)"
  by (simp add: builst_read_output_raw_def builst_read_output_def)

lemma relay_request:
  assumes "valid_channel ch"
  shows "build_relay_command (uint d) (PInt (int ch)) (PStr (action_word a)) =
           Inr (request_frame d (RelayWrite ch a))"
proof -
  have r: "\<not> int ch < 1" "\<not> 8 < int ch" using assms by (simp_all add: valid_channel_def)
  have "build_relay_command (uint d) (PInt (int ch)) (PStr (action_word a)) =
        frame_with_crc (map PInt [uint d, WRITE_REG, 0, int ch, if a = On then 1 else 2, 0])"
    using r by (cases a) (simp_all add: build_relay_command_in_range)
  also have "\<dots> = Inr (map word_of_int [uint d, WRITE_REG, 0, int ch, if a = On then 1 else 2, 0] @
      le16 (crc_loop_w 0xFFFF (map word_of_int [uint d, WRITE_REG, 0, int ch, if a = On then 1 else 2, 0])))"
    using r by (intro frame_with_crc_ints) (simp add: WRITE_REG_def)
  also have "\<dots> = Inr (request_frame d (RelayWrite ch a))"
    by (simp only: relay_body [OF assms] request_frame_def)
  finally show ?thesis .
qed

lemma read_input_request:
  "valid_channel ch \<Longrightarrow> build_read_input (uint d) (PInt (int ch)) = Inr (request_frame d (InputRead ch))"
  by (drule valid_channel_cases, elim disjE)
     (simp_all add: build_read_input_def py_simps frame_with_crc_bytes
                    request_frame_def request_body_def READ_REG_def)

lemma read_output_request:
  "valid_channel ch \<Longrightarrow> build_read_output (uint d) (PInt (int ch)) = Inr (request_frame d (OutputRead ch))"
  by (drule valid_channel_cases, elim disjE)
     (simp_all add: build_read_output_def frame_with_crc_bytes
                    request_frame_def request_body_def READ_REG_def)

lemma relay_text_request:
  assumes "valid_channel ch"
  shows "build_relay_command_text (uint d) (int ch) (action_word a) = Inr (request_frame d (RelayWrite ch a))"
proof -
  have r: "\<not> 8 < int ch" "\<not> int ch < 1" using assms by (simp_all add: valid_channel_def)
  have "build_relay_command_text (uint d) (int ch) (action_word a) =
        frame_with_crc (map PInt [uint d, WRITE_REG, 0, int ch, if a = On then 1 else 2, 0])"
    using r by (cases a) (simp_all add: build_relay_command_text_def)
  also have "\<dots> = Inr (map word_of_int [uint d, WRITE_REG, 0, int ch, if a = On then 1 else 2, 0] @
      le16 (crc_loop_w 0xFFFF (map word_of_int [uint d, WRITE_REG, 0, int ch, if a = On then 1 else 2, 0])))"
    using r by (intro frame_with_crc_ints) (simp add: WRITE_REG_def)
  also have "\<dots> = Inr (request_frame d (RelayWrite ch a))"
    by (simp only: relay_body [OF assms] request_frame_def)
  finally show ?thesis .
qed

lemma builst_read_output_request:
  "valid_channel ch \<Longrightarrow> builst_read_output (uint d) (int ch) = Inr (request_frame d (OutputRead ch))"
  by (drule valid_channel_cases, elim disjE)
     (simp_all add: builst_read_output_def frame_with_crc_bytes request_frame_def request_body_def READ_REG_def)

text \<open>The copies of \<^verbatim>\<open>build_read_input\<close> compute the JSON bridge's function on ints.\<close>

lemma build_read_input_copies:
  "build_read_input_text dev i = build_read_input dev (PInt i)"
  "build_read_input_raw dev i = build_read_input dev (PInt i)"
  by (simp_all add: build_read_input_text_def build_read_input_raw_def build_read_input_def py_add_int Let_def)

lemma build_read_input_copies_frame:
  "build_read_input_text dev i = Inr fr \<Longrightarrow> length fr = 8 \<and> crc_valid fr"
  "build_read_input_raw dev i = Inr fr \<Longrightarrow> length fr = 8 \<and> crc_valid fr"
  unfolding build_read_input_text_def build_read_input_raw_def Let_def
  by (auto dest!: frame_with_crc_valid)

lemmas builder_frames =
  build_relay_command_frame build_read_input_frame build_read_output_frame
  build_relay_command_text_frame builst_read_output_frame build_read_input_copies_frame

subsection \<open>Properties of the builders\<close>

text \<open>
  The relay command frame. For a device id in \<open>[0, 255]\<close>, a channel in \<open>[1, 8]\<close> and
  the action \<^verbatim>\<open>on\<close> or \<^verbatim>\<open>off\<close>, the JSON bridge's \<^verbatim>\<open>build_relay_command\<close> returns 8 bytes:
  device, function 06, register 00 and the channel, data 01 00 (on) or 02 00 (off), then
  the CRC16 of those six bytes.
\<close>

theorem build_relay_command_layout:
  assumes "0 \<le> dev" "dev < 256" "1 \<le> ch" "ch \<le> 8" "a = ''on'' \<or> a = ''off''"
  shows "\<exists>fr. build_relay_command dev (PInt ch) (PStr a) = Inr fr \<and> length fr = 8 \<and>
     take 6 fr = [word_of_int dev, 0x06, 0, word_of_int ch, if a = ''on'' then 1 else 2, 0] \<and>
     crc16 (take 6 fr) = Inr (drop 6 fr)"
proof -
  define d where "d = (if a = ''on'' then 1 else 2 :: int)"
  have "build_relay_command dev (PInt ch) (PStr a) = frame_with_crc (map PInt [dev, WRITE_REG, 0, ch, d, 0])"
    using assms by (auto simp: build_relay_command_in_range d_def)
  also have "\<dots> = Inr (map word_of_int [dev, WRITE_REG, 0, ch, d, 0] @
                      le16 (crc_loop_w 0xFFFF (map word_of_int [dev, WRITE_REG, 0, ch, d, 0])))"
    using assms by (intro frame_with_crc_ints) (simp add: WRITE_REG_def d_def)
  finally show ?thesis
    using assms by (simp add: le16_def crc16_eq_w WRITE_REG_def d_def)
qed

theorem build_relay_command_layout_witness:
  "\<exists>fr. build_relay_command 1 (PInt 3) (PStr ''on'') = Inr fr \<and> length fr = 8 \<and>
     take 6 fr = [1, 0x06, 0, 3, 1, 0] \<and> crc16 (take 6 fr) = Inr (drop 6 fr)"
  using build_relay_command_layout [of 1 3 "''on''"] by simp

text \<open>
  C4: refinement of the channel address map. For every device byte and channel 1--8, the
  JSON bridge's three builders return exactly the frame of the abstract request: relay
  writes at register = channel with data 0100/0200, input reads at register
  0x0080 + channel, output reads at register = channel, each with its CRC appended.
\<close>

theorem builders_refine_address_map:
  assumes "valid_channel ch"
  shows "build_relay_command (uint d) (PInt (int ch)) (PStr (action_word a)) =
           Inr (request_frame d (RelayWrite ch a)) \<and>
         build_read_input (uint d) (PInt (int ch)) = Inr (request_frame d (InputRead ch)) \<and>
         build_read_output (uint d) (PInt (int ch)) = Inr (request_frame d (OutputRead ch))"
  using relay_request [OF assms] read_input_request [OF assms] read_output_request [OF assms]
  by blast

theorem builders_refine_address_map_witness:
  "valid_channel 3 \<and>
   build_relay_command (uint (1::byte)) (PInt 3) (PStr ''off'') = Inr (request_frame 1 (RelayWrite 3 Off)) \<and>
   build_read_input (uint (1::byte)) (PInt 3) = Inr (request_frame 1 (InputRead 3)) \<and>
   build_read_output (uint (1::byte)) (PInt 3) = Inr (request_frame 1 (OutputRead 3))"
proof -
  have v: "valid_channel 3" by (simp add: valid_channel_def)
  show ?thesis using builders_refine_address_map [OF v, of 1 Off] v by simp
qed

text \<open>
  C5: every frame is well formed. Whatever the arguments, a frame returned by any of the
  builders (the JSON bridge's three, the text front ends' relay builder and their output
  status builders) has 8 bytes and passes the strict CRC check.
\<close>

theorem builders_frames_valid:
  "(\<forall>fr. build_relay_command dev c act = Inr fr \<longrightarrow> length fr = 8 \<and> crc_valid fr) \<and>
   (\<forall>fr. build_read_input dev c = Inr fr \<longrightarrow> length fr = 8 \<and> crc_valid fr) \<and>
   (\<forall>fr. build_read_output dev c = Inr fr \<longrightarrow> length fr = 8 \<and> crc_valid fr) \<and>
   (\<forall>fr. build_relay_command_text dev k a = Inr fr \<longrightarrow> length fr = 8 \<and> crc_valid fr) \<and>
   (\<forall>fr. builst_read_output dev k = Inr fr \<longrightarrow> length fr = 8 \<and> crc_valid fr) \<and>
   (\<forall>fr. builst_read_output_raw dev k = Inr fr \<longrightarrow> length fr = 8 \<and> crc_valid fr)"
  by (simp add: builder_frames builst_read_output_raw_shift)

theorem builders_frames_valid_witness:
  "build_relay_command 1 (PInt 2) (PStr ''off'') = Inr [1, 6, 0, 2, 2, 0, 0x29, 0x6A] \<and>
   length [1, 6, 0, 2, 2, 0, 0x29, 0x6A :: byte] = 8 \<and> crc_valid [1, 6, 0, 2, 2, 0, 0x29, 0x6A]"
proof -
  have h: "build_relay_command 1 (PInt 2) (PStr ''off'') = Inr [1, 6, 0, 2, 2, 0, 0x29, 0x6A]"
    by code_simp
  show ?thesis using h builders_frames_valid [of 1 "PInt 2" "PStr ''off''"] by blast
qed

text \<open>
  C6: an invalid channel is an error before any frame exists. For a channel number outside
  1--8, the JSON bridge's \<^verbatim>\<open>build_relay_command\<close> raises \<^verbatim>\<open>ValueError("channel must be
  1-8")\<close>, whatever the device and whatever the action: the channel is checked first.
\<close>

theorem build_relay_command_rejects_channel:
  "ch < 1 \<or> 8 < ch \<Longrightarrow>
     build_relay_command dev (PInt ch) action = Inl (ValueError ''channel must be 1-8'')"
  by (auto simp: build_relay_command_def py_simps)

theorem build_relay_command_rejects_channel_witness:
  "((9::int) < 1 \<or> 8 < (9::int)) \<and>
   build_relay_command 1 (PInt 9) (PStr ''toggle'') = Inl (ValueError ''channel must be 1-8'')"
  using build_relay_command_rejects_channel [of 9 1 "PStr ''toggle''"] by simp

text \<open>
  End-to-end frames. Relay 1 on at device 1 is \<^verbatim>\<open>01 06 00 01 01 00 D9 9A\<close>; reading
  input 1 at device 1 addresses register 0x0081 and gives \<^verbatim>\<open>01 03 00 81 00 01 D4 22\<close>;
  reading output 1 (JSON bridge) gives \<^verbatim>\<open>01 03 00 01 00 01 D5 CA\<close>, the manual's example.
\<close>

theorem builders_end_to_end_frames:
  "build_relay_command 1 (PInt 1) (PStr ''on'') = Inr [1, 6, 0, 1, 1, 0, 0xD9, 0x9A] \<and>
   build_read_input 1 (PInt 1) = Inr [1, 3, 0, 0x81, 0, 1, 0xD4, 0x22] \<and>
   build_read_output 1 (PInt 1) = Inr [1, 3, 0, 1, 0, 1, 0xD5, 0xCA]"
  by code_simp

text \<open>
  C7: the read builders do not check the channel. For a valid device id,
  \<^verbatim>\<open>build_read_input\<close> returns an 8-byte frame for every integer channel (0, 9, negative
  ones alike), and the JSON bridge's \<^verbatim>\<open>build_read_output\<close> does so for every channel in
  \<open>[0, 255]\<close>; outside that range it fails only because \<^verbatim>\<open>bytes()\<close> rejects the value.
  The specification's \<open>InvalidChannel\<close> error is never raised by a read.
\<close>

theorem read_builders_accept_any_channel:
  assumes "0 \<le> dev" "dev < 256"
  shows "(\<exists>fr. build_read_input dev (PInt ch) = Inr fr \<and> length fr = 8) \<and>
         (0 \<le> ch \<and> ch < 256 \<longrightarrow> (\<exists>fr. build_read_output dev (PInt ch) = Inr fr \<and> length fr = 8)) \<and>
         (ch < 0 \<or> 256 \<le> ch \<longrightarrow>
            build_read_output dev (PInt ch) = Inl (ValueError ''bytes must be in range(0, 256)''))"
proof (intro conjI impI)
  have "build_read_input dev (PInt ch) =
        frame_with_crc (map PInt [dev, READ_REG, drop_bit 8 (0x80 + ch) AND 0xFF, (0x80 + ch) AND 0xFF, 0, 1])"
    by (simp add: build_read_input_def py_simps)
  also have "\<dots> = Inr (map word_of_int [dev, READ_REG, drop_bit 8 (0x80 + ch) AND 0xFF, (0x80 + ch) AND 0xFF, 0, 1] @
      le16 (crc_loop_w 0xFFFF (map word_of_int [dev, READ_REG, drop_bit 8 (0x80 + ch) AND 0xFF, (0x80 + ch) AND 0xFF, 0, 1])))"
    using assms by (intro frame_with_crc_ints) (simp add: READ_REG_def)
  finally show "\<exists>fr. build_read_input dev (PInt ch) = Inr fr \<and> length fr = 8"
    by (simp add: le16_def)
next
  assume "0 \<le> ch \<and> ch < 256"
  then have "build_read_output dev (PInt ch) = Inr (map word_of_int [dev, READ_REG, 0, ch, 0, 1] @
      le16 (crc_loop_w 0xFFFF (map word_of_int [dev, READ_REG, 0, ch, 0, 1])))"
    using assms unfolding build_read_output_def
    by (subst frame_with_crc_ints [symmetric]) (simp_all add: READ_REG_def)
  then show "\<exists>fr. build_read_output dev (PInt ch) = Inr fr \<and> length fr = 8"
    by (simp add: le16_def)
next
  assume "ch < 0 \<or> 256 \<le> ch"
  then show "build_read_output dev (PInt ch) = Inl (ValueError ''bytes must be in range(0, 256)'')"
    using assms by (auto simp: build_read_output_def frame_with_crc_def READ_REG_def)
qed

theorem read_builders_accept_any_channel_witness:
  "(\<exists>fr. build_read_input 1 (PInt 9) = Inr fr \<and> length fr = 8) \<and>
   (\<exists>fr. build_read_output 1 (PInt 9) = Inr fr \<and> length fr = 8) \<and>
   build_read_output 1 (PInt 300) = Inl (ValueError ''bytes must be in range(0, 256)'')"
  using read_builders_accept_any_channel [of 1 9] read_builders_accept_any_channel [of 1 300] by simp

text \<open>
  C8: the two output-status policies. The interactive tester's \<^verbatim>\<open>builst_read_output\<close>
  builds the frame that the MQTT text bridge's builds for channel + 1; for channels 1--8 the
  JSON bridge and the MQTT text bridge build the same frame, and the tester's frame differs
  from it: the tester polls registers 2--9 where the others poll 1--8. The input-status
  builders, in contrast, agree: the copies of \<^verbatim>\<open>build_read_input\<close> in the text bridge
  and the tester compute the JSON bridge's function on every int.
\<close>

theorem output_status_policies:
  "builst_read_output_raw dev ch = builst_read_output dev (ch + 1) \<and>
   (valid_channel n \<longrightarrow>
      build_read_output (uint (d::byte)) (PInt (int n)) = builst_read_output (uint d) (int n) \<and>
      builst_read_output_raw (uint d) (int n) \<noteq> builst_read_output (uint d) (int n)) \<and>
   build_read_input_text dev i = build_read_input dev (PInt i) \<and>
   build_read_input_raw dev i = build_read_input dev (PInt i)"
proof (intro conjI impI)
  show "builst_read_output_raw dev ch = builst_read_output dev (ch + 1)"
    by (rule builst_read_output_raw_shift)
next
  assume "valid_channel n"
  from valid_channel_cases [OF this]
  show "build_read_output (uint d) (PInt (int n)) = builst_read_output (uint d) (int n)"
    by (elim disjE) (simp_all add: build_read_output_def builst_read_output_def)
next
  assume "valid_channel n"
  from valid_channel_cases [OF this]
  show "builst_read_output_raw (uint d) (int n) \<noteq> builst_read_output (uint d) (int n)"
    by (elim disjE) (simp_all add: builst_read_output_raw_def builst_read_output_def
                                  frame_with_crc_def crc16_eq_w READ_REG_def)
next
  show "build_read_input_text dev i = build_read_input dev (PInt i)" by (rule build_read_input_copies(1))
next
  show "build_read_input_raw dev i = build_read_input dev (PInt i)" by (rule build_read_input_copies(2))
qed

theorem output_status_policies_witness:
  "valid_channel 8 \<and>
   build_read_output (uint (1::byte)) (PInt 8) = builst_read_output (uint (1::byte)) 8 \<and>
   builst_read_output_raw (uint (1::byte)) 8 \<noteq> builst_read_output (uint (1::byte)) 8"
proof -
  have v: "valid_channel 8" by (simp add: valid_channel_def)
  show ?thesis using output_status_policies [of 0 0 8 1] v by simp
qed

text \<open>
  C9: the text front ends validate in the other order. Their \<^verbatim>\<open>build_relay_command\<close>
  raises the action error for any action other than on/off, even when the channel is
  also invalid; with a valid action and a channel outside 1--8 it raises the channel error.
\<close>

theorem build_relay_command_text_errors:
  "(a \<noteq> ''on'' \<and> a \<noteq> ''off'' \<longrightarrow> build_relay_command_text dev ch a = Inl action_error) \<and>
   ((a = ''on'' \<or> a = ''off'') \<and> (ch < 1 \<or> 8 < ch) \<longrightarrow>
      build_relay_command_text dev ch a = Inl (ValueError ''channel must be 1-8''))"
  by (auto simp: build_relay_command_text_def)

theorem build_relay_command_text_errors_witness:
  "build_relay_command_text 1 9 ''toggle'' = Inl action_error \<and>
   build_relay_command_text 1 9 ''on'' = Inl (ValueError ''channel must be 1-8'')"
  using build_relay_command_text_errors [of "''toggle''" 1 9] build_relay_command_text_errors [of "''on''" 1 9]
  by simp

end
