(* ===== verification/Serial.thy ===== *)
theory Serial
  imports Prelude
begin

text \<open>
  The serial port (\<^verbatim>\<open>serial.Serial\<close> of pyserial) as the environment of the bridges.
  The port holds the bytes received and not yet read (\<open>in_buf\<close>), the bytes of a reply
  still on the line that arrive only after the current read returns (\<open>in_flight\<close>), the
  log of the frames written (\<open>wire\<close>), and the device's replies to the coming requests
  (\<open>pending\<close>): each reply is the part that arrives within the read window and the part
  that arrives late. A reply with both parts empty is a device that did not answer.

  \<open>ser_reset_input_buffer\<close>, \<open>ser_write\<close> and \<open>ser_read\<close> are the three methods the code
  calls; \<open>exchange\<close> is the sequence every command of every front end performs:
  \<^verbatim>\<open>ser.reset_input_buffer(); ser.write(frame); time.sleep(...); resp = ser.read(256)\<close>.
  The sleep only lets the reply arrive, which the model does at the write.

  \<open>batch\<close> is the loop of the batch commands of all front ends
  (\<^verbatim>\<open>for i in range(1, 9)\<close>): build the frame for channel \<open>i\<close> (which may raise),
  exchange it, turn the response into a result entry (which may raise) and append it.
  A raise ends the loop with the entries and the port reached so far.
\<close>

datatype reply = Reply (reply_now: "byte list") (reply_late: "byte list")

record serial =
  in_buf :: "byte list"
  in_flight :: "byte list"
  wire :: "byte list list"
  pending :: "reply list"

definition ser_reset_input_buffer :: "serial \<Rightarrow> serial" where
  "ser_reset_input_buffer s = s\<lparr>in_buf := []\<rparr>"

definition ser_write :: "byte list \<Rightarrow> serial \<Rightarrow> serial" where
  "ser_write frame s =
     (case pending s of
        [] \<Rightarrow> s\<lparr>wire := wire s @ [frame]\<rparr>
      | Reply now late # rest \<Rightarrow>
          s\<lparr>wire := wire s @ [frame], in_buf := in_buf s @ now,
            in_flight := in_flight s @ late, pending := rest\<rparr>)"

definition ser_read :: "nat \<Rightarrow> serial \<Rightarrow> byte list \<times> serial" where
  "ser_read n s = (take n (in_buf s), s\<lparr>in_buf := drop n (in_buf s) @ in_flight s, in_flight := []\<rparr>)"

definition exchange :: "byte list \<Rightarrow> serial \<Rightarrow> byte list \<times> serial" where
  "exchange frame s = ser_read 256 (ser_write frame (ser_reset_input_buffer s))"

text \<open>A port with no bytes in flight: the state before and after every exchange.\<close>

definition settled :: "serial \<Rightarrow> bool" where
  "settled s \<longleftrightarrow> in_flight s = []"

text \<open>The reply the device gives to the next request: nothing once the script runs out.\<close>

definition next_reply :: "serial \<Rightarrow> reply" where
  "next_reply s = (case pending s of [] \<Rightarrow> Reply [] [] | r # _ \<Rightarrow> r)"

fun batch :: "(int \<Rightarrow> byte list py) \<Rightarrow> (int \<Rightarrow> byte list \<Rightarrow> 'a py) \<Rightarrow> int list \<Rightarrow> 'a list \<Rightarrow>
                serial \<Rightarrow> py_error option \<times> 'a list \<times> serial" where
  "batch build entry [] acc s = (None, acc, s)"
| "batch build entry (i # is) acc s =
     (case build i of
        Inl e \<Rightarrow> (Some e, acc, s)
      | Inr frame \<Rightarrow>
          (let (resp, s1) = exchange frame s in
           case entry i resp of
             Inl e \<Rightarrow> (Some e, acc, s1)
           | Inr x \<Rightarrow> batch build entry is (acc @ [x]) s1))"

text \<open>The response the \<open>k\<close>-th exchange from now returns, for a script of replies.\<close>

definition script_resp :: "reply list \<Rightarrow> nat \<Rightarrow> byte list" where
  "script_resp rs k = take 256 (reply_now (if k < length rs then rs ! k else Reply [] []))"

subsection \<open>Lemmas on one exchange\<close>

lemma exchange_resp:
  "settled s \<Longrightarrow> fst (exchange frame s) = take 256 (reply_now (next_reply s))"
  by (auto simp: exchange_def ser_read_def ser_write_def ser_reset_input_buffer_def settled_def
                 next_reply_def split: list.splits reply.splits)

lemma exchange_settled: "settled (snd (exchange frame s))"
  by (simp add: exchange_def ser_read_def settled_def)

lemma exchange_wire: "wire (snd (exchange frame s)) = wire s @ [frame]"
  by (auto simp: exchange_def ser_read_def ser_write_def ser_reset_input_buffer_def
           split: list.splits reply.splits)

lemma exchange_pending: "pending (snd (exchange frame s)) = drop 1 (pending s)"
  by (auto simp: exchange_def ser_read_def ser_write_def ser_reset_input_buffer_def
           split: list.splits reply.splits)

lemma exchange_resp_length: "length (fst (exchange frame s)) \<le> 256"
  by (simp add: exchange_def ser_read_def)

lemma next_reply_resp: "take 256 (reply_now (next_reply s)) = script_resp (pending s) 0"
  by (simp add: next_reply_def script_resp_def split: list.splits)

lemma script_resp_drop: "script_resp (drop (Suc 0) rs) k = script_resp rs (Suc k)"
  by (cases rs) (simp_all add: script_resp_def)

subsection \<open>Lemmas on the batch loop\<close>

text \<open>A run in which every frame is built and every response interpreted.\<close>

lemma batch_complete:
  assumes "settled s"
    and "\<forall>i \<in> set is. \<exists>fr. build i = Inr fr"
    and "\<forall>k < length is. \<exists>y. entry (is ! k) (script_resp (pending s) k) = Inr y"
  shows "\<exists>s'. batch build entry is acc s =
           (None, acc @ map (\<lambda>k. projr (entry (is ! k) (script_resp (pending s) k))) [0..<length is], s') \<and>
         wire s' = wire s @ map (\<lambda>i. projr (build i)) is \<and>
         pending s' = drop (length is) (pending s) \<and> settled s'"
  using assms
proof (induction "is" arbitrary: acc s)
  case Nil
  then show ?case by simp
next
  case (Cons i "is")
  obtain fr where fr: "build i = Inr fr" using Cons.prems(2) by auto
  obtain resp s1 where ex: "exchange fr s = (resp, s1)" by fastforce
  have resp: "resp = script_resp (pending s) 0"
    using exchange_resp [OF Cons.prems(1), of fr] ex by (simp add: next_reply_resp)
  obtain y where y: "entry i (script_resp (pending s) 0) = Inr y"
    using Cons.prems(3) by fastforce
  have s1: "settled s1" "wire s1 = wire s @ [fr]" "pending s1 = drop 1 (pending s)"
    using exchange_settled [of fr s] exchange_wire [of fr s] exchange_pending [of fr s] ex by simp_all
  have b: "\<forall>i \<in> set is. \<exists>fr. build i = Inr fr" using Cons.prems(2) by simp
  have k: "\<forall>k < length is. \<exists>y. entry (is ! k) (script_resp (pending s1) k) = Inr y"
  proof (intro allI impI)
    fix k assume "k < length is"
    then have "Suc k < length (i # is)" by simp
    then obtain z where "entry ((i # is) ! Suc k) (script_resp (pending s) (Suc k)) = Inr z"
      using Cons.prems(3) by blast
    then show "\<exists>y. entry (is ! k) (script_resp (pending s1) k) = Inr y"
      by (simp add: s1(3) script_resp_drop)
  qed
  obtain s' where
    IH: "batch build entry is (acc @ [y]) s1 =
           (None, (acc @ [y]) @ map (\<lambda>k. projr (entry (is ! k) (script_resp (pending s1) k))) [0..<length is], s')"
    and w: "wire s' = wire s1 @ map (\<lambda>i. projr (build i)) is"
    and p: "pending s' = drop (length is) (pending s1)" and st: "settled s'"
    using Cons.IH [OF s1(1) b k, of "acc @ [y]"] by blast
  have m: "map (\<lambda>k. projr (entry ((i # is) ! k) (script_resp (pending s) k))) [0..<length (i # is)] =
        y # map (\<lambda>k. projr (entry (is ! k) (script_resp (pending s1) k))) [0..<length is]"
    by (simp add: map_upt_Suc y s1(3) script_resp_drop del: upt_Suc)
  have step: "batch build entry (i # is) acc s = batch build entry is (acc @ [y]) s1"
    using fr ex y resp by simp
  show ?case
  proof (intro exI conjI)
    show "batch build entry (i # is) acc s =
      (None, acc @ map (\<lambda>k. projr (entry ((i # is) ! k) (script_resp (pending s) k))) [0..<length (i # is)], s')"
      by (simp only: step IH m append_assoc append_Cons append_Nil)
    show "wire s' = wire s @ map (\<lambda>i. projr (build i)) (i # is)"
      using w s1(2) fr by simp
    show "pending s' = drop (length (i # is)) (pending s)"
      using p s1(3) by simp
    show "settled s'" by (rule st)
  qed
qed
lemma batch_step:
  assumes "settled s" "build i = Inr fr"
  shows "\<exists>s1. batch build entry (i # is) acc s =
            (case entry i (script_resp (pending s) 0) of
               Inl e \<Rightarrow> (Some e, acc, s1)
             | Inr y \<Rightarrow> batch build entry is (acc @ [y]) s1) \<and>
          settled s1 \<and> wire s1 = wire s @ [fr] \<and> pending s1 = drop 1 (pending s)"
proof -
  obtain resp s1 where ex: "exchange fr s = (resp, s1)" by fastforce
  have "resp = script_resp (pending s) 0"
    using exchange_resp [OF assms(1), of fr] ex by (simp add: next_reply_resp)
  moreover have "settled s1" "wire s1 = wire s @ [fr]" "pending s1 = drop 1 (pending s)"
    using exchange_settled [of fr s] exchange_wire [of fr s] exchange_pending [of fr s] ex by simp_all
  ultimately show ?thesis
    using assms(2) ex by (intro exI [of _ s1]) (simp split: sum.splits)
qed

text \<open>A run that stops at the \<open>k\<close>-th channel because its response cannot be interpreted.\<close>

lemma batch_abort:
  assumes "settled s"
    and "\<forall>i \<in> set is. \<exists>fr. build i = Inr fr"
    and "k < length is"
    and "\<forall>j < k. \<exists>y. entry (is ! j) (script_resp (pending s) j) = Inr y"
    and "entry (is ! k) (script_resp (pending s) k) = Inl e"
  shows "\<exists>s'. batch build entry is acc s =
           (Some e, acc @ map (\<lambda>j. projr (entry (is ! j) (script_resp (pending s) j))) [0..<k], s') \<and>
         wire s' = wire s @ map (\<lambda>i. projr (build i)) (take (Suc k) is) \<and> settled s'"
  using assms
proof (induction "is" arbitrary: acc s k)
  case Nil
  then show ?case by simp
next
  case (Cons i "is")
  obtain fr where fr: "build i = Inr fr" using Cons.prems(2) by auto
  obtain s1 where s1: "batch build entry (i # is) acc s =
            (case entry i (script_resp (pending s) 0) of
               Inl e \<Rightarrow> (Some e, acc, s1)
             | Inr y \<Rightarrow> batch build entry is (acc @ [y]) s1)"
    and st1: "settled s1" "wire s1 = wire s @ [fr]" "pending s1 = drop 1 (pending s)"
    using batch_step [of s build i fr entry "is" acc, OF Cons.prems(1) fr] by blast
  show ?case
  proof (cases k)
    case 0
    with Cons.prems(5) s1 st1 fr show ?thesis by auto
  next
    case (Suc k')
    obtain y where y: "entry i (script_resp (pending s) 0) = Inr y"
      using Cons.prems(4) Suc by fastforce
    have b: "\<forall>i \<in> set is. \<exists>fr. build i = Inr fr" using Cons.prems(2) by simp
    have kl: "k' < length is" using Cons.prems(3) Suc by simp
    have pre: "\<forall>j < k'. \<exists>y. entry (is ! j) (script_resp (pending s1) j) = Inr y"
    proof (intro allI impI)
      fix j assume "j < k'"
      then have "Suc j < k" using Suc by simp
      then obtain z where "entry ((i # is) ! Suc j) (script_resp (pending s) (Suc j)) = Inr z"
        using Cons.prems(4) by blast
      then show "\<exists>y. entry (is ! j) (script_resp (pending s1) j) = Inr y"
        by (simp add: st1(3) script_resp_drop)
    qed
    have fail: "entry (is ! k') (script_resp (pending s1) k') = Inl e"
      using Cons.prems(5) Suc by (simp add: st1(3) script_resp_drop)
    obtain s' where
      IH: "batch build entry is (acc @ [y]) s1 =
             (Some e, (acc @ [y]) @ map (\<lambda>j. projr (entry (is ! j) (script_resp (pending s1) j))) [0..<k'], s')"
      and w: "wire s' = wire s1 @ map (\<lambda>i. projr (build i)) (take (Suc k') is)" and st: "settled s'"
      using Cons.IH [OF st1(1) b kl pre fail, of "acc @ [y]"] by blast
    have m: "map (\<lambda>j. projr (entry ((i # is) ! j) (script_resp (pending s) j))) [0..<k] =
          y # map (\<lambda>j. projr (entry (is ! j) (script_resp (pending s1) j))) [0..<k']"
      by (simp add: Suc map_upt_Suc y st1(3) script_resp_drop del: upt_Suc)
    show ?thesis
    proof (intro exI conjI)
      show "batch build entry (i # is) acc s =
        (Some e, acc @ map (\<lambda>j. projr (entry ((i # is) ! j) (script_resp (pending s) j))) [0..<k], s')"
        using s1 y IH m by simp
      show "wire s' = wire s @ map (\<lambda>i. projr (build i)) (take (Suc k) (i # is))"
        using w st1(2) fr Suc by simp
      show "settled s'" by (rule st)
    qed
  qed
qed

lemma batch_build_fails:
  "build i = Inl e \<Longrightarrow> batch build entry (i # is) acc s = (Some e, acc, s)"
  by simp


text \<open>Whatever the outcome, a batch only appends to the wire frames its builder returned.\<close>

lemma batch_wire:
  "batch build entry is acc s = (r, xs, s') \<Longrightarrow>
     \<exists>ws. wire s' = wire s @ ws \<and> (\<forall>fr \<in> set ws. \<exists>i \<in> set is. build i = Inr fr)"
proof (induction "is" arbitrary: acc s)
  case Nil
  then show ?case by auto
next
  case (Cons i "is")
  show ?case
  proof (cases "build i")
    case (Inl e)
    then show ?thesis using Cons.prems by auto
  next
    case (Inr fr)
    obtain resp s1 where ex: "exchange fr s = (resp, s1)" by fastforce
    have w1: "wire s1 = wire s @ [fr]" using exchange_wire [of fr s] ex by simp
    show ?thesis
    proof (cases "entry i resp")
      case (Inl e)
      then show ?thesis using Cons.prems Inr ex w1 by auto
    next
      case (Inr y)
      then have "batch build entry is (acc @ [y]) s1 = (r, xs, s')"
        using Cons.prems \<open>build i = Inr fr\<close> ex by simp
      then obtain ws where "wire s' = wire s1 @ ws" "\<forall>fr \<in> set ws. \<exists>i \<in> set is. build i = Inr fr"
        using Cons.IH by blast
      then show ?thesis using w1 \<open>build i = Inr fr\<close>
        by (intro exI [of _ "fr # ws"]) auto
    qed
  qed
qed


subsection \<open>Properties\<close>

text \<open>
  No stale replies, under the environment's timing assumption. In this model the late part
  of a reply reaches the input buffer right after the read that missed it, so the reset of
  the next exchange discards it together with the bytes left unread, and the response of
  an exchange that follows another one is exactly the device's reply to its own request.
  pyserial gives no such guarantee: a late part that arrives after the next reset is read
  as the start of the next response.
\<close>

theorem exchange_discards_stale_bytes:
  "fst (exchange fr2 (snd (exchange fr1 s))) = script_resp (pending s) 1"
  using exchange_resp [OF exchange_settled, of fr2 fr1 s]
  by (simp add: next_reply_resp exchange_pending script_resp_drop)

end
