(* ===== verification/Batch.thy ===== *)
theory Batch
  imports Frames Serial
begin

text \<open>
  The batch loop \<open>batch\<close> of the serial theory over the channel range
  \<^verbatim>\<open>range(1, 9)\<close> that every batch command of every front end uses, with a builder
  that returns the abstract request's frame for every channel 1--8. The two lemmas give
  the complete run and the run that stops at the first response its entry rejects, in
  terms of the script of device replies and the abstract frames. \<open>wire_grows s s'\<close> says
  that from port \<open>s\<close> to port \<open>s'\<close> only well-formed frames (8 bytes, correct CRC) were
  written.
\<close>

definition well_formed_frames :: "byte list list \<Rightarrow> bool" where
  "well_formed_frames ws \<longleftrightarrow> list_all (\<lambda>fr. length fr = 8 \<and> crc_valid fr) ws"

definition wire_grows :: "serial \<Rightarrow> serial \<Rightarrow> bool" where
  "wire_grows s s' \<longleftrightarrow> (\<exists>ws. wire s' = wire s @ ws \<and> well_formed_frames ws)"

lemma batch_well_formed:
  assumes "batch build entry is acc s = (r, xs, s')"
    and "\<And>i fr. build i = Inr fr \<Longrightarrow> length fr = 8 \<and> crc_valid fr"
  shows "\<exists>ws. wire s' = wire s @ ws \<and> well_formed_frames ws"
  using batch_wire [OF assms(1)] assms(2) by (fastforce simp: well_formed_frames_def list_all_iff)

lemma wire_grows_refl: "wire_grows s s"
  by (auto simp: wire_grows_def well_formed_frames_def)

lemma wire_grows_trans:
  assumes "wire_grows s1 s2" "wire_grows s2 s3"
  shows "wire_grows s1 s3"
proof -
  obtain ws ws' where "wire s2 = wire s1 @ ws" "well_formed_frames ws"
    "wire s3 = wire s2 @ ws'" "well_formed_frames ws'"
    using assms unfolding wire_grows_def by blast
  then show ?thesis unfolding wire_grows_def well_formed_frames_def
    by (intro exI [of _ "ws @ ws'"]) simp
qed

lemma wire_grows_exchange:
  "exchange fr s = (resp, s') \<Longrightarrow> length fr = 8 \<and> crc_valid fr \<Longrightarrow> wire_grows s s'"
  using exchange_wire [of fr s] by (auto simp: wire_grows_def well_formed_frames_def)

lemma wire_grows_batch:
  "batch build entry is acc s = (r, xs, s') \<Longrightarrow>
     (\<And>i fr. build i = Inr fr \<Longrightarrow> length fr = 8 \<and> crc_valid fr) \<Longrightarrow> wire_grows s s'"
  unfolding wire_grows_def by (simp add: batch_well_formed)

lemma upto_1_8: "[1..8] = map int [1..<9]"
  by (simp add: upto.simps numeral_eq_Suc upt_rec)

lemma channel_frames:
  assumes "\<And>n. valid_channel n \<Longrightarrow> build (int n) = Inr (R n)" "m \<le> 8"
  shows "map (\<lambda>i. projr (build i)) (take m [1..8]) = map R [1..<Suc m]"
proof -
  have "take m [1..8] = map int [1..<Suc m]"
    using assms(2) by (simp add: upto_1_8 take_map)
  moreover have "\<forall>n \<in> set [1..<Suc m]. projr (build (int n)) = R n"
    using assms by (auto simp: valid_channel_def)
  ultimately show ?thesis by simp
qed

lemma channel_batch_complete:
  assumes "settled s"
    and "\<And>n. valid_channel n \<Longrightarrow> build (int n) = Inr (R n)"
    and "\<forall>k < 8. \<exists>y. entry (1 + int k) (script_resp (pending s) k) = Inr y"
  shows "\<exists>s'. batch build entry [1..8] acc s =
           (None, acc @ map (\<lambda>k. projr (entry (1 + int k) (script_resp (pending s) k))) [0..<8], s') \<and>
         wire s' = wire s @ map R [1..<9] \<and> pending s' = drop 8 (pending s) \<and> settled s'"
proof -
  have b: "\<forall>i \<in> set [1..8]. \<exists>fr. build i = Inr fr"
    using assms(2) by (auto simp: upto_1_8 valid_channel_def)
  have nth: "\<And>k. k < 8 \<Longrightarrow> [1..8] ! k = 1 + int k" by simp
  have e: "\<forall>k < length [1..8]. \<exists>y. entry ([1..8] ! k) (script_resp (pending s) k) = Inr y"
    using assms(3) nth by simp
  have m: "map (\<lambda>k. projr (entry ([1..8] ! k) (script_resp (pending s) k))) [0..<length [1..8]] =
           map (\<lambda>k. projr (entry (1 + int k) (script_resp (pending s) k))) [0..<8]"
    using nth by simp
  have w: "map (\<lambda>i. projr (build i)) [1..8] = map R [1..<9]"
    using channel_frames [of build R 8, OF assms(2)] by simp
  show ?thesis
    using batch_complete [OF assms(1) b e, of acc] unfolding m w by simp
qed

lemma channel_batch_abort:
  assumes "settled s"
    and "\<And>n. valid_channel n \<Longrightarrow> build (int n) = Inr (R n)"
    and "k < 8"
    and "\<forall>j < k. \<exists>y. entry (1 + int j) (script_resp (pending s) j) = Inr y"
    and "entry (1 + int k) (script_resp (pending s) k) = Inl e"
  shows "\<exists>s'. batch build entry [1..8] acc s =
           (Some e, acc @ map (\<lambda>j. projr (entry (1 + int j) (script_resp (pending s) j))) [0..<k], s') \<and>
         wire s' = wire s @ map R [1..<k + 2] \<and> settled s'"
proof -
  have b: "\<forall>i \<in> set [1..8]. \<exists>fr. build i = Inr fr"
    using assms(2) by (auto simp: upto_1_8 valid_channel_def)
  have nth: "\<And>j. j < 8 \<Longrightarrow> [1..8] ! j = 1 + int j" by simp
  have kl: "k < length [1..8]" using assms(3) by simp
  have pre: "\<forall>j < k. \<exists>y. entry ([1..8] ! j) (script_resp (pending s) j) = Inr y"
    using assms(3,4) nth by simp
  have fail: "entry ([1..8] ! k) (script_resp (pending s) k) = Inl e"
    using assms(3,5) nth by simp
  have m: "map (\<lambda>j. projr (entry ([1..8] ! j) (script_resp (pending s) j))) [0..<k] =
           map (\<lambda>j. projr (entry (1 + int j) (script_resp (pending s) j))) [0..<k]"
    using assms(3) nth by simp
  have w: "map (\<lambda>i. projr (build i)) (take (Suc k) [1..8]) = map R [1..<k + 2]"
    using channel_frames [of build R "Suc k", OF assms(2)] assms(3) by simp
  show ?thesis
    using batch_abort [OF assms(1) b kl pre fail, of acc] unfolding m w by simp
qed

end
