(* ===== verification/Hex.thy ===== *)
theory Hex
  imports Prelude
begin

text \<open>
  The hex helpers of the front ends: \<^verbatim>\<open>hexdump(b)\<close> (all three bridges) prints each
  byte as two upper-case hex digits, \<^verbatim>\<open>f"{x:02X}"\<close>, joined by single spaces;
  \<^verbatim>\<open>hexstr_to_bytes(s)\<close> (\<^verbatim>\<open>src/modbus_mqtt_bridge.py\<close>, \<^verbatim>\<open>src/raw_modbus_test.py\<close>)
  deletes spaces and newlines and calls \<^verbatim>\<open>bytes.fromhex\<close>, which skips ASCII whitespace
  between byte pairs and raises \<open>ValueError\<close> on anything else that is not a pair of hex
  digits. The round trip \<open>hexstr_to_bytes (hexdump b) = Inr b\<close> is proved below.
\<close>

definition hex_chars :: string where
  "hex_chars = ''0123456789ABCDEF''"

definition hex2 :: "byte \<Rightarrow> string" where
  "hex2 x = [hex_chars ! (unat x div 16), hex_chars ! (unat x mod 16)]"

definition hexdump :: "byte list \<Rightarrow> string" where
  "hexdump b = py_join '' '' (map hex2 b)"

definition hex_val :: "char \<Rightarrow> nat option" where
  "hex_val c =
     (let n = (of_char c :: nat) in
      if 48 \<le> n \<and> n \<le> 57 then Some (n - 48)
      else if 65 \<le> n \<and> n \<le> 70 then Some (n - 55)
      else if 97 \<le> n \<and> n \<le> 102 then Some (n - 87)
      else None)"

definition py_isspace :: "char \<Rightarrow> bool" where
  "py_isspace c \<longleftrightarrow> c \<in> {CHR '' '', CHR 0x09, CHR 0x0A, CHR 0x0B, CHR 0x0C, CHR 0x0D}"

definition fromhex_error :: py_error where
  "fromhex_error = ValueError ''non-hexadecimal number found in fromhex() arg''"

fun fromhex :: "string \<Rightarrow> byte list py" where
  "fromhex [] = Inr []"
| "fromhex (c # cs) =
     (if py_isspace c then fromhex cs
      else case cs of
        [] \<Rightarrow> Inl fromhex_error
      | d # ds \<Rightarrow>
          (case (hex_val c, hex_val d) of
             (Some hi, Some lo) \<Rightarrow>
               (case fromhex ds of Inl e \<Rightarrow> Inl e | Inr bs \<Rightarrow> Inr (of_nat (16 * hi + lo) # bs))
           | _ \<Rightarrow> Inl fromhex_error))"

definition hexstr_to_bytes :: "string \<Rightarrow> byte list py" where
  "hexstr_to_bytes s = fromhex (filter (\<lambda>c. c \<noteq> CHR 0x0A) (filter (\<lambda>c. c \<noteq> CHR '' '') s))"

subsection \<open>Lemmas\<close>

lemma hex_val_hex_chars: "n < 16 \<Longrightarrow> hex_val (hex_chars ! n) = Some n"
proof -
  assume "n < 16"
  then have "n \<in> {0..<16}" by simp
  also have "{0..<16} = {0, 1, 2, 3, 4, 5, 6, 7, 8, 9, 10, 11, 12, 13, 14, 15 :: nat}" by code_simp
  finally show ?thesis by (auto simp: hex_chars_def hex_val_def)
qed

lemma hex_chars_not_space: "n < 16 \<Longrightarrow> \<not> py_isspace (hex_chars ! n) \<and> hex_chars ! n \<noteq> CHR 0x0A"
proof -
  assume "n < 16"
  then have "n \<in> {0..<16}" by simp
  also have "{0..<16} = {0, 1, 2, 3, 4, 5, 6, 7, 8, 9, 10, 11, 12, 13, 14, 15 :: nat}" by code_simp
  finally show ?thesis by (auto simp: hex_chars_def py_isspace_def)
qed

lemma hex_digits_byte: "(of_nat (16 * (unat x div 16) + unat x mod 16) :: byte) = x"
  by simp

lemma fromhex_hex2:
  "fromhex (hex2 x @ s) = (case fromhex s of Inl e \<Rightarrow> Inl e | Inr bs \<Rightarrow> Inr (x # bs))"
proof -
  have lt: "unat x div 16 < 16" "unat x mod 16 < 16"
    using unat_byte_lt [of x] by simp_all
  have "fromhex (hex2 x @ s) = (case fromhex s of Inl e \<Rightarrow> Inl e
          | Inr bs \<Rightarrow> Inr (of_nat (16 * (unat x div 16) + unat x mod 16) # bs))"
    using hex_val_hex_chars [OF lt(1)] hex_val_hex_chars [OF lt(2)] hex_chars_not_space [OF lt(1)]
    by (simp add: hex2_def)
  then show ?thesis by (simp only: hex_digits_byte)
qed

lemma fromhex_hexdump: "fromhex (hexdump b) = Inr b"
proof (induction b rule: induct_list012)
  case 1
  then show ?case by (simp add: hexdump_def)
next
  case (2 x)
  then show ?case using fromhex_hex2 [of x "[]"] by (simp add: hexdump_def)
next
  case (3 x y zs)
  then show ?case by (simp add: hexdump_def fromhex_hex2 py_isspace_def)
qed

lemma hex2_no_sep: "filter (\<lambda>c. c \<noteq> CHR '' '' \<and> c \<noteq> CHR 0x0A) (hex2 x) = hex2 x"
proof -
  have lt: "unat x div 16 < 16" "unat x mod 16 < 16"
    using unat_byte_lt [of x] by simp_all
  show ?thesis
    using hex_chars_not_space [OF lt(1)] hex_chars_not_space [OF lt(2)]
    by (auto simp: hex2_def py_isspace_def)
qed

lemma hexdump_squeezed:
  "filter (\<lambda>c. c \<noteq> CHR '' '' \<and> c \<noteq> CHR 0x0A) (hexdump b) = concat (map hex2 b)"
  by (induction b rule: induct_list012) (simp_all add: hexdump_def hex2_no_sep)

lemma fromhex_concat_hex2: "fromhex (concat (map hex2 b)) = Inr b"
  by (induction b) (simp_all add: fromhex_hex2)

lemma length_hexdump: "b \<noteq> [] \<Longrightarrow> length (hexdump b) = 3 * length b - 1"
  by (induction b rule: induct_list012) (simp_all add: hexdump_def hex2_def)


subsection \<open>Properties\<close>

text \<open>
  C18: round trip of the hex helpers. Parsing the text \<^verbatim>\<open>hexdump\<close> prints with
  \<^verbatim>\<open>hexstr_to_bytes\<close> gives back the bytes printed, for every byte string: the
  tester's replay of frames it has displayed reads exactly those frames.
\<close>

theorem hexstr_to_bytes_hexdump: "hexstr_to_bytes (hexdump b) = Inr b"
  by (simp add: hexstr_to_bytes_def hexdump_squeezed fromhex_concat_hex2)

end
