(* ===== verification/Json_Bridge.thy ===== *)
theory Json_Bridge
  imports Batch Hex
begin

text \<open>
  The command processor of \<^verbatim>\<open>src/modbus_mqtt_bridge_json.py\<close>. The bridge's state is
  the serial port and the list of JSON objects published on the response topic
  (\<open>outbox\<close>, in order); \<^verbatim>\<open>device_selected\<close> is fixed at start-up and is a parameter.
  A received payload is classified as \<^verbatim>\<open>decode()\<close> and \<^verbatim>\<open>json.loads\<close> see it
  (\<open>mqtt_payload\<close>: not UTF-8, not JSON, or the decoded value); a published object is the
  value given to \<^verbatim>\<open>json.dumps\<close>.

  \<^verbatim>\<open>process_command\<close> reads \<^verbatim>\<open>data.get("cmd")\<close> outside its \<^verbatim>\<open>try\<close>, then runs one of
  four commands inside it. Each command is a function \<open>cmd_*\<close> returning the exception it
  raised, if any, with the state reached: the serial exchanges done before a raise stay
  done. The \<^verbatim>\<open>except\<close> branch then publishes \<^verbatim>\<open>{"result": "error", "message": str(e)}\<close>.
  The two batch commands are the shared loop \<open>batch\<close> of the serial theory instantiated
  with their frame builder and their per-channel entry.
\<close>

record bridge =
  port :: serial
  outbox :: "pyval list"

definition publish_json :: "pyval \<Rightarrow> bridge \<Rightarrow> bridge" where
  "publish_json obj st = st\<lparr>outbox := outbox st @ [obj]\<rparr>"

definition json_state :: "byte list \<Rightarrow> string py" where
  "json_state resp =
     (if resp = [] then Inr ''off''
      else (case py_index resp 4 of
              Inl e \<Rightarrow> Inl e
            | Inr b \<Rightarrow> Inr (if b = 1 then ''on'' else ''off'')))"

definition error_reply :: "py_error \<Rightarrow> pyval" where
  "error_reply e = PDict [(''result'', PStr ''error''), (''message'', PStr (py_str_error e))]"

definition unknown_reply :: pyval where
  "unknown_reply = PDict [(''result'', PStr ''error''), (''message'', PStr ''Unknown command'')]"

subsection \<open>The four commands\<close>

definition cmd_output :: "int \<Rightarrow> pyval \<Rightarrow> pyval \<Rightarrow> bridge \<Rightarrow> py_error option \<times> bridge" where
  "cmd_output device cmd data st =
     (case py_getitem data ''channel'' of Inl e \<Rightarrow> (Some e, st) | Inr ch \<Rightarrow>
      (case py_getitem data ''state'' of Inl e \<Rightarrow> (Some e, st) | Inr state \<Rightarrow>
       (case build_relay_command device ch state of Inl e \<Rightarrow> (Some e, st) | Inr frame \<Rightarrow>
         (let (resp, p) = exchange frame (port st) in
          (None, publish_json (PDict [(''result'', PStr ''ok''), (''cmd'', cmd), (''channel'', ch),
                                      (''state'', state), (''response'', PStr (hexdump resp))])
                   (st\<lparr>port := p\<rparr>))))))"

definition output_all_entry :: "int \<Rightarrow> byte list \<Rightarrow> pyval py" where
  "output_all_entry i resp =
     Inr (PDict [(''channel'', PInt i), (''response'', if resp \<noteq> [] then PStr (hexdump resp) else PNone)])"

definition cmd_output_all :: "int \<Rightarrow> pyval \<Rightarrow> pyval \<Rightarrow> bridge \<Rightarrow> py_error option \<times> bridge" where
  "cmd_output_all device cmd data st =
     (case py_getitem data ''state'' of Inl e \<Rightarrow> (Some e, st) | Inr state \<Rightarrow>
        (case batch (\<lambda>i. build_relay_command device (PInt i) state) output_all_entry [1..8] [] (port st) of
           (Some e, _, p) \<Rightarrow> (Some e, st\<lparr>port := p\<rparr>)
         | (None, results, p) \<Rightarrow>
             (None, publish_json (PDict [(''result'', PStr ''ok''), (''cmd'', cmd), (''state'', state),
                                         (''outputs'', PList results)]) (st\<lparr>port := p\<rparr>))))"

definition cmd_input :: "int \<Rightarrow> pyval \<Rightarrow> pyval \<Rightarrow> bridge \<Rightarrow> py_error option \<times> bridge" where
  "cmd_input device cmd data st =
     (case py_getitem data ''channel'' of Inl e \<Rightarrow> (Some e, st) | Inr ch \<Rightarrow>
      (case build_read_input device ch of Inl e \<Rightarrow> (Some e, st) | Inr frame \<Rightarrow>
        (let (resp, p) = exchange frame (port st) in
         (case json_state resp of
            Inl e \<Rightarrow> (Some e, st\<lparr>port := p\<rparr>)
          | Inr s \<Rightarrow>
              (None, publish_json (PDict [(''cmd'', cmd), (''input'', ch), (''state'', PStr s),
                                          (''raw'', PStr (hexdump resp))]) (st\<lparr>port := p\<rparr>))))))"

definition status_frame :: "int \<Rightarrow> pyval \<Rightarrow> int \<Rightarrow> byte list py" where
  "status_frame device target i =
     (if target = PStr ''inputs'' then build_read_input device (PInt i) else build_read_output device (PInt i))"

definition status_entry :: "int \<Rightarrow> byte list \<Rightarrow> pyval py" where
  "status_entry i resp =
     (case json_state resp of
        Inl e \<Rightarrow> Inl e
      | Inr s \<Rightarrow> Inr (PDict [(''channel'', PInt i), (''state'', PStr s)]))"

definition cmd_status :: "int \<Rightarrow> pyval \<Rightarrow> pyval \<Rightarrow> bridge \<Rightarrow> py_error option \<times> bridge" where
  "cmd_status device cmd data st =
     (case py_getitem data ''target'' of Inl e \<Rightarrow> (Some e, st) | Inr target \<Rightarrow>
        (case batch (status_frame device target) status_entry [1..8] [] (port st) of
           (Some e, _, p) \<Rightarrow> (Some e, st\<lparr>port := p\<rparr>)
         | (None, states, p) \<Rightarrow>
             (None, publish_json (PDict [(''cmd'', cmd), (''target'', target), (''states'', PList states)])
                      (st\<lparr>port := p\<rparr>))))"

subsection \<open>Dispatch and the MQTT callbacks\<close>

definition process_command :: "int \<Rightarrow> pyval \<Rightarrow> bridge \<Rightarrow> py_error + bridge" where
  "process_command device data st =
     (case py_get data ''cmd'' of
        Inl e \<Rightarrow> Inl e
      | Inr cmd \<Rightarrow>
          (let (err, st1) =
             (if cmd = PStr ''output'' then cmd_output device cmd data st
              else if cmd = PStr ''output_all'' then cmd_output_all device cmd data st
              else if cmd = PStr ''input'' then cmd_input device cmd data st
              else if cmd = PStr ''status'' then cmd_status device cmd data st
              else (None, publish_json unknown_reply st))
           in Inr (case err of None \<Rightarrow> st1 | Some e \<Rightarrow> publish_json (error_reply e) st1)))"

definition on_connect :: "bridge \<Rightarrow> bridge" where
  "on_connect st = publish_json (PDict [(''status'', PStr ''online'')]) st"

text \<open>
  What \<^verbatim>\<open>msg.payload.decode()\<close> and \<^verbatim>\<open>json.loads\<close> make of a payload: bytes that are
  not UTF-8 (with the decoder's message), UTF-8 text that is not JSON, or the decoded value.
\<close>

datatype mqtt_payload = NotUtf8 string | NotJson | Json pyval

text \<open>
  \<^verbatim>\<open>on_message\<close>: only \<^verbatim>\<open>json.JSONDecodeError\<close> is caught, so the
  \<open>UnicodeDecodeError\<close> of \<^verbatim>\<open>decode()\<close> escapes.
\<close>

definition on_message :: "int \<Rightarrow> mqtt_payload \<Rightarrow> bridge \<Rightarrow> py_error + bridge" where
  "on_message device payload st =
     (case payload of
        NotUtf8 m \<Rightarrow> Inl (UnicodeDecodeError m)
      | NotJson \<Rightarrow> Inr (publish_json (PDict [(''error'', PStr ''Invalid JSON'')]) st)
      | Json data \<Rightarrow> process_command device data st)"

text \<open>
  \<^verbatim>\<open>client.loop_forever()\<close> delivers the messages one at a time; an exception that escapes
  \<^verbatim>\<open>on_message\<close> ends the loop and the program.
\<close>

fun bridge_run :: "int \<Rightarrow> mqtt_payload list \<Rightarrow> bridge \<Rightarrow> py_error + bridge" where
  "bridge_run device [] st = Inr st"
| "bridge_run device (m # ms) st =
     (case on_message device m st of Inl e \<Rightarrow> Inl e | Inr st' \<Rightarrow> bridge_run device ms st')"

subsection \<open>The specification's decoder and the bridge's observable effects\<close>

text \<open>
  The response decoder of the specification (section 4.4): an empty response is a
  \<open>Timeout\<close>, one of fewer than 5 bytes is \<open>Malformed\<close>, otherwise byte 4 decides
  on (\<open>Known True\<close>) or off. \<open>status_request\<close> is the abstract request the status command
  sends for a channel. \<open>bridge_grows st st1 n\<close> says that from \<open>st\<close> to \<open>st1\<close> the bridge
  appended only well-formed 8-byte frames to the wire and exactly \<open>n\<close> objects to its
  published messages, each a non-empty JSON object (\<open>json_object\<close>).
\<close>

datatype read_failure = Timeout | Malformed
datatype chan_state = Known bool | Unknown read_failure

definition decode_read :: "byte list \<Rightarrow> chan_state" where
  "decode_read raw =
     (if raw = [] then Unknown Timeout else if length raw < 5 then Unknown Malformed else Known (raw ! 4 = 1))"

definition status_request :: "pyval \<Rightarrow> nat \<Rightarrow> request" where
  "status_request target n = (if target = PStr ''inputs'' then InputRead n else OutputRead n)"

definition json_object :: "pyval \<Rightarrow> bool" where
  "json_object v \<longleftrightarrow> (case v of PDict kvs \<Rightarrow> kvs \<noteq> [] | _ \<Rightarrow> False)"

definition bridge_grows :: "bridge \<Rightarrow> bridge \<Rightarrow> nat \<Rightarrow> bool" where
  "bridge_grows st st1 n \<longleftrightarrow>
     (\<exists>ws objs. wire (port st1) = wire (port st) @ ws \<and> well_formed_frames ws \<and>
                outbox st1 = outbox st @ objs \<and> length objs = n \<and> list_all json_object objs)"

subsection \<open>Sample device replies and messages\<close>

text \<open>
  Replies of the relay module to read requests (\<^verbatim>\<open>01 03 02 00 01 ..\<close>: register value 1,
  on; \<^verbatim>\<open>01 03 02 00 00 ..\<close>: off), a script with one short reply whose tail arrives late,
  and a sequence of MQTT messages, used by the examples below.
\<close>

definition demo_replies :: "reply list" where
  "demo_replies =
     [Reply [1, 3, 2, 0, 1, 0x79, 0x84] [], Reply [1, 3, 2, 0, 0, 0xB8, 0x44] [], Reply [] [],
      Reply [1, 3, 2, 0, 1, 0x79, 0x84] [], Reply [1, 3, 2, 0, 0, 0xB8, 0x44] [],
      Reply [1, 3, 2, 0, 1, 0x79, 0x84] [], Reply [1, 3, 2, 0, 0, 0xB8, 0x44] [],
      Reply [1, 3, 2, 0, 1, 0x79, 0x84] []]"

definition demo_short_replies :: "reply list" where
  "demo_short_replies =
     [Reply [1, 3, 2, 0, 1, 0x79, 0x84] [], Reply [1, 3, 2, 0, 0, 0xB8, 0x44] [], Reply [1, 3] [2, 0, 1, 0x79, 0x84]]"

definition demo_messages :: "mqtt_payload list" where
  "demo_messages =
     [Json (PDict [(''cmd'', PStr ''output''), (''channel'', PInt 1), (''state'', PStr ''on'')]), NotJson,
      Json (PDict [(''cmd'', PStr ''reboot'')])]"

definition demo_bridge :: "reply list \<Rightarrow> bridge" where
  "demo_bridge rs = \<lparr>port = \<lparr>in_buf = [], in_flight = [], wire = [], pending = rs\<rparr>, outbox = []\<rparr>"

subsection \<open>Lemmas on the effects of the commands\<close>

lemma bridge_grows_refl: "bridge_grows st st 0"
  unfolding bridge_grows_def well_formed_frames_def by auto

lemma bridge_grows_trans:
  assumes "bridge_grows a b n" "bridge_grows b c m"
  shows "bridge_grows a c (n + m)"
proof -
  obtain ws objs where 1: "wire (port b) = wire (port a) @ ws" "well_formed_frames ws"
    "outbox b = outbox a @ objs" "length objs = n" "list_all json_object objs"
    using assms(1) unfolding bridge_grows_def by blast
  obtain ws' objs' where 2: "wire (port c) = wire (port b) @ ws'" "well_formed_frames ws'"
    "outbox c = outbox b @ objs'" "length objs' = m" "list_all json_object objs'"
    using assms(2) unfolding bridge_grows_def by blast
  show ?thesis unfolding bridge_grows_def
    using 1 2 by (intro exI [of _ "ws @ ws'"] exI [of _ "objs @ objs'"]) (simp add: well_formed_frames_def)
qed

lemma bridge_grows_publish:
  "bridge_grows st st1 n \<Longrightarrow> json_object obj \<Longrightarrow> bridge_grows st (publish_json obj st1) (Suc n)"
  unfolding bridge_grows_def publish_json_def
  by (auto intro!: exI [of _ "_ @ [obj]"])

lemma json_object_PDict [simp]: "json_object (PDict (kv # kvs))"
  by (simp add: json_object_def)

lemma bridge_grows_publish1:
  "bridge_grows st st1 0 \<Longrightarrow> json_object obj \<Longrightarrow> bridge_grows st (publish_json obj st1) (Suc 0)"
  by (rule bridge_grows_publish)

lemma bridge_grows_port:
  "\<exists>ws. wire p = wire (port st) @ ws \<and> well_formed_frames ws \<Longrightarrow> bridge_grows st (st\<lparr>port := p\<rparr>) 0"
  unfolding bridge_grows_def by auto

lemma exchange_grows:
  "exchange fr (port st) = (resp, p) \<Longrightarrow> length fr = 8 \<and> crc_valid fr \<Longrightarrow> bridge_grows st (st\<lparr>port := p\<rparr>) 0"
  using exchange_wire [of fr "port st"]
  by (intro bridge_grows_port exI [of _ "[fr]"]) (simp add: well_formed_frames_def)

lemma status_frame_frame: "status_frame dev t i = Inr fr \<Longrightarrow> length fr = 8 \<and> crc_valid fr"
  unfolding status_frame_def by (auto split: if_splits dest: build_read_input_frame build_read_output_frame)

lemma cmd_output_grows:
  "cmd_output dev cmd data st = (err, st1) \<Longrightarrow> bridge_grows st st1 (if err = None then 1 else 0)"
  unfolding cmd_output_def
  by (auto split: sum.splits prod.splits simp: bridge_grows_refl
           intro!: bridge_grows_publish1 intro: exchange_grows
           dest: build_relay_command_frame)


lemma batch_grows:
  "batch build entry is acc (port st) = (r, xs, p) \<Longrightarrow>
     (\<And>i fr. build i = Inr fr \<Longrightarrow> length fr = 8 \<and> crc_valid fr) \<Longrightarrow> bridge_grows st (st\<lparr>port := p\<rparr>) 0"
  by (intro bridge_grows_port batch_well_formed)

lemma cmd_output_all_grows:
  "cmd_output_all dev cmd data st = (err, st1) \<Longrightarrow> bridge_grows st st1 (if err = None then 1 else 0)"
  unfolding cmd_output_all_def
  by (auto split: sum.splits prod.splits option.splits simp: bridge_grows_refl
           intro!: bridge_grows_publish1 intro: batch_grows
           dest: build_relay_command_frame)

lemma cmd_input_grows:
  "cmd_input dev cmd data st = (err, st1) \<Longrightarrow> bridge_grows st st1 (if err = None then 1 else 0)"
  unfolding cmd_input_def
  by (auto split: sum.splits prod.splits simp: bridge_grows_refl
           intro!: bridge_grows_publish1 intro: exchange_grows
           dest: build_read_input_frame)

lemma cmd_status_grows:
  "cmd_status dev cmd data st = (err, st1) \<Longrightarrow> bridge_grows st st1 (if err = None then 1 else 0)"
  unfolding cmd_status_def
  by (auto split: sum.splits prod.splits option.splits simp: bridge_grows_refl
           intro!: bridge_grows_publish1 intro: batch_grows
           dest: status_frame_frame)

lemma reply_grows:
  "bridge_grows st st1 (if err = None then 1 else 0) \<Longrightarrow> (\<And>e. json_object (f e)) \<Longrightarrow>
     bridge_grows st (case err of None \<Rightarrow> st1 | Some e \<Rightarrow> publish_json (f e) st1) (Suc 0)"
  by (cases err) (auto intro: bridge_grows_publish1)

lemma process_command_grows:
  "process_command dev data st = Inr st1 \<Longrightarrow> bridge_grows st st1 1"
  unfolding process_command_def
  by (auto split: sum.splits prod.splits if_splits simp: error_reply_def unknown_reply_def
           intro: reply_grows [OF cmd_output_grows] reply_grows [OF cmd_output_all_grows]
                  reply_grows [OF cmd_input_grows] reply_grows [OF cmd_status_grows]
                  bridge_grows_publish1 bridge_grows_refl)

lemma on_message_grows:
  "on_message dev m st = Inr st1 \<Longrightarrow> bridge_grows st st1 1"
  unfolding on_message_def
  by (auto split: mqtt_payload.splits
           intro: process_command_grows [simplified] bridge_grows_publish1 bridge_grows_refl)

lemma bridge_run_grows:
  "bridge_run dev ms st = Inr st' \<Longrightarrow> bridge_grows st st' (length ms)"
proof (induction ms arbitrary: st)
  case Nil
  then show ?case by (simp add: bridge_grows_refl)
next
  case (Cons m ms)
  then obtain st1 where "on_message dev m st = Inr st1" "bridge_run dev ms st1 = Inr st'"
    by (auto split: sum.splits)
  then show ?case
    using bridge_grows_trans [OF on_message_grows Cons.IH] by simp
qed


lemma status_frame_request:
  "valid_channel n \<Longrightarrow> status_frame (uint d) t (int n) = Inr (request_frame d (status_request t n))"
  by (simp add: status_frame_def status_request_def read_input_request read_output_request)

lemma status_entry_ok:
  "decode_read raw \<noteq> Unknown Malformed \<Longrightarrow>
     status_entry i raw = Inr (PDict [(''channel'', PInt i),
        (''state'', PStr (if decode_read raw = Known True then ''on'' else ''off''))])"
  by (auto simp: status_entry_def json_state_def decode_read_def py_index_def split: if_splits)

lemma status_entry_short:
  "decode_read raw = Unknown Malformed \<Longrightarrow> status_entry i raw = Inl (IndexError ''index out of range'')"
  by (auto simp: status_entry_def json_state_def decode_read_def py_index_def split: if_splits)


subsection \<open>Properties of the JSON command processor\<close>

text \<open>
  C10: the response decoder. The state the JSON bridge reports for a response
  (\<^verbatim>\<open>"on" if resp and resp[4] == 1 else "off"\<close>) agrees with the specification's decoder
  on every response of 5 or more bytes; an empty response, which the specification decodes
  as \<open>Timeout\<close>, is reported as "off"; a response of 1 to 4 bytes, which the specification
  decodes as \<open>Malformed\<close>, raises \<open>IndexError\<close>.
\<close>

theorem json_state_refines_decoder:
  "json_state raw =
     (case decode_read raw of
        Known b \<Rightarrow> Inr (if b then ''on'' else ''off'')
      | Unknown Timeout \<Rightarrow> Inr ''off''
      | Unknown Malformed \<Rightarrow> Inl (IndexError ''index out of range''))"
  by (simp add: json_state_def decode_read_def py_index_def)

text \<open>
  C11: the status batch. On a port with nothing in flight, if no reply of the eight coming
  ones is of 1 to 4 bytes, the status command writes the eight read requests of channels
  1 to 8 in this order (input or output reads, by the target) and publishes one object with
  eight states in channel order, the state of channel \<open>k + 1\<close> decoded from the \<open>k\<close>-th reply,
  a missing reply reported as "off".
\<close>

theorem status_reports_eight_channels:
  assumes "settled (port st)"
    and "\<forall>k < 8. decode_read (script_resp (pending (port st)) k) \<noteq> Unknown Malformed"
  shows "\<exists>p. process_command (uint d) (PDict [(''cmd'', PStr ''status''), (''target'', t)]) st =
           Inr (publish_json
                  (PDict [(''cmd'', PStr ''status''), (''target'', t),
                          (''states'', PList (map (\<lambda>k. PDict [(''channel'', PInt (1 + int k)),
                               (''state'', PStr (if decode_read (script_resp (pending (port st)) k) = Known True
                                                 then ''on'' else ''off''))]) [0..<8]))])
                  (st\<lparr>port := p\<rparr>)) \<and>
         wire p = wire (port st) @ map (\<lambda>n. request_frame d (status_request t n)) [1..<9] \<and> settled p"
proof -
  let ?rs = "pending (port st)"
  have e: "\<forall>k < 8. \<exists>y. status_entry (1 + int k) (script_resp ?rs k) = Inr y"
    using assms(2) status_entry_ok by blast
  obtain p where
    b: "batch (status_frame (uint d) t) status_entry [1..8] [] (port st) =
          (None, [] @ map (\<lambda>k. projr (status_entry (1 + int k) (script_resp ?rs k))) [0..<8], p)"
    and w: "wire p = wire (port st) @ map (\<lambda>n. request_frame d (status_request t n)) [1..<9]"
    and s: "settled p"
    using channel_batch_complete [of "port st" "status_frame (uint d) t" "\<lambda>n. request_frame d (status_request t n)",
                                  OF assms(1) status_frame_request e] by blast
  have m: "map (\<lambda>k. projr (status_entry (1 + int k) (script_resp ?rs k))) [0..<8] =
           map (\<lambda>k. PDict [(''channel'', PInt (1 + int k)),
                    (''state'', PStr (if decode_read (script_resp ?rs k) = Known True then ''on'' else ''off''))])
               [0..<8]"
    using assms(2) by (auto intro!: map_cong simp: status_entry_ok)
  show ?thesis
    using b w s m
    by (intro exI [of _ p]) (simp add: process_command_def cmd_status_def py_get_def py_getitem_def)
qed

theorem status_reports_eight_channels_witness:
  "\<exists>p. process_command (uint (1::byte)) (PDict [(''cmd'', PStr ''status''), (''target'', PStr ''inputs'')])
          (demo_bridge demo_replies) =
        Inr (publish_json
               (PDict [(''cmd'', PStr ''status''), (''target'', PStr ''inputs''),
                       (''states'', PList [PDict [(''channel'', PInt 1), (''state'', PStr ''on'')],
                                           PDict [(''channel'', PInt 2), (''state'', PStr ''off'')],
                                           PDict [(''channel'', PInt 3), (''state'', PStr ''off'')],
                                           PDict [(''channel'', PInt 4), (''state'', PStr ''on'')],
                                           PDict [(''channel'', PInt 5), (''state'', PStr ''off'')],
                                           PDict [(''channel'', PInt 6), (''state'', PStr ''on'')],
                                           PDict [(''channel'', PInt 7), (''state'', PStr ''off'')],
                                           PDict [(''channel'', PInt 8), (''state'', PStr ''on'')]])])
               ((demo_bridge demo_replies)\<lparr>port := p\<rparr>)) \<and>
        wire p = map (\<lambda>n. request_frame 1 (InputRead n)) [1..<9]"
proof -
  have s: "settled (port (demo_bridge demo_replies))" by (simp add: demo_bridge_def settled_def)
  have d: "\<forall>k < 8. decode_read (script_resp (pending (port (demo_bridge demo_replies))) k) \<noteq> Unknown Malformed"
    by (simp add: demo_bridge_def demo_replies_def script_resp_def decode_read_def less_Suc_eq numeral_eq_Suc
                  all_conj_distrib)
  show ?thesis
    using status_reports_eight_channels [OF s d, of 1 "PStr ''inputs''"] s d
    by (simp add: demo_bridge_def demo_replies_def script_resp_def decode_read_def status_request_def
                  upt_rec numeral_eq_Suc) blast
qed

text \<open>
  C12: a short reply aborts the status batch. If the reply to channel \<open>k + 1\<close> is the first
  one of 1 to 4 bytes, the status command writes the requests of channels 1 to \<open>k + 1\<close> only,
  and publishes a single error object with the message "index out of range" instead of the
  states: the specification's \<open>Malformed\<close> outcome ends the batch.
\<close>

theorem status_aborts_on_short_reply:
  assumes "settled (port st)" "k < 8"
    and "\<forall>j < k. decode_read (script_resp (pending (port st)) j) \<noteq> Unknown Malformed"
    and "decode_read (script_resp (pending (port st)) k) = Unknown Malformed"
  shows "\<exists>p. process_command (uint d) (PDict [(''cmd'', PStr ''status''), (''target'', t)]) st =
           Inr (publish_json (PDict [(''result'', PStr ''error''), (''message'', PStr ''index out of range'')])
                  (st\<lparr>port := p\<rparr>)) \<and>
         wire p = wire (port st) @ map (\<lambda>n. request_frame d (status_request t n)) [1..<k + 2] \<and> settled p"
proof -
  let ?rs = "pending (port st)"
  have pre: "\<forall>j < k. \<exists>y. status_entry (1 + int j) (script_resp ?rs j) = Inr y"
    using assms(3) status_entry_ok by blast
  obtain p xs where
    b: "batch (status_frame (uint d) t) status_entry [1..8] [] (port st) =
          (Some (IndexError ''index out of range''), xs, p)"
    and w: "wire p = wire (port st) @ map (\<lambda>n. request_frame d (status_request t n)) [1..<k + 2]"
    and s: "settled p"
    using channel_batch_abort [of "port st" "status_frame (uint d) t" "\<lambda>n. request_frame d (status_request t n)",
                               OF assms(1) status_frame_request assms(2) pre status_entry_short [OF assms(4)]]
    by blast
  show ?thesis
    using b w s
    by (intro exI [of _ p])
       (simp add: process_command_def cmd_status_def py_get_def py_getitem_def error_reply_def)
qed

theorem status_aborts_on_short_reply_witness:
  "decode_read (script_resp (pending (port (demo_bridge demo_short_replies))) 2) = Unknown Malformed \<and>
   (\<exists>p. process_command (uint (1::byte)) (PDict [(''cmd'', PStr ''status''), (''target'', PStr ''outputs'')])
          (demo_bridge demo_short_replies) =
        Inr (publish_json (PDict [(''result'', PStr ''error''), (''message'', PStr ''index out of range'')])
               ((demo_bridge demo_short_replies)\<lparr>port := p\<rparr>)) \<and>
        wire p = map (\<lambda>n. request_frame 1 (OutputRead n)) [1..<4])"
proof -
  have s: "settled (port (demo_bridge demo_short_replies))" by (simp add: demo_bridge_def settled_def)
  have pre: "\<forall>j < 2. decode_read (script_resp (pending (port (demo_bridge demo_short_replies))) j) \<noteq> Unknown Malformed"
    by (simp add: demo_bridge_def demo_short_replies_def script_resp_def decode_read_def less_Suc_eq numeral_eq_Suc)
  have m: "decode_read (script_resp (pending (port (demo_bridge demo_short_replies))) 2) = Unknown Malformed"
    by (simp add: demo_bridge_def demo_short_replies_def script_resp_def decode_read_def)
  show ?thesis
    using status_aborts_on_short_reply [OF s _ pre m, of 1 "PStr ''outputs''"] s pre m
    by (simp add: status_request_def demo_bridge_def) blast
qed

text \<open>
  C13: the output_all batch. For the action on or off, output_all writes the eight relay
  commands of channels 1 to 8 in order and publishes one object with eight entries in
  channel order, each the hex dump of the reply or None when the device did not answer:
  a timeout does not end the batch.
\<close>

theorem output_all_never_aborts:
  assumes "settled (port st)"
  shows "\<exists>p. process_command (uint d) (PDict [(''cmd'', PStr ''output_all''), (''state'', PStr (action_word a))]) st =
           Inr (publish_json
                  (PDict [(''result'', PStr ''ok''), (''cmd'', PStr ''output_all''), (''state'', PStr (action_word a)),
                          (''outputs'', PList (map (\<lambda>k. PDict [(''channel'', PInt (1 + int k)),
                               (''response'', if script_resp (pending (port st)) k \<noteq> []
                                              then PStr (hexdump (script_resp (pending (port st)) k)) else PNone)])
                               [0..<8]))])
                  (st\<lparr>port := p\<rparr>)) \<and>
         wire p = wire (port st) @ map (\<lambda>n. request_frame d (RelayWrite n a)) [1..<9] \<and> settled p"
proof -
  let ?rs = "pending (port st)"
  have e: "\<forall>k < 8. \<exists>y. output_all_entry (1 + int k) (script_resp ?rs k) = Inr y"
    by (simp add: output_all_entry_def)
  obtain p where
    b: "batch (\<lambda>i. build_relay_command (uint d) (PInt i) (PStr (action_word a))) output_all_entry [1..8] [] (port st) =
          (None, [] @ map (\<lambda>k. projr (output_all_entry (1 + int k) (script_resp ?rs k))) [0..<8], p)"
    and w: "wire p = wire (port st) @ map (\<lambda>n. request_frame d (RelayWrite n a)) [1..<9]"
    and s: "settled p"
    using channel_batch_complete [of "port st" "\<lambda>i. build_relay_command (uint d) (PInt i) (PStr (action_word a))"
                                  "\<lambda>n. request_frame d (RelayWrite n a)", OF assms(1) relay_request e] by blast
  show ?thesis
    using b w s
    by (intro exI [of _ p]) (simp add: process_command_def cmd_output_all_def py_get_def py_getitem_def
                                       output_all_entry_def)
qed

theorem output_all_never_aborts_witness:
  "settled (port (demo_bridge [Reply [1, 6, 0, 1, 1, 0, 0xD9, 0x9A] []])) \<and>
   (\<exists>p. process_command (uint (1::byte)) (PDict [(''cmd'', PStr ''output_all''), (''state'', PStr ''on'')])
          (demo_bridge [Reply [1, 6, 0, 1, 1, 0, 0xD9, 0x9A] []]) =
        Inr (publish_json
               (PDict [(''result'', PStr ''ok''), (''cmd'', PStr ''output_all''), (''state'', PStr ''on''),
                       (''outputs'', PList (PDict [(''channel'', PInt 1), (''response'', PStr ''01 06 00 01 01 00 D9 9A'')] #
                          map (\<lambda>k. PDict [(''channel'', PInt (1 + int k)), (''response'', PNone)]) [1..<8]))])
               ((demo_bridge [Reply [1, 6, 0, 1, 1, 0, 0xD9, 0x9A] []])\<lparr>port := p\<rparr>)) \<and>
        wire p = map (\<lambda>n. request_frame 1 (RelayWrite n On)) [1..<9])"
proof -
  have s: "settled (port (demo_bridge [Reply [1, 6, 0, 1, 1, 0, 0xD9, 0x9A] []]))"
    by (simp add: demo_bridge_def settled_def)
  have h: "hexdump [1, 6, 0, 1, 1, 0, 0xD9, 0x9A] = ''01 06 00 01 01 00 D9 9A''"
    by code_simp
  have r: "map (\<lambda>k. PDict [(''channel'', PInt (1 + int k)),
              (''response'', if script_resp (pending (port (demo_bridge [Reply [1, 6, 0, 1, 1, 0, 0xD9, 0x9A] []]))) k \<noteq> []
                             then PStr (hexdump (script_resp (pending (port (demo_bridge [Reply [1, 6, 0, 1, 1, 0, 0xD9, 0x9A] []]))) k))
                             else PNone)])
            [0..<8] =
           PDict [(''channel'', PInt 1), (''response'', PStr ''01 06 00 01 01 00 D9 9A'')] #
           map (\<lambda>k. PDict [(''channel'', PInt (1 + int k)), (''response'', PNone)]) [1..<8]"
    by (simp add: upt_rec script_resp_def h demo_bridge_def)
  show ?thesis
    using output_all_never_aborts [OF s, of 1 On, unfolded r] s
    by (simp add: demo_bridge_def) blast
qed

text \<open>
  C14: an invalid action is rejected before any I/O. For any state other than "on" and
  "off", output_all publishes the action error and leaves the serial port untouched.
\<close>

theorem output_all_rejects_state_before_io:
  assumes "v \<noteq> PStr ''on''" "v \<noteq> PStr ''off''"
  shows "process_command dev (PDict [(''cmd'', PStr ''output_all''), (''state'', v)]) st =
           Inr (publish_json (PDict [(''result'', PStr ''error''),
                                     (''message'', PStr (''action must be '' @ py_quote ''on'' @ '' or '' @ py_quote ''off''))]) st)"
proof -
  have "build_relay_command dev (PInt 1) v = Inl action_error"
    using assms by (simp add: build_relay_command_def py_simps)
  then have "batch (\<lambda>i. build_relay_command dev (PInt i) v) output_all_entry [1..8] [] (port st) =
               (Some action_error, [], port st)"
    by (simp add: upto.simps)
  then show ?thesis
    by (simp add: process_command_def cmd_output_all_def py_get_def py_getitem_def error_reply_def action_error_def)
qed

theorem output_all_rejects_state_before_io_witness:
  "PStr ''toggle'' \<noteq> PStr ''on'' \<and> PStr ''toggle'' \<noteq> PStr ''off'' \<and>
   process_command 1 (PDict [(''cmd'', PStr ''output_all''), (''state'', PStr ''toggle'')]) (demo_bridge []) =
     Inr (publish_json (PDict [(''result'', PStr ''error''),
                               (''message'', PStr (''action must be '' @ py_quote ''on'' @ '' or '' @ py_quote ''off''))])
          (demo_bridge []))"
  using output_all_rejects_state_before_io [of "PStr ''toggle''" 1 "demo_bridge []"] by simp

text \<open>
  C15: a JSON message that is not an object crashes the bridge. A payload that decodes to a
  list, string, number, boolean or null makes \<^verbatim>\<open>data.get("cmd")\<close> raise
  \<open>AttributeError\<close> outside the \<^verbatim>\<open>try\<close> of \<^verbatim>\<open>process_command\<close>; it escapes
  \<^verbatim>\<open>on_message\<close> and ends the message loop. So does a payload that is not UTF-8: its
  \<open>UnicodeDecodeError\<close> is not the \<^verbatim>\<open>json.JSONDecodeError\<close> that is caught.
\<close>

theorem non_dict_message_crashes:
  assumes "\<forall>kvs. v \<noteq> PDict kvs"
  shows "on_message dev (Json v) st = Inl (AttributeError ''object has no attribute get'') \<and>
         bridge_run dev (Json v # ms) st = Inl (AttributeError ''object has no attribute get'') \<and>
         bridge_run dev (NotUtf8 u # ms) st = Inl (UnicodeDecodeError u)"
  using assms by (cases v) (simp_all add: on_message_def process_command_def py_get_def)

theorem non_dict_message_crashes_witness:
  "bridge_run 1 [Json (PList []), NotJson] (demo_bridge []) = Inl (AttributeError ''object has no attribute get'') \<and>
   bridge_run 1 [NotUtf8 ''invalid start byte'', NotJson] (demo_bridge []) = Inl (UnicodeDecodeError ''invalid start byte'')"
  using non_dict_message_crashes [of "PList []" 1 "demo_bridge []" "[NotJson]" "''invalid start byte''"] by simp

text \<open>
  C16: one reply per message. A run of the bridge over a sequence of messages that does not
  crash publishes exactly one object per message: a result, an error, "Unknown command" or
  "Invalid JSON".
\<close>

theorem bridge_replies_once_per_message:
  "bridge_run dev ms st = Inr st' \<Longrightarrow> \<exists>objs. outbox st' = outbox st @ objs \<and> length objs = length ms"
  using bridge_run_grows unfolding bridge_grows_def by blast

theorem bridge_replies_once_per_message_witness:
  "bridge_run 1 demo_messages (demo_bridge [Reply [1, 6, 0, 1, 1, 0, 0xD9, 0x9A] []]) =
     Inr (projr (bridge_run 1 demo_messages (demo_bridge [Reply [1, 6, 0, 1, 1, 0, 0xD9, 0x9A] []]))) \<and>
   (\<exists>objs. outbox (projr (bridge_run 1 demo_messages (demo_bridge [Reply [1, 6, 0, 1, 1, 0, 0xD9, 0x9A] []]))) =
       [] @ objs \<and> length objs = 3)"
proof -
  have r: "bridge_run 1 demo_messages (demo_bridge [Reply [1, 6, 0, 1, 1, 0, 0xD9, 0x9A] []]) =
     Inr (projr (bridge_run 1 demo_messages (demo_bridge [Reply [1, 6, 0, 1, 1, 0, 0xD9, 0x9A] []])))"
    by code_simp
  show ?thesis
    using bridge_replies_once_per_message [OF r] r by (simp add: demo_bridge_def demo_messages_def)
qed

text \<open>
  C17: the bridge writes only well-formed frames. Every frame a run of the bridge writes to
  the serial line has 8 bytes and a correct CRC, whatever the messages.
\<close>

theorem bridge_writes_only_valid_frames:
  "bridge_run dev ms st = Inr st' \<Longrightarrow>
     \<exists>ws. wire (port st') = wire (port st) @ ws \<and> (\<forall>fr \<in> set ws. length fr = 8 \<and> crc_valid fr)"
  using bridge_run_grows unfolding bridge_grows_def well_formed_frames_def list_all_iff by blast


theorem bridge_writes_only_valid_frames_witness:
  "bridge_run 1 demo_messages (demo_bridge demo_replies) =
     Inr (projr (bridge_run 1 demo_messages (demo_bridge demo_replies))) \<and>
   (\<exists>ws. wire (port (projr (bridge_run 1 demo_messages (demo_bridge demo_replies)))) = [] @ ws \<and>
        list_all (\<lambda>fr. length fr = 8 \<and> crc_valid fr) ws)"
proof -
  have r: "bridge_run 1 demo_messages (demo_bridge demo_replies) =
     Inr (projr (bridge_run 1 demo_messages (demo_bridge demo_replies)))"
    by code_simp
  show ?thesis
    using bridge_writes_only_valid_frames [OF r] r by (simp add: demo_bridge_def list_all_iff)
qed


text \<open>
  C25: the bridge publishes only JSON objects. Every object a run publishes (results, errors,
  "Unknown command", "Invalid JSON") is a non-empty JSON object, never a bare value.
\<close>

theorem bridge_publishes_json_objects:
  "bridge_run dev ms st = Inr st' \<Longrightarrow>
     \<exists>objs. outbox st' = outbox st @ objs \<and> (\<forall>obj \<in> set objs. \<exists>k v kvs. obj = PDict ((k, v) # kvs))"
proof -
  assume "bridge_run dev ms st = Inr st'"
  then obtain objs where "outbox st' = outbox st @ objs" "list_all json_object objs"
    using bridge_run_grows unfolding bridge_grows_def by blast
  moreover have "json_object obj \<Longrightarrow> \<exists>k v kvs. obj = PDict ((k, v) # kvs)" for obj
    by (cases obj) (auto simp: json_object_def neq_Nil_conv)
  ultimately show ?thesis by (auto simp: list_all_iff)
qed

theorem bridge_publishes_json_objects_witness:
  "bridge_run 1 demo_messages (demo_bridge demo_replies) =
     Inr (projr (bridge_run 1 demo_messages (demo_bridge demo_replies))) \<and>
   (\<exists>objs. outbox (projr (bridge_run 1 demo_messages (demo_bridge demo_replies))) = [] @ objs \<and>
        list_all (\<lambda>obj. \<exists>k v kvs. obj = PDict ((k, v) # kvs)) objs)"
proof -
  have r: "bridge_run 1 demo_messages (demo_bridge demo_replies) =
     Inr (projr (bridge_run 1 demo_messages (demo_bridge demo_replies)))"
    by code_simp
  show ?thesis
    using bridge_publishes_json_objects [OF r] r by (simp add: demo_bridge_def list_all_iff)
qed



end
