(* ===== verification/Py_Strings.thy ===== *)
theory Py_Strings
  imports Hex
begin

text \<open>
  The \<^verbatim>\<open>str\<close> built-ins the text front ends call on a command line:
  \<^verbatim>\<open>strip()\<close>, \<^verbatim>\<open>lower()\<close>, \<^verbatim>\<open>split()\<close>, \<^verbatim>\<open>startswith(p)\<close>, \<^verbatim>\<open>int(s)\<close> and
  \<^verbatim>\<open>str(i)\<close> of an int (as in the f-strings). A Python string is a list of
  \<open>char\<close>, that is of code points 0--255 (Latin-1); the whitespace and case tables are
  Python's restricted to those code points. Lemmas: \<^verbatim>\<open>int\<close> parses what \<^verbatim>\<open>str\<close>
  prints, \<^verbatim>\<open>split\<close> recovers the words of a line joined by single spaces, and
  \<^verbatim>\<open>lower\<close> commutes with \<^verbatim>\<open>strip\<close> and is idempotent.
\<close>

definition py_str_isspace :: "char \<Rightarrow> bool" where
  "py_str_isspace c \<longleftrightarrow>
     (let n = (of_char c :: nat) in (9 \<le> n \<and> n \<le> 13) \<or> (28 \<le> n \<and> n \<le> 32) \<or> n = 133 \<or> n = 160)"

definition py_lower_char :: "char \<Rightarrow> char" where
  "py_lower_char c =
     (let n = (of_char c :: nat) in
      if (65 \<le> n \<and> n \<le> 90) \<or> (192 \<le> n \<and> n \<le> 222 \<and> n \<noteq> 215) then char_of (n + 32) else c)"

definition py_lower :: "string \<Rightarrow> string" where
  "py_lower s = map py_lower_char s"

definition py_strip :: "string \<Rightarrow> string" where
  "py_strip s = rev (dropWhile py_str_isspace (rev (dropWhile py_str_isspace s)))"

definition py_startswith :: "string \<Rightarrow> string \<Rightarrow> bool" where
  "py_startswith p s \<longleftrightarrow> take (length p) s = p"

text \<open>\<^verbatim>\<open>s.split()\<close>: the maximal runs of non-whitespace characters, in order.\<close>

function py_split :: "string \<Rightarrow> string list" where
  "py_split s =
     (let t = dropWhile py_str_isspace s in
      if t = [] then []
      else takeWhile (\<lambda>c. \<not> py_str_isspace c) t # py_split (dropWhile (\<lambda>c. \<not> py_str_isspace c) t))"
  by pat_completeness auto
termination
proof (relation "measure length")
  fix s t
  assume t: "t = dropWhile py_str_isspace s" and ne: "t \<noteq> []"
  have "\<not> py_str_isspace (hd t)"
    using t ne by (metis hd_dropWhile)
  then have "length (dropWhile (\<lambda>c. \<not> py_str_isspace c) t) < length t"
    using ne by (cases t) (auto simp: length_dropWhile_le le_imp_less_Suc)
  also have "length t \<le> length s" using t by (simp add: length_dropWhile_le)
  finally show "(dropWhile (\<lambda>c. \<not> py_str_isspace c) t, s) \<in> measure length" by simp
qed simp

definition is_digit :: "char \<Rightarrow> bool" where
  "is_digit c \<longleftrightarrow> (let n = (of_char c :: nat) in 48 \<le> n \<and> n \<le> 57)"

definition digit_value :: "char \<Rightarrow> int" where
  "digit_value c = int (of_char c) - 48"

text \<open>
  The body of a decimal literal: digits, with single underscores between digits
  (\<^verbatim>\<open>int("1_000")\<close> is 1000).
\<close>

fun digit_run :: "string \<Rightarrow> bool" where
  "digit_run [] = False"
| "digit_run [c] = is_digit c"
| "digit_run (c # d # cs) = (is_digit c \<and> (if d = CHR ''_'' then digit_run cs else digit_run (d # cs)))"

definition digits_value :: "string \<Rightarrow> int" where
  "digits_value ds = foldl (\<lambda>n c. 10 * n + digit_value c) 0 (filter (\<lambda>c. c \<noteq> CHR ''_'') ds)"

text \<open>
  \<^verbatim>\<open>int(s)\<close> for a string without surrounding whitespace (the callers pass words of
  \<^verbatim>\<open>split()\<close>): an optional sign, then a digit run; anything else raises \<open>ValueError\<close>.
\<close>

definition py_int :: "string \<Rightarrow> int py" where
  "py_int s =
     (let (sign, ds) = (case s of
          [] \<Rightarrow> (1, [])
        | c # cs \<Rightarrow> if c = CHR ''-'' then (-1, cs) else if c = CHR ''+'' then (1, cs) else (1, s))
      in if digit_run ds then Inr (sign * digits_value ds)
         else Inl (ValueError (''invalid literal for int() with base 10: '' @ py_quote s)))"

text \<open>\<^verbatim>\<open>str(n)\<close> of an int: decimal digits, a minus sign for a negative number.\<close>

fun nat_str :: "nat \<Rightarrow> string" where
  "nat_str n = (if n < 10 then [char_of (48 + n)] else nat_str (n div 10) @ [char_of (48 + n mod 10)])"

definition py_str_int :: "int \<Rightarrow> string" where
  "py_str_int i = (if i < 0 then CHR ''-'' # nat_str (nat (- i)) else nat_str (nat i))"


subsection \<open>Lemmas on the string built-ins\<close>

declare nat_str.simps [simp del] py_split.simps [simp del]

lemma of_char_char_of_digit: "k < 10 \<Longrightarrow> (of_char (char_of (48 + k)) :: nat) = 48 + k"
  by simp

lemma digit_char_not_underscore: "k < 10 \<Longrightarrow> char_of (48 + k :: nat) \<noteq> CHR ''_''"
proof
  assume "k < 10" "char_of (48 + k) = CHR ''_''"
  then have "(of_char (CHR ''_'') :: nat) = 48 + k" using of_char_char_of_digit [of k] by simp
  then show False using \<open>k < 10\<close> by simp
qed

lemma nat_str_digits: "\<forall>c \<in> set (nat_str n). is_digit c"
proof (induction n rule: nat_str.induct)
  case (1 n)
  then show ?case
    by (subst nat_str.simps) (auto simp: is_digit_def of_char_char_of_digit)
qed

lemma nat_str_not_Nil: "nat_str n \<noteq> []"
  by (subst nat_str.simps) simp

lemma nat_str_hd_digit: "is_digit (hd (nat_str n))"
  using nat_str_digits [of n] nat_str_not_Nil [of n] by (cases "nat_str n") auto

lemma digit_run_digits: "xs \<noteq> [] \<Longrightarrow> \<forall>c \<in> set xs. is_digit c \<Longrightarrow> digit_run xs"
proof (induction xs rule: digit_run.induct)
  case (3 c d cs)
  have "d \<noteq> CHR ''_''" using 3(4) by (auto simp: is_digit_def)
  then show ?case using 3 by simp
qed simp_all

lemma digits_value_snoc:
  "c \<noteq> CHR ''_'' \<Longrightarrow> digits_value (xs @ [c]) = 10 * digits_value xs + digit_value c"
  by (simp add: digits_value_def)

lemma digit_value_char_of: "k < 10 \<Longrightarrow> digit_value (char_of (48 + k)) = int k"
  by (simp add: digit_value_def of_char_char_of_digit)

lemma digits_value_nat_str: "digits_value (nat_str n) = int n"
proof (induction n rule: nat_str.induct)
  case (1 n)
  show ?case
  proof (cases "n < 10")
    case True
    then show ?thesis
      by (subst nat_str.simps) (simp add: digits_value_def digit_value_char_of digit_char_not_underscore)
  next
    case False
    have u: "char_of (48 + n mod 10) \<noteq> CHR ''_''" by (simp add: digit_char_not_underscore)
    have "digits_value (nat_str n) = 10 * int (n div 10) + int (n mod 10)"
      using False 1 u by (subst nat_str.simps) (simp add: digits_value_snoc digit_value_char_of)
    also have "\<dots> = int (10 * (n div 10) + n mod 10)" by (simp only: of_nat_add of_nat_mult of_nat_numeral)
    also have "\<dots> = int n" by simp
    finally show ?thesis .
  qed
qed

lemma py_int_nat_str: "py_int (nat_str n) = Inr (int n)"
proof -
  obtain c cs where cs: "nat_str n = c # cs" using nat_str_not_Nil [of n] by (cases "nat_str n") auto
  have "is_digit c" using nat_str_hd_digit [of n] cs by simp
  then have "c \<noteq> CHR ''-''" "c \<noteq> CHR ''+''" by (auto simp: is_digit_def)
  then show ?thesis
    using digit_run_digits [OF nat_str_not_Nil [of n] nat_str_digits [of n]] digits_value_nat_str [of n] cs
    by (simp add: py_int_def)
qed

lemma py_int_minus_nat_str: "py_int (CHR ''-'' # nat_str n) = Inr (- int n)"
  using digit_run_digits [OF nat_str_not_Nil [of n] nat_str_digits [of n]] digits_value_nat_str [of n]
  by (simp add: py_int_def)


lemma py_split_Nil: "py_split [] = []"
  by (simp add: py_split.simps)

lemma py_split_space: "py_str_isspace c \<Longrightarrow> py_split (c # s) = py_split s"
  by (simp only: py_split.simps [of "c # s"] py_split.simps [of s] dropWhile.simps(2) if_True)

lemma py_split_word:
  assumes "w \<noteq> []" "\<forall>c \<in> set w. \<not> py_str_isspace c" "s = [] \<or> py_str_isspace (hd s)"
  shows "py_split (w @ s) = w # py_split s"
proof -
  have d: "dropWhile py_str_isspace (w @ s) = w @ s"
    using assms(1,2) by (cases w) auto
  have t: "takeWhile (\<lambda>c. \<not> py_str_isspace c) (w @ s) = w"
    using assms(2,3) by (cases s) auto
  have r: "dropWhile (\<lambda>c. \<not> py_str_isspace c) (w @ s) = s"
    using assms(2,3) by (cases s) auto
  show ?thesis
    using assms(1) d t r by (subst py_split.simps) (simp add: Let_def)
qed

lemma py_split_join:
  "\<forall>w \<in> set ws. w \<noteq> [] \<and> (\<forall>c \<in> set w. \<not> py_str_isspace c) \<Longrightarrow> py_split (py_join '' '' ws) = ws"
proof (induction ws rule: induct_list012)
  case (2 x)
  then show ?case using py_split_word [of x "[]"] by (simp add: py_split_Nil)
next
  case (3 x y zs)
  have sp: "py_str_isspace (CHR '' '')" by (simp add: py_str_isspace_def)
  have "py_split (py_join '' '' (x # y # zs)) = x # py_split (CHR '' '' # py_join '' '' (y # zs))"
    using 3(3) sp py_split_word [of x "CHR '' '' # py_join '' '' (y # zs)"] by simp
  also have "\<dots> = x # y # zs"
    using 3 sp by (simp add: py_split_space)
  finally show ?case .
qed (simp add: py_split_Nil)

lemma py_str_isspace_lower: "py_str_isspace (py_lower_char c) = py_str_isspace c"
  by (auto simp: py_lower_char_def py_str_isspace_def Let_def)

lemma py_lower_char_idem: "py_lower_char (py_lower_char c) = py_lower_char c"
  by (auto simp: py_lower_char_def Let_def)

lemma py_strip_lower: "py_strip (py_lower s) = py_lower (py_strip s)"
proof -
  have "py_str_isspace \<circ> py_lower_char = py_str_isspace" by (simp add: fun_eq_iff py_str_isspace_lower)
  then show ?thesis by (simp add: py_strip_def py_lower_def dropWhile_map rev_map)
qed

lemma py_lower_idem: "py_lower (py_lower s) = py_lower s"
  by (simp add: py_lower_def py_lower_char_idem)

lemma py_int_str: "py_int (py_str_int i) = Inr i"
  by (cases "i < 0") (simp_all add: py_str_int_def py_int_nat_str py_int_minus_nat_str)

lemma py_str_int_word: "py_str_int i \<noteq> [] \<and> (\<forall>c \<in> set (py_str_int i). \<not> py_str_isspace c)"
  using nat_str_digits nat_str_not_Nil
  by (auto simp: py_str_int_def py_str_isspace_def is_digit_def Let_def; fastforce)


lemma py_lower_char_digit: "is_digit c \<Longrightarrow> py_lower_char c = c"
  by (simp add: py_lower_char_def is_digit_def Let_def)

lemma py_lower_str_int: "py_lower (py_str_int i) = py_str_int i"
proof -
  have "py_lower (nat_str n) = nat_str n" for n
    using nat_str_digits [of n] by (simp add: py_lower_def py_lower_char_digit map_idI)
  then show ?thesis by (simp add: py_str_int_def py_lower_def py_lower_char_def)
qed

lemma py_strip_id:
  "s \<noteq> [] \<Longrightarrow> \<not> py_str_isspace (hd s) \<Longrightarrow> \<not> py_str_isspace (last s) \<Longrightarrow> py_strip s = s"
proof -
  assume a: "s \<noteq> []" "\<not> py_str_isspace (hd s)" "\<not> py_str_isspace (last s)"
  then have "dropWhile py_str_isspace s = s" by (simp add: dropWhile_eq_self_iff)
  moreover have "dropWhile py_str_isspace (rev s) = rev s" using a by (simp add: dropWhile_eq_self_iff hd_rev)
  ultimately show ?thesis by (simp add: py_strip_def)
qed

subsection \<open>Properties\<close>

text \<open>
  \<^verbatim>\<open>int\<close> reads back what \<^verbatim>\<open>str\<close> prints. For every Python int \<open>i\<close>,
  \<^verbatim>\<open>int(str(i)) == i\<close>, and \<^verbatim>\<open>str(i)\<close> is one non-empty word without whitespace,
  so a channel number printed into a command line is split off and parsed back intact.
\<close>

theorem py_int_str_roundtrip:
  "py_int (py_str_int i) = Inr i \<and> py_str_int i \<noteq> [] \<and> (\<forall>c \<in> set (py_str_int i). \<not> py_str_isspace c)"
  using py_int_str py_str_int_word by blast

theorem py_int_str_roundtrip_witness:
  "py_str_int (-120) = ''-120'' \<and> py_int ''-120'' = Inr (-120) \<and> list_all (\<lambda>c. \<not> py_str_isspace c) ''-120''"
proof -
  have s: "py_str_int (-120) = ''-120''" by code_simp
  show ?thesis using py_int_str_roundtrip [of "-120"] s by (simp add: list_all_iff)
qed

end
