(* ===== verification/Text_Bridge.thy ===== *)
theory Text_Bridge
  imports Batch Py_Strings
begin

text \<open>
  The text command bridge \<^verbatim>\<open>src/modbus_mqtt_bridge.py\<close>. Its state is the serial port
  and the list of texts published on the response topic (\<open>tb_published\<close>); console
  output (\<^verbatim>\<open>print\<close>) and the sleeps are not modelled. \<^verbatim>\<open>print_pubish(*args)\<close>
  publishes its arguments joined by spaces; every call site passes strings, so its branch
  for a list argument is never taken.

  \<^verbatim>\<open>process_command\<close> has no exception handler: \<^verbatim>\<open>int(...)\<close>, the builders and
  \<^verbatim>\<open>resp[4]\<close> may raise, and \<^verbatim>\<open>exit\<close> calls \<^verbatim>\<open>sys.exit(0)\<close>. paho re-raises what an
  \<^verbatim>\<open>on_message\<close> callback raises, so each of these ends \<^verbatim>\<open>loop_forever\<close> and the
  program. A command is therefore modelled as the state it reaches together with the
  reason it stopped the program, if it did (\<open>stop\<close>).
\<close>

record tbridge =
  tb_port :: serial
  tb_published :: "string list"

datatype stop = Exit int | Raised py_error

definition print_pubish :: "string list \<Rightarrow> tbridge \<Rightarrow> tbridge" where
  "print_pubish args st = st\<lparr>tb_published := tb_published st @ [py_join '' '' args]\<rparr>"

definition text_exchange :: "byte list \<Rightarrow> tbridge \<Rightarrow> byte list \<times> tbridge" where
  "text_exchange frame st = (let (resp, p) = exchange frame (tb_port st) in (resp, st\<lparr>tb_port := p\<rparr>))"

definition on_all_entry :: "int \<Rightarrow> byte list \<Rightarrow> string py" where
  "on_all_entry i resp =
     Inr (if 0 < length resp then ''Channel '' @ py_str_int i @ '' ON response: '' @ hexdump resp
          else ''Channel '' @ py_str_int i @ '' No response (timeout)'')"

definition off_all_entry :: "int \<Rightarrow> byte list \<Rightarrow> string py" where
  "off_all_entry i resp =
     Inr (if 0 < length resp then ''Channel '' @ py_str_int i @ '' OFF response: '' @ hexdump resp
          else ''Channel '' @ py_str_int i @ '': No response (timeout)'')"

definition status_text_entry :: "int \<Rightarrow> byte list \<Rightarrow> string py" where
  "status_text_entry i resp =
     (if 0 < length resp then
        (case py_index resp 4 of
           Inl e \<Rightarrow> Inl e
         | Inr b \<Rightarrow> Inr (if b = 1 then ''Input '' @ py_str_int i @ '' is ON'' else ''Input '' @ py_str_int i @ '' is OFF''))
      else Inr (''Input '' @ py_str_int i @ '': No response (timeout)''))"

text \<open>
  The four batch commands share one shape: the loop over channels 1--8, then
  \<^verbatim>\<open>print_pubish("\n".join(messages))\<close>.
\<close>

definition text_batch :: "(int \<Rightarrow> byte list py) \<Rightarrow> (int \<Rightarrow> byte list \<Rightarrow> string py) \<Rightarrow> string list \<Rightarrow>
                          tbridge \<Rightarrow> stop option \<times> tbridge" where
  "text_batch build entry messages st =
     (case batch build entry [1..8] [] (tb_port st) of
        (Some e, _, p) \<Rightarrow> (Some (Raised e), st\<lparr>tb_port := p\<rparr>)
      | (None, ms, p) \<Rightarrow> (None, print_pubish [py_join [CHR 0x0A] (messages @ ms)] (st\<lparr>tb_port := p\<rparr>)))"

text \<open>The branch \<^verbatim>\<open>out <ch> <state>\<close> of \<^verbatim>\<open>process_command\<close>, on the words of the command.\<close>

definition text_out :: "int \<Rightarrow> string list \<Rightarrow> tbridge \<Rightarrow> stop option \<times> tbridge" where
  "text_out device parts st =
     (case py_int (parts ! 1) of
        Inl e \<Rightarrow> (Some (Raised e), st)
      | Inr ch \<Rightarrow>
          (case build_relay_command_text device ch (parts ! 2) of
             Inl e \<Rightarrow> (Some (Raised e), st)
           | Inr frame \<Rightarrow>
               (let (resp, st1) = text_exchange frame st in
                (None, print_pubish [''<- Response:'', hexdump resp] st1))))"

text \<open>The branch \<^verbatim>\<open>in <n>\<close>.\<close>

definition text_in :: "int \<Rightarrow> string list \<Rightarrow> tbridge \<Rightarrow> stop option \<times> tbridge" where
  "text_in device parts st =
     (case py_int (parts ! 1) of
        Inl e \<Rightarrow> (Some (Raised e), st)
      | Inr inp \<Rightarrow>
          (case build_read_input_text device inp of
             Inl e \<Rightarrow> (Some (Raised e), st)
           | Inr frame \<Rightarrow>
               (let (resp, st1) = text_exchange frame st in
                if 0 < length resp then
                  (case py_index resp 4 of
                     Inl e \<Rightarrow> (Some (Raised e), st1)
                   | Inr b \<Rightarrow>
                       (None, print_pubish [''Input '' @ py_str_int inp @ '' is '' @
                                            (if b = 1 then ''ON'' else ''OFF'')] st1))
                else (None, print_pubish [''<- No response (timeout).''] st1))))"

definition text_process_command :: "int \<Rightarrow> string \<Rightarrow> tbridge \<Rightarrow> stop option \<times> tbridge" where
  "text_process_command device cmd st0 =
     (let messages =
        (if cmd = ''on all'' \<or> cmd = ''off all'' \<or> py_startswith ''out '' cmd \<or> py_startswith ''in '' cmd \<or>
            py_startswith ''status '' cmd
         then [''Processing command: '' @ cmd] else [])
      in if cmd = ''exit'' then (Some (Exit 0), print_pubish [''Exiting program as requested.''] st0)
      else
        (let st = print_pubish [''You typed: '', cmd] st0; parts = py_split cmd in
         if length parts = 3 \<and> parts ! 0 = ''out'' then
           text_out device parts st
         else if cmd = ''on all'' then
           text_batch (\<lambda>i. build_relay_command_text device i ''on'') on_all_entry messages st
         else if cmd = ''off all'' then
           text_batch (\<lambda>i. build_relay_command_text device i ''off'') off_all_entry messages st
         else if length parts = 2 \<and> parts ! 0 = ''in'' then
           text_in device parts st
         else if cmd = ''status out'' then
           text_batch (builst_read_output device) status_text_entry messages st
         else if cmd = ''status inp'' then
           text_batch (build_read_input_text device) status_text_entry messages st
         else (None, print_pubish [''Invalid command format.''] st)))"

text \<open>
  \<^verbatim>\<open>on_message\<close>: the payload text is stripped and lower-cased; the bridge's own messages
  (prefix \<^verbatim>\<open>from-subscriber:\<close>) are ignored, and \<^verbatim>\<open>ping\<close> and \<^verbatim>\<open>bye\<close> only set a
  reply that is never published (the publishing lines are commented out).
\<close>

definition text_on_message :: "int \<Rightarrow> string \<Rightarrow> tbridge \<Rightarrow> stop option \<times> tbridge" where
  "text_on_message device payload st =
     (let text = py_strip payload; incoming = py_lower text in
      if py_startswith ''from-subscriber:'' incoming then (None, st)
      else if incoming = ''ping'' then (None, st)
      else if incoming = ''bye'' then (None, st)
      else text_process_command device incoming st)"

definition text_on_connect :: "tbridge \<Rightarrow> tbridge" where
  "text_on_connect st = st\<lparr>tb_published := tb_published st @ [''Modbus RTU tester connected.'']\<rparr>"

text \<open>A bridge whose device answers with the given script of replies, for the examples.\<close>

definition tb_demo :: "reply list \<Rightarrow> tbridge" where
  "tb_demo rs = \<lparr>tb_port = \<lparr>in_buf = [], in_flight = [], wire = [], pending = rs\<rparr>, tb_published = []\<rparr>"

fun text_run :: "int \<Rightarrow> string list \<Rightarrow> tbridge \<Rightarrow> stop option \<times> tbridge" where
  "text_run device [] st = (None, st)"
| "text_run device (m # ms) st =
     (case text_on_message device m st of
        (Some r, st') \<Rightarrow> (Some r, st')
      | (None, st') \<Rightarrow> text_run device ms st')"



subsection \<open>Lemmas\<close>

lemma action_word_word: "action_word a \<noteq> [] \<and> (\<forall>c \<in> set (action_word a). \<not> py_str_isspace c)"
  by (cases a) (auto simp: py_str_isspace_def)

lemma out_command_split:
  "py_split (''out '' @ py_str_int k @ '' '' @ action_word a) = [''out'', py_str_int k, action_word a]"
proof -
  have "py_join '' '' [''out'', py_str_int k, action_word a] = ''out '' @ py_str_int k @ '' '' @ action_word a"
    by simp
  moreover have "py_split (py_join '' '' [''out'', py_str_int k, action_word a]) = [''out'', py_str_int k, action_word a]"
    using py_str_int_word [of k] action_word_word [of a]
    by (intro py_split_join) (simp add: py_str_isspace_def)
  ultimately show ?thesis by simp
qed

lemma out_command_text:
  "py_lower (py_strip (''out '' @ py_str_int k @ '' '' @ action_word a)) = ''out '' @ py_str_int k @ '' '' @ action_word a"
proof -
  have "py_strip (''out '' @ py_str_int k @ '' '' @ action_word a) = ''out '' @ py_str_int k @ '' '' @ action_word a"
    by (rule py_strip_id) (cases a; simp add: py_str_isspace_def)+
  moreover have "py_lower (action_word a) = action_word a"
    by (cases a) (simp_all add: py_lower_def py_lower_char_def)
  ultimately show ?thesis by (simp add: py_lower_def py_lower_char_def py_lower_str_int [unfolded py_lower_def])
qed

lemma text_exchange_script:
  assumes "settled (tb_port st)"
  shows "\<exists>p. text_exchange fr st = (script_resp (pending (tb_port st)) 0, st\<lparr>tb_port := p\<rparr>) \<and>
             wire p = wire (tb_port st) @ [fr] \<and> pending p = drop 1 (pending (tb_port st)) \<and> settled p"
proof -
  obtain resp p where ex: "exchange fr (tb_port st) = (resp, p)" by fastforce
  have "resp = script_resp (pending (tb_port st)) 0"
    using exchange_resp [OF assms, of fr] ex by (simp add: next_reply_resp)
  moreover have "wire p = wire (tb_port st) @ [fr]" "pending p = drop 1 (pending (tb_port st))" "settled p"
    using exchange_wire [of fr "tb_port st"] exchange_pending [of fr "tb_port st"]
          exchange_settled [of fr "tb_port st"] ex by simp_all
  ultimately show ?thesis using ex by (intro exI [of _ p]) (simp add: text_exchange_def)
qed

lemma literal_command:
  "py_lower (py_strip ''status out'') = ''status out''"
  "py_lower (py_strip ''status inp'') = ''status inp''"
  "py_lower (py_strip ''on all'') = ''on all''"
  "py_lower (py_strip ''off all'') = ''off all''"
  by (simp_all add: py_strip_def py_lower_def py_lower_char_def py_str_isspace_def)

lemma literal_split:
  "py_split ''status out'' = [''status'', ''out'']"
  "py_split ''status inp'' = [''status'', ''inp'']"
  "py_split ''on all'' = [''on'', ''all'']"
  "py_split ''off all'' = [''off'', ''all'']"
  using py_split_join [of "[''status'', ''out'']"] py_split_join [of "[''status'', ''inp'']"]
        py_split_join [of "[''on'', ''all'']"] py_split_join [of "[''off'', ''all'']"]
  by (simp_all add: py_str_isspace_def)

lemma status_text_entry_ok:
  "r = [] \<or> 4 < length r \<Longrightarrow>
     status_text_entry i r = Inr (''Input '' @ py_str_int i @
        (if r = [] then '': No response (timeout)'' else if r ! 4 = 1 then '' is ON'' else '' is OFF''))"
  by (auto simp: status_text_entry_def py_index_def)

lemma tb_port_print_pubish [simp]: "tb_port (print_pubish args st) = tb_port st"
  by (simp add: print_pubish_def)

lemma text_exchange_wire:
  "text_exchange fr st = (resp, st') \<Longrightarrow> length fr = 8 \<and> crc_valid fr \<Longrightarrow> tb_port st = s \<Longrightarrow>
     wire_grows s (tb_port st')"
  by (auto simp: text_exchange_def split: prod.splits intro: wire_grows_exchange)

lemma text_batch_wire:
  "text_batch build entry ms st = (r, st') \<Longrightarrow>
     (\<And>i fr. build i = Inr fr \<Longrightarrow> length fr = 8 \<and> crc_valid fr) \<Longrightarrow> tb_port st = s \<Longrightarrow>
     wire_grows s (tb_port st')"
  by (auto simp: text_batch_def print_pubish_def split: prod.splits option.splits intro: wire_grows_batch)

lemma text_out_wire:
  assumes "text_out dev parts st = (r, st')"
  shows "wire_grows (tb_port st) (tb_port st')"
proof (cases "py_int (parts ! 1)")
  case (Inr ch)
  show ?thesis
  proof (cases "build_relay_command_text dev ch (parts ! 2)")
    case (Inr fr)
    obtain resp st1 where ex: "text_exchange fr st = (resp, st1)" by fastforce
    have "wire_grows (tb_port st) (tb_port st1)"
      using text_exchange_wire [OF ex build_relay_command_text_frame [OF Inr]] by simp
    then show ?thesis
      using assms \<open>py_int (parts ! 1) = Inr ch\<close> Inr ex by (auto simp: text_out_def print_pubish_def)
  qed (use assms Inr in \<open>auto simp: text_out_def wire_grows_refl\<close>)
qed (use assms in \<open>auto simp: text_out_def wire_grows_refl\<close>)

lemma text_in_wire:
  assumes "text_in dev parts st = (r, st')"
  shows "wire_grows (tb_port st) (tb_port st')"
proof (cases "py_int (parts ! 1)")
  case (Inr inp)
  show ?thesis
  proof (cases "build_read_input_text dev inp")
    case (Inr fr)
    obtain resp st1 where ex: "text_exchange fr st = (resp, st1)" by fastforce
    have "wire_grows (tb_port st) (tb_port st1)"
      using text_exchange_wire [OF ex build_read_input_copies_frame(1) [OF Inr]] by simp
    then show ?thesis
      using assms \<open>py_int (parts ! 1) = Inr inp\<close> Inr ex
      by (auto simp: text_in_def print_pubish_def split: if_splits sum.splits)
  qed (use assms Inr in \<open>auto simp: text_in_def wire_grows_refl\<close>)
qed (use assms in \<open>auto simp: text_in_def wire_grows_refl\<close>)

lemma text_batch_relay_wire:
  "text_batch (\<lambda>i. build_relay_command_text dev i a) entry ms st = (r, st') \<Longrightarrow> wire_grows (tb_port st) (tb_port st')"
  by (erule text_batch_wire) (auto dest: build_relay_command_text_frame)

lemma text_batch_output_wire:
  "text_batch (builst_read_output dev) entry ms st = (r, st') \<Longrightarrow> wire_grows (tb_port st) (tb_port st')"
  by (erule text_batch_wire) (auto dest: builst_read_output_frame)

lemma text_batch_input_wire:
  "text_batch (build_read_input_text dev) entry ms st = (r, st') \<Longrightarrow> wire_grows (tb_port st) (tb_port st')"
  by (erule text_batch_wire) (auto dest: build_read_input_copies_frame)

lemma text_process_command_wire:
  assumes "text_process_command dev cmd st = (r, st')"
  shows "wire_grows (tb_port st) (tb_port st')"
  using assms unfolding text_process_command_def Let_def
    by (auto split: if_splits simp: wire_grows_refl
             dest!: text_out_wire text_in_wire text_batch_relay_wire text_batch_output_wire
                    text_batch_input_wire)

lemma text_on_message_wire:
  "text_on_message dev m st = (r, st') \<Longrightarrow> wire_grows (tb_port st) (tb_port st')"
  unfolding text_on_message_def Let_def
  by (auto simp: wire_grows_refl split: if_splits intro: text_process_command_wire)

lemma text_run_wire:
  "text_run dev ms st = (r, st') \<Longrightarrow> wire_grows (tb_port st) (tb_port st')"
proof (induction ms arbitrary: st)
  case Nil
  then show ?case by (simp add: wire_grows_refl)
next
  case (Cons m ms)
  obtain r1 st1 where m: "text_on_message dev m st = (r1, st1)" by fastforce
  show ?case
  proof (cases r1)
    case None
    then show ?thesis using Cons m wire_grows_trans [OF text_on_message_wire [OF m]] by simp
  next
    case (Some x)
    then show ?thesis using Cons.prems m text_on_message_wire [OF m] by simp
  qed
qed

subsection \<open>Properties of the text command bridge\<close>

text \<open>
  C19: a relay command of the text bridge. For a channel 1--8 and the action on or off, the
  message \<^verbatim>\<open>out <ch> <action>\<close> writes exactly the abstract relay request's frame and
  publishes two texts, the echo \<^verbatim>\<open>You typed:  ...\<close> and the hex dump of the reply.
\<close>

theorem text_out_command:
  assumes "valid_channel n" "settled (tb_port st)"
  shows "\<exists>p. text_on_message (uint d) (''out '' @ py_str_int (int n) @ '' '' @ action_word a) st =
           (None, st\<lparr>tb_port := p, tb_published := tb_published st @
              [''You typed:  out '' @ py_str_int (int n) @ '' '' @ action_word a,
               ''<- Response: '' @ hexdump (script_resp (pending (tb_port st)) 0)]\<rparr>) \<and>
         wire p = wire (tb_port st) @ [request_frame d (RelayWrite n a)] \<and> settled p"
proof -
  let ?cmd = "''out '' @ py_str_int (int n) @ '' '' @ action_word a"
  let ?st = "print_pubish [''You typed: '', ?cmd] st"
  have st: "settled (tb_port ?st)" using assms(2) by (simp add: print_pubish_def)
  obtain p where ex: "text_exchange (request_frame d (RelayWrite n a)) ?st =
                        (script_resp (pending (tb_port st)) 0, ?st\<lparr>tb_port := p\<rparr>)"
    and w: "wire p = wire (tb_port st) @ [request_frame d (RelayWrite n a)]" and s: "settled p"
    using text_exchange_script [OF st, of "request_frame d (RelayWrite n a)"] by (auto simp: print_pubish_def)
  have "text_on_message (uint d) ?cmd st =
          (None, print_pubish [''<- Response:'', hexdump (script_resp (pending (tb_port st)) 0)] (?st\<lparr>tb_port := p\<rparr>))"
    using ex out_command_text [of "int n" a] out_command_split [of "int n" a] py_int_str [of "int n"]
          relay_text_request [OF assms(1), of d a]
    by (simp add: text_on_message_def text_process_command_def text_out_def py_startswith_def)
  then show ?thesis using w s by (auto simp: print_pubish_def)
qed

theorem text_out_command_witness:
  "\<exists>p. text_on_message (uint (1::byte)) ''out 3 on'' (tb_demo [Reply [1, 6, 0, 3, 1, 0] []]) =
        (None, (tb_demo [Reply [1, 6, 0, 3, 1, 0] []])\<lparr>tb_port := p,
           tb_published := [''You typed:  out 3 on'', ''<- Response: 01 06 00 03 01 00'']\<rparr>) \<and>
        wire p = [request_frame 1 (RelayWrite 3 On)]"
proof -
  have v: "valid_channel 3" by (simp add: valid_channel_def)
  have s: "settled (tb_port (tb_demo [Reply [1, 6, 0, 3, 1, 0] []]))" by (simp add: tb_demo_def settled_def)
  have c: "''out '' @ py_str_int (int 3) @ '' '' @ action_word On = ''out 3 on''"
    by code_simp
  have h: "hexdump (script_resp (pending (tb_port (tb_demo [Reply [1, 6, 0, 3, 1, 0] []]))) 0) = ''01 06 00 03 01 00''"
    by (simp add: tb_demo_def script_resp_def) code_simp
  have n: "py_str_int 3 = ''3''" by code_simp
  show ?thesis
    using text_out_command [OF v s, of 1 On] unfolding c h
    by (simp add: tb_demo_def n) blast
qed

text \<open>
  C20: an invalid channel ends the text bridge. \<^verbatim>\<open>out <ch> on\<close> or \<^verbatim>\<open>off\<close>
  with a channel outside 1--8 publishes the echo, writes nothing and raises
  \<open>ValueError\<close>, which no handler of \<^verbatim>\<open>process_command\<close> or \<^verbatim>\<open>on_message\<close> catches.
\<close>

theorem text_out_bad_channel_crashes:
  assumes "k < 1 \<or> 8 < k"
  shows "text_on_message dev (''out '' @ py_str_int k @ '' '' @ action_word a) st =
           (Some (Raised (ValueError ''channel must be 1-8'')),
            st\<lparr>tb_published := tb_published st @ [''You typed:  out '' @ py_str_int k @ '' '' @ action_word a]\<rparr>)"
proof -
  have "build_relay_command_text dev k (action_word a) = Inl (ValueError ''channel must be 1-8'')"
    using assms by (cases a) (auto simp: build_relay_command_text_def)
  then show ?thesis
    using out_command_text [of k a] out_command_split [of k a] py_int_str [of k]
    by (simp add: text_on_message_def text_process_command_def text_out_def py_startswith_def print_pubish_def)
qed

theorem text_out_bad_channel_crashes_witness:
  "text_on_message 1 ''out 9 on'' (tb_demo []) =
     (Some (Raised (ValueError ''channel must be 1-8'')), (tb_demo [])\<lparr>tb_published := [''You typed:  out 9 on'']\<rparr>)"
proof -
  have c: "''out '' @ py_str_int 9 @ '' '' @ action_word On = ''out 9 on''"
    by code_simp
  have n: "py_str_int 9 = ''9''" by code_simp
  show ?thesis
    using text_out_bad_channel_crashes [of 9 1 On "tb_demo []"] unfolding c by (simp add: tb_demo_def n)
qed

text \<open>
  C21: \<^verbatim>\<open>status out\<close>. When no reply is 1 to 4 bytes long, the command polls the
  output registers of channels 1--8 in order and publishes one text whose lines report
  each channel's state, or its timeout, labelled \<^verbatim>\<open>Input\<close> although they are outputs.
\<close>

theorem text_status_out_reports_inputs:
  assumes "settled (tb_port st)"
    and "\<forall>k < 8. script_resp (pending (tb_port st)) k = [] \<or> 4 < length (script_resp (pending (tb_port st)) k)"
  shows "\<exists>p. text_on_message (uint d) ''status out'' st =
           (None, st\<lparr>tb_port := p, tb_published := tb_published st @
              [''You typed:  status out'',
               py_join [CHR 0x0A] (''Processing command: status out'' #
                 map (\<lambda>k. ''Input '' @ py_str_int (1 + int k) @
                        (if script_resp (pending (tb_port st)) k = [] then '': No response (timeout)''
                         else if script_resp (pending (tb_port st)) k ! 4 = 1 then '' is ON'' else '' is OFF''))
                     [0..<8])]\<rparr>) \<and>
         wire p = wire (tb_port st) @ map (\<lambda>n. request_frame d (OutputRead n)) [1..<9] \<and> settled p"
proof -
  let ?rs = "pending (tb_port st)"
  let ?line = "\<lambda>k. ''Input '' @ py_str_int (1 + int k) @
                 (if script_resp ?rs k = [] then '': No response (timeout)''
                  else if script_resp ?rs k ! 4 = 1 then '' is ON'' else '' is OFF'')"
  have e: "\<forall>k < 8. \<exists>y. status_text_entry (1 + int k) (script_resp ?rs k) = Inr y"
    using assms(2) status_text_entry_ok by blast
  obtain p where
    b: "batch (builst_read_output (uint d)) status_text_entry [1..8] [] (tb_port st) =
          (None, [] @ map (\<lambda>k. projr (status_text_entry (1 + int k) (script_resp ?rs k))) [0..<8], p)"
    and w: "wire p = wire (tb_port st) @ map (\<lambda>n. request_frame d (OutputRead n)) [1..<9]"
    and s: "settled p"
    using channel_batch_complete [of "tb_port st" "builst_read_output (uint d)" "\<lambda>n. request_frame d (OutputRead n)",
                                  OF assms(1) builst_read_output_request e] by blast
  have m: "map (\<lambda>k. projr (status_text_entry (1 + int k) (script_resp ?rs k))) [0..<8] = map ?line [0..<8]"
    using assms(2) by (auto intro!: map_cong simp: status_text_entry_ok)
  show ?thesis
    using b w s m literal_command(1) literal_split(1)
    by (intro exI [of _ p])
       (simp add: text_on_message_def text_process_command_def text_batch_def py_startswith_def print_pubish_def Let_def)
qed

theorem text_status_out_reports_inputs_witness:
  "\<exists>p. text_on_message (uint (1::byte)) ''status out'' (tb_demo [Reply [1, 3, 2, 0, 1, 0x79, 0x84] []]) =
        (None, (tb_demo [Reply [1, 3, 2, 0, 1, 0x79, 0x84] []])\<lparr>tb_port := p,
           tb_published := [''You typed:  status out'',
             ''Processing command: status out'' @ [CHR 0x0A] @ ''Input 1 is ON'' @ [CHR 0x0A] @
             ''Input 2: No response (timeout)'' @ [CHR 0x0A] @ ''Input 3: No response (timeout)'' @ [CHR 0x0A] @
             ''Input 4: No response (timeout)'' @ [CHR 0x0A] @ ''Input 5: No response (timeout)'' @ [CHR 0x0A] @
             ''Input 6: No response (timeout)'' @ [CHR 0x0A] @ ''Input 7: No response (timeout)'' @ [CHR 0x0A] @
             ''Input 8: No response (timeout)'']\<rparr>) \<and>
        wire p = map (\<lambda>n. request_frame 1 (OutputRead n)) [1..<9]"
proof -
  let ?st = "tb_demo [Reply [1, 3, 2, 0, 1, 0x79, 0x84] []]"
  have s: "settled (tb_port ?st)" by (simp add: tb_demo_def settled_def)
  have r: "\<forall>k < 8. script_resp (pending (tb_port ?st)) k = [] \<or> 4 < length (script_resp (pending (tb_port ?st)) k)"
    by (simp add: tb_demo_def script_resp_def)
  have t: "py_join [CHR 0x0A] (''Processing command: status out'' #
             map (\<lambda>k. ''Input '' @ py_str_int (1 + int k) @
                    (if script_resp (pending (tb_port ?st)) k = [] then '': No response (timeout)''
                     else if script_resp (pending (tb_port ?st)) k ! 4 = 1 then '' is ON'' else '' is OFF''))
               [0..<8]) =
           ''Processing command: status out'' @ [CHR 0x0A] @ ''Input 1 is ON'' @ [CHR 0x0A] @
             ''Input 2: No response (timeout)'' @ [CHR 0x0A] @ ''Input 3: No response (timeout)'' @ [CHR 0x0A] @
             ''Input 4: No response (timeout)'' @ [CHR 0x0A] @ ''Input 5: No response (timeout)'' @ [CHR 0x0A] @
             ''Input 6: No response (timeout)'' @ [CHR 0x0A] @ ''Input 7: No response (timeout)'' @ [CHR 0x0A] @
             ''Input 8: No response (timeout)''"
    by code_simp
  show ?thesis
    using text_status_out_reports_inputs [OF s r, of 1] unfolding t by (simp add: tb_demo_def) blast
qed

text \<open>
  C22: the text bridge writes only well-formed frames. Whatever the messages, every frame a
  run writes, up to the end of the run or the exception that ends the program, has 8 bytes
  and a correct CRC.
\<close>

theorem text_run_writes_only_valid_frames:
  "text_run dev ms st = (r, st') \<Longrightarrow>
     \<exists>ws. wire (tb_port st') = wire (tb_port st) @ ws \<and> (\<forall>fr \<in> set ws. length fr = 8 \<and> crc_valid fr)"
  using text_run_wire unfolding wire_grows_def well_formed_frames_def list_all_iff by blast

theorem text_run_writes_only_valid_frames_witness:
  "\<exists>ws. wire (tb_port (snd (text_run 1 [''out 3 on'', ''status inp'', ''in 2'', ''out 9 on'']
                              (tb_demo [Reply [1, 6, 0, 3, 1, 0] []])))) = [] @ ws \<and>
        list_all (\<lambda>fr. length fr = 8 \<and> crc_valid fr) ws"
proof -
  let ?R = "text_run 1 [''out 3 on'', ''status inp'', ''in 2'', ''out 9 on''] (tb_demo [Reply [1, 6, 0, 3, 1, 0] []])"
  have "\<exists>ws. wire (tb_port (snd ?R)) = wire (tb_port (tb_demo [Reply [1, 6, 0, 3, 1, 0] []])) @ ws \<and>
             (\<forall>fr \<in> set ws. length fr = 8 \<and> crc_valid fr)"
    by (rule text_run_writes_only_valid_frames [OF surjective_pairing [of ?R]])
  moreover have "wire (tb_port (tb_demo [Reply [1, 6, 0, 3, 1, 0] []])) = []" by (simp add: tb_demo_def)
  ultimately show ?thesis by (simp only: list_all_iff)
qed

text \<open>
  C23: commands are case-insensitive. A message and its lower-cased form have the same
  effect, because \<^verbatim>\<open>on_message\<close> lower-cases after stripping and lower-casing
  preserves whitespace.
\<close>

theorem text_commands_case_insensitive:
  "text_on_message dev (py_lower s) st = text_on_message dev s st"
  by (simp add: text_on_message_def py_strip_lower py_lower_idem)

text \<open>
  Ignored messages. A message that is, after stripping and lower-casing, \<^verbatim>\<open>ping\<close>,
  \<^verbatim>\<open>bye\<close> or prefixed \<^verbatim>\<open>from-subscriber:\<close> changes nothing: no reply is published.
\<close>

theorem text_ignored_messages:
  assumes "py_startswith ''from-subscriber:'' (py_lower (py_strip s)) \<or>
           py_lower (py_strip s) = ''ping'' \<or> py_lower (py_strip s) = ''bye''"
  shows "text_on_message dev s st = (None, st)"
  using assms by (auto simp: text_on_message_def Let_def)

theorem text_ignored_messages_witness:
  "text_on_message 1 '' PING '' (tb_demo []) = (None, tb_demo [])"
proof -
  have "py_lower (py_strip '' PING '') = ''ping''"
    by code_simp
  then show ?thesis using text_ignored_messages [of "'' PING ''" 1 "tb_demo []"] by simp
qed

end
