(* ===== verification/Raw_Tester.thy ===== *)
theory Raw_Tester
  imports Text_Bridge
begin

text \<open>
  The interactive serial tester \<^verbatim>\<open>src/raw_modbus_test.py\<close>. Its state is the serial port,
  the console output (one entry per \<^verbatim>\<open>print\<close> call and per \<^verbatim>\<open>input\<close> prompt, after the
  start-up banner that only echoes the arguments) and whether the port is still open.
  The standard input is the list of lines typed; reading past its end raises \<open>EOFError\<close>.

  \<^verbatim>\<open>main\<close> loops over the lines until one is \<^verbatim>\<open>exit\<close>; each other line is one command,
  as in the MQTT text bridge but printed instead of published, with the tester's own copies
  of the helpers: \<open>build_relay_command_raw\<close>, which also prints the frame before its CRC,
  \<open>build_read_input_raw\<close>, the output-status builder \<open>builst_read_output_raw\<close>
  (register channel + 1, with \<^verbatim>\<open>Output\<close> labels) and \<open>hexstr_to_bytes_raw\<close>. After \<^verbatim>\<open>exit\<close>
  the frames of \<^verbatim>\<open>EXAMPLES\<close> are sent, in the dictionary's order, and the port is
  closed. Exceptions are not caught anywhere in the loop: one ends the program with the
  state reached, without the replay and without closing the port.
\<close>

record tester =
  t_port :: serial
  t_console :: "string list"
  t_open :: bool

definition t_print :: "string list \<Rightarrow> tester \<Rightarrow> tester" where
  "t_print args st = st\<lparr>t_console := t_console st @ [py_join '' '' args]\<rparr>"

definition t_exchange :: "byte list \<Rightarrow> tester \<Rightarrow> byte list \<times> tester" where
  "t_exchange frame st = (let (resp, p) = exchange frame (t_port st) in (resp, st\<lparr>t_port := p\<rparr>))"

definition on_all_line :: "int \<Rightarrow> byte list \<Rightarrow> string py" where
  "on_all_line i resp = Inr (py_join '' '' [''Channel '' @ py_str_int i @ '' ON response:'', hexdump resp])"

definition off_all_line :: "int \<Rightarrow> byte list \<Rightarrow> string py" where
  "off_all_line i resp = Inr (py_join '' '' [''Channel '' @ py_str_int i @ '' OFF response:'', hexdump resp])"

text \<open>The per-channel line of \<^verbatim>\<open>status out\<close> and \<^verbatim>\<open>status inp\<close>, by their label.\<close>

definition status_line :: "string \<Rightarrow> int \<Rightarrow> byte list \<Rightarrow> string py" where
  "status_line label i resp =
     (if 0 < length resp then
        (case py_index resp 4 of
           Inl e \<Rightarrow> Inl e
         | Inr b \<Rightarrow> Inr (label @ '' '' @ py_str_int i @ (if b = 1 then '' is ON'' else '' is OFF'')))
      else Inr (label @ '' '' @ py_str_int i @ '': No response (timeout).''))"

text \<open>
  The tester's \<^verbatim>\<open>build_relay_command\<close>, the text bridge's with the debug print of the
  frame before its CRC: the lines it prints and the frame or the exception.
\<close>

definition build_relay_command_raw :: "int \<Rightarrow> int \<Rightarrow> string \<Rightarrow> string list \<times> byte list py" where
  "build_relay_command_raw device channel action =
     (let reg_hi = 0; reg_lo = channel in
      case (if action = ''on'' then Some (1, 0)
            else if action = ''off'' then Some (2, 0) else None) of
        None \<Rightarrow> ([], Inl action_error)
      | Some (data_hi, data_lo) \<Rightarrow>
          if 8 < channel \<or> channel < 1 then ([], Inl (ValueError ''channel must be 1-8''))
          else
            (case py_bytes (map PInt [device, WRITE_REG, reg_hi, reg_lo, data_hi, data_lo]) of
               Inl e \<Rightarrow> ([], Inl e)
             | Inr frame_wo_crc \<Rightarrow>
                 ([py_join '' '' [''Frame without CRC:'', hexdump frame_wo_crc]],
                  case crc16 frame_wo_crc of Inl e \<Rightarrow> Inl e | Inr crc \<Rightarrow> Inr (frame_wo_crc @ crc))))"

text \<open>
  A batch command of the tester prints its lines inside the loop, so the lines of the
  channels done before an exception stay printed. The builder of each channel returns the
  lines it printed with its frame; they come before the channel's own line. (Only the relay
  builder prints, and its batches' lines never fail.)
\<close>

definition tester_batch :: "(int \<Rightarrow> string list \<times> byte list py) \<Rightarrow> (int \<Rightarrow> byte list \<Rightarrow> string py) \<Rightarrow>
                            tester \<Rightarrow> stop option \<times> tester" where
  "tester_batch build entry st =
     (case batch (\<lambda>i. snd (build i)) (\<lambda>i resp. map_sum id (\<lambda>l. fst (build i) @ [l]) (entry i resp))
             [1..8] [] (t_port st) of
        (r, lines, p) \<Rightarrow> (map_option Raised r, st\<lparr>t_port := p, t_console := t_console st @ concat lines\<rparr>))"

definition tester_out :: "int \<Rightarrow> string list \<Rightarrow> tester \<Rightarrow> stop option \<times> tester" where
  "tester_out device parts st =
     (case py_int (parts ! 1) of
        Inl e \<Rightarrow> (Some (Raised e), st)
      | Inr ch \<Rightarrow>
          (case build_relay_command_raw device ch (parts ! 2) of
             (out, Inl e) \<Rightarrow> (Some (Raised e), st\<lparr>t_console := t_console st @ out\<rparr>)
           | (out, Inr frame) \<Rightarrow>
               (let (resp, st1) = t_exchange frame (st\<lparr>t_console := t_console st @ out\<rparr>) in
                (None, t_print [''<- Response:'', hexdump resp] st1))))"

definition tester_in :: "int \<Rightarrow> string list \<Rightarrow> tester \<Rightarrow> stop option \<times> tester" where
  "tester_in device parts st =
     (case py_int (parts ! 1) of
        Inl e \<Rightarrow> (Some (Raised e), st)
      | Inr inp \<Rightarrow>
          (case build_read_input_raw device inp of
             Inl e \<Rightarrow> (Some (Raised e), st)
           | Inr frame \<Rightarrow>
               (let (resp, st1) = t_exchange frame st in
                if 0 < length resp then
                  (let st2 = t_print [''<- Response:'', hexdump resp] st1 in
                   case py_index resp 4 of
                     Inl e \<Rightarrow> (Some (Raised e), st2)
                   | Inr b \<Rightarrow>
                       (None, t_print [''Input '' @ py_str_int inp @ (if b = 1 then '' is ON'' else '' is OFF'')] st2))
                else (None, t_print [''<- No response (timeout).''] st1))))"

text \<open>One command of the loop, other than \<^verbatim>\<open>exit\<close>.\<close>

definition tester_command :: "int \<Rightarrow> string \<Rightarrow> tester \<Rightarrow> stop option \<times> tester" where
  "tester_command device cmd st0 =
     (let st = t_print [''You typed: '', cmd] st0; parts = py_split cmd in
      if length parts = 3 \<and> parts ! 0 = ''out'' then tester_out device parts st
      else if cmd = ''on all'' then tester_batch (\<lambda>i. build_relay_command_raw device i ''on'') on_all_line st
      else if cmd = ''off all'' then tester_batch (\<lambda>i. build_relay_command_raw device i ''off'') off_all_line st
      else if length parts = 2 \<and> parts ! 0 = ''in'' then tester_in device parts st
      else if cmd = ''status out'' then tester_batch (\<lambda>i. ([], builst_read_output_raw device i)) (status_line ''Output'') st
      else if cmd = ''status inp'' then
        tester_batch (\<lambda>i. ([], build_read_input_raw device i)) (status_line ''Input'') st
      else (None, t_print [''Invalid command format.''] st))"

text \<open>
  The loop \<^verbatim>\<open>while True: cmd = input("Command> ").strip().lower() ...\<close>: \<open>None\<close> when it
  is left by \<^verbatim>\<open>break\<close>, else what ended the program.
\<close>

fun tester_loop :: "int \<Rightarrow> string list \<Rightarrow> tester \<Rightarrow> stop option \<times> tester" where
  "tester_loop device [] st =
     (Some (Raised (EOFError ''EOF when reading a line'')), st\<lparr>t_console := t_console st @ [''Command> '']\<rparr>)"
| "tester_loop device (l # ls) st =
     (let st1 = st\<lparr>t_console := t_console st @ [''Command> '']\<rparr>; cmd = py_lower (py_strip l) in
      if cmd = ''exit'' then (None, st1)
      else (case tester_command device cmd st1 of
              (Some r, st2) \<Rightarrow> (Some r, st2)
            | (None, st2) \<Rightarrow> tester_loop device ls st2))"

text \<open>The tester's copy of \<^verbatim>\<open>hexstr_to_bytes\<close>.\<close>

definition hexstr_to_bytes_raw :: "string \<Rightarrow> byte list py" where
  "hexstr_to_bytes_raw s = fromhex (filter (\<lambda>c. c \<noteq> CHR 0x0A) (filter (\<lambda>c. c \<noteq> CHR '' '') s))"

definition EXAMPLES :: "(string \<times> string) list" where
  "EXAMPLES =
     [(''chan1_open'', ''01 06 00 01 01 00 D9 9A''), (''chan1_close'', ''01 06 00 01 02 00 D9 6A''),
      (''read_ch1'', ''01 03 00 01 00 01 D5 CA''), (''remove realationship'', ''01 06 00 FD 00 00 18 3A'')]"

fun tester_replay :: "(string \<times> string) list \<Rightarrow> tester \<Rightarrow> stop option \<times> tester" where
  "tester_replay [] st = (None, st)"
| "tester_replay ((name, hexframe) # rest) st =
     (case hexstr_to_bytes_raw hexframe of
        Inl e \<Rightarrow> (Some (Raised e), st)
      | Inr data \<Rightarrow>
          (let st1 = t_print [CHR 0x0A # ''-> Sending example:'', name, hexdump data] st;
               (resp, st2) = t_exchange data st1;
               st3 = (if resp \<noteq> [] then t_print [''<- Raw response:'', hexdump resp] st2
                      else t_print [''<- No response (timeout).''] st2)
           in tester_replay rest st3))"

text \<open>\<^verbatim>\<open>main\<close> after opening the port: the loop, then the replay in \<^verbatim>\<open>try\<close> with \<^verbatim>\<open>ser.close()\<close> in \<^verbatim>\<open>finally\<close>.\<close>

definition tester_main :: "int \<Rightarrow> string list \<Rightarrow> tester \<Rightarrow> stop option \<times> tester" where
  "tester_main device lines st =
     (case tester_loop device lines st of
        (Some r, st1) \<Rightarrow> (Some r, st1)
      | (None, st1) \<Rightarrow> (case tester_replay EXAMPLES st1 of (r, st2) \<Rightarrow> (r, st2\<lparr>t_open := False\<rparr>)))"

text \<open>
  \<open>t_grows st st'\<close>: from \<open>st\<close> to \<open>st'\<close> only well-formed frames were written and the
  port was neither opened nor closed. \<open>t_demo rs\<close> is a tester on a fresh open port whose
  device answers with the script \<open>rs\<close>.
\<close>

definition t_grows :: "tester \<Rightarrow> tester \<Rightarrow> bool" where
  "t_grows st st' \<longleftrightarrow> wire_grows (t_port st) (t_port st') \<and> t_open st' = t_open st"

definition t_demo :: "reply list \<Rightarrow> tester" where
  "t_demo rs = \<lparr>t_port = \<lparr>in_buf = [], in_flight = [], wire = [], pending = rs\<rparr>, t_console = [], t_open = True\<rparr>"


lemma t_grows_refl: "t_grows st st"
  by (simp add: t_grows_def wire_grows_refl)

lemma t_grows_trans: "t_grows s1 s2 \<Longrightarrow> t_grows s2 s3 \<Longrightarrow> t_grows s1 s3"
  unfolding t_grows_def by (auto intro: wire_grows_trans)

lemma t_grows_print [simp]: "t_grows st (t_print args st') = t_grows st st'"
  by (simp add: t_grows_def t_print_def)

lemma t_grows_console [simp]: "t_grows st (st'\<lparr>t_console := c\<rparr>) = t_grows st st'"
  by (simp add: t_grows_def)

lemma t_print_port [simp]: "t_port (t_print args st) = t_port st" "t_open (t_print args st) = t_open st"
  by (simp_all add: t_print_def)

lemma t_exchange_grows:
  "t_exchange fr st = (resp, st') \<Longrightarrow> length fr = 8 \<and> crc_valid fr \<Longrightarrow> t_grows st0 st \<Longrightarrow> t_grows st0 st'"
  by (auto simp: t_exchange_def t_grows_def split: prod.splits intro: wire_grows_trans [OF _ wire_grows_exchange])

lemma build_relay_command_raw_frame:
  "snd (build_relay_command_raw dev k a) = build_relay_command_text dev k a"
  by (simp add: build_relay_command_raw_def build_relay_command_text_def frame_with_crc_def Let_def
           split: option.splits sum.splits)

lemma tester_batch_grows:
  "tester_batch build entry st = (r, st') \<Longrightarrow>
     (\<And>i fr. snd (build i) = Inr fr \<Longrightarrow> length fr = 8 \<and> crc_valid fr) \<Longrightarrow> t_grows st0 st \<Longrightarrow> t_grows st0 st'"
  by (auto simp: tester_batch_def t_grows_def split: prod.splits intro: wire_grows_trans [OF _ wire_grows_batch])

lemma tester_out_grows:
  assumes "tester_out dev parts st = (r, st')" "t_grows st0 st"
  shows "t_grows st0 st'"
proof (cases "py_int (parts ! 1)")
  case (Inr ch)
  obtain out res where b: "build_relay_command_raw dev ch (parts ! 2) = (out, res)" by fastforce
  show ?thesis
  proof (cases res)
    case (Inr fr)
    let ?st = "st\<lparr>t_console := t_console st @ out\<rparr>"
    have "build_relay_command_text dev ch (parts ! 2) = Inr fr"
      using b Inr build_relay_command_raw_frame [of dev ch "parts ! 2"] by simp
    moreover obtain resp st1 where ex: "t_exchange fr ?st = (resp, st1)" by fastforce
    moreover have "t_grows st0 ?st" using assms(2) by simp
    ultimately have "t_grows st0 st1" using t_exchange_grows build_relay_command_text_frame by blast
    then show ?thesis
      using assms(1) \<open>py_int (parts ! 1) = Inr ch\<close> b Inr ex by (auto simp: tester_out_def)
  qed (use assms b Inr in \<open>auto simp: tester_out_def\<close>)
qed (use assms in \<open>auto simp: tester_out_def\<close>)

lemma tester_in_grows:
  assumes "tester_in dev parts st = (r, st')" "t_grows st0 st"
  shows "t_grows st0 st'"
proof (cases "py_int (parts ! 1)")
  case (Inr inp)
  show ?thesis
  proof (cases "build_read_input_raw dev inp")
    case (Inr fr)
    obtain resp st1 where ex: "t_exchange fr st = (resp, st1)" by fastforce
    have "t_grows st0 st1"
      using t_exchange_grows [OF ex build_read_input_copies_frame(2) [OF Inr] assms(2)] .
    then show ?thesis
      using assms(1) \<open>py_int (parts ! 1) = Inr inp\<close> Inr ex
      by (auto simp: tester_in_def Let_def split: if_splits sum.splits)
  qed (use assms Inr in \<open>auto simp: tester_in_def\<close>)
qed (use assms in \<open>auto simp: tester_in_def\<close>)

lemma tester_batch_relay_grows:
  "tester_batch (\<lambda>i. build_relay_command_raw dev i a) entry st = (r, st') \<Longrightarrow> t_grows st0 st \<Longrightarrow> t_grows st0 st'"
  by (erule tester_batch_grows) (auto simp: build_relay_command_raw_frame dest: build_relay_command_text_frame)

lemma tester_batch_output_grows:
  "tester_batch (\<lambda>i. ([], builst_read_output_raw dev i)) entry st = (r, st') \<Longrightarrow> t_grows st0 st \<Longrightarrow> t_grows st0 st'"
  by (erule tester_batch_grows) (auto simp: builst_read_output_raw_shift dest: builst_read_output_frame)

lemma tester_batch_input_grows:
  "tester_batch (\<lambda>i. ([], build_read_input_raw dev i)) entry st = (r, st') \<Longrightarrow> t_grows st0 st \<Longrightarrow> t_grows st0 st'"
  by (erule tester_batch_grows) (auto dest: build_read_input_copies_frame)

lemma tester_command_grows:
  "tester_command dev cmd st = (r, st') \<Longrightarrow> t_grows st st'"
  unfolding tester_command_def Let_def
  by (auto split: if_splits simp: t_grows_refl
           elim!: tester_out_grows tester_in_grows tester_batch_relay_grows tester_batch_output_grows
                  tester_batch_input_grows)

lemma tester_loop_grows:
  "tester_loop dev ls st = (r, st') \<Longrightarrow> t_grows st st'"
proof (induction ls arbitrary: st)
  case Nil
  then show ?case by (auto simp: t_grows_refl)
next
  case (Cons l ls)
  let ?st1 = "st\<lparr>t_console := t_console st @ [''Command> '']\<rparr>"
  show ?case
  proof (cases "py_lower (py_strip l) = ''exit''")
    case True
    then show ?thesis using Cons.prems by (auto simp: t_grows_refl)
  next
    case False
    obtain r2 st2 where c: "tester_command dev (py_lower (py_strip l)) ?st1 = (r2, st2)" by fastforce
    have g: "t_grows st st2" using tester_command_grows [OF c] by (simp add: t_grows_def)
    show ?thesis
    proof (cases r2)
      case None
      then show ?thesis using Cons False c g by (auto intro: t_grows_trans)
    next
      case (Some x)
      then show ?thesis using Cons.prems False c g by auto
    qed
  qed
qed


lemma tester_replay_parsed:
  "list_all (\<lambda>(n, h). \<not> isl (hexstr_to_bytes_raw h)) xs \<Longrightarrow>
     \<exists>st'. tester_replay xs st = (None, st') \<and>
           wire (t_port st') = wire (t_port st) @ map (\<lambda>(n, h). projr (hexstr_to_bytes_raw h)) xs \<and>
           t_open st' = t_open st"
proof (induction xs arbitrary: st)
  case Nil
  then show ?case by simp
next
  case (Cons x xs)
  obtain name h where x: "x = (name, h)" by fastforce
  obtain d where d: "hexstr_to_bytes_raw h = Inr d" using Cons.prems x by (cases "hexstr_to_bytes_raw h") auto
  let ?st1 = "t_print [CHR 0x0A # ''-> Sending example:'', name, hexdump d] st"
  obtain resp st2 where ex: "t_exchange d ?st1 = (resp, st2)" by fastforce
  let ?st3 = "if resp \<noteq> [] then t_print [''<- Raw response:'', hexdump resp] st2
              else t_print [''<- No response (timeout).''] st2"
  have w: "wire (t_port ?st3) = wire (t_port st) @ [d]" "t_open ?st3 = t_open st"
    using ex exchange_wire [of d "t_port st"] by (auto simp: t_exchange_def split: prod.splits)
  obtain st' where "tester_replay xs ?st3 = (None, st')"
    "wire (t_port st') = wire (t_port ?st3) @ map (\<lambda>(n, h). projr (hexstr_to_bytes_raw h)) xs" "t_open st' = t_open ?st3"
    using Cons.IH [of ?st3] Cons.prems by auto
  then show ?case using x d ex w by (intro exI [of _ st']) (simp add: Let_def)
qed

lemma EXAMPLES_parse: "list_all (\<lambda>(n, h). \<not> isl (hexstr_to_bytes_raw h)) EXAMPLES"
  by code_simp

lemma EXAMPLES_frames:
  "map (\<lambda>(n, h). projr (hexstr_to_bytes_raw h)) EXAMPLES =
     [[1, 6, 0, 1, 1, 0, 0xD9, 0x9A], [1, 6, 0, 1, 2, 0, 0xD9, 0x6A], [1, 3, 0, 1, 0, 1, 0xD5, 0xCA],
      [1, 6, 0, 0xFD, 0, 0, 0x18, 0x3A]]"
  by code_simp

lemma example_frames_valid:
  "list_all (\<lambda>fr. length fr = 8 \<and> crc_valid fr)
     [[1, 6, 0, 1, 1, 0, 0xD9, 0x9A], [1, 6, 0, 1, 2, 0, 0xD9, 0x6A], [1, 3, 0, 1, 0, 1, 0xD5, 0xCA],
      [1, 6, 0, 0xFD, 0, 0, 0x18, 0x3A :: byte]]"
  by code_simp

lemma tester_replay_examples:
  "\<exists>st'. tester_replay EXAMPLES st = (None, st') \<and>
     wire (t_port st') = wire (t_port st) @
       [[1, 6, 0, 1, 1, 0, 0xD9, 0x9A], [1, 6, 0, 1, 2, 0, 0xD9, 0x6A], [1, 3, 0, 1, 0, 1, 0xD5, 0xCA],
        [1, 6, 0, 0xFD, 0, 0, 0x18, 0x3A]] \<and> t_open st' = t_open st"
  using tester_replay_parsed [OF EXAMPLES_parse, of st] unfolding EXAMPLES_frames .

lemma tester_loop_no_exit:
  "\<forall>l \<in> set ls. py_lower (py_strip l) \<noteq> ''exit'' \<Longrightarrow> \<exists>r st'. tester_loop dev ls st = (Some r, st')"
proof (induction ls arbitrary: st)
  case (Cons l ls)
  then show ?case by (auto split: prod.splits option.splits simp: Let_def)
qed simp

lemma builst_read_output_request_upto9:
  assumes "1 \<le> k" "k \<le> 9"
  shows "builst_read_output (uint d) (int k) = Inr (request_frame d (OutputRead k))"
proof -
  have "k \<in> {1..9}" using assms by simp
  also have "{1..9} = {1, 2, 3, 4, 5, 6, 7, 8, 9 :: nat}" by code_simp
  finally show ?thesis
    by (auto simp: builst_read_output_def frame_with_crc_bytes request_frame_def request_body_def READ_REG_def)
qed

lemma status_line_ok:
  "r = [] \<or> 4 < length r \<Longrightarrow>
     status_line label i r = Inr (label @ '' '' @ py_str_int i @
        (if r = [] then '': No response (timeout).'' else if r ! 4 = 1 then '' is ON'' else '' is OFF''))"
  by (auto simp: status_line_def py_index_def)

text \<open>C27: When the first line typed is \<^verbatim>\<open>exit\<close> (in any case, with any surrounding
  blanks), the tester leaves the loop, sends the four frames of \<^verbatim>\<open>EXAMPLES\<close> in the
  dictionary's order (open channel 1, close channel 1, read channel 1 and the
  write of 0 to register 0x00FD) and closes the port.\<close>

theorem tester_exit_replays_examples:
  assumes "py_lower (py_strip l) = ''exit''"
  shows "\<exists>st'. tester_main dev (l # ls) st = (None, st') \<and>
           wire (t_port st') = wire (t_port st) @
             [[1, 6, 0, 1, 1, 0, 0xD9, 0x9A], [1, 6, 0, 1, 2, 0, 0xD9, 0x6A], [1, 3, 0, 1, 0, 1, 0xD5, 0xCA],
              [1, 6, 0, 0xFD, 0, 0, 0x18, 0x3A]] \<and>
           \<not> t_open st'"
proof -
  let ?st1 = "st\<lparr>t_console := t_console st @ [''Command> '']\<rparr>"
  obtain st2 where "tester_replay EXAMPLES ?st1 = (None, st2)"
    "wire (t_port st2) = wire (t_port st) @
       [[1, 6, 0, 1, 1, 0, 0xD9, 0x9A], [1, 6, 0, 1, 2, 0, 0xD9, 0x6A], [1, 3, 0, 1, 0, 1, 0xD5, 0xCA],
        [1, 6, 0, 0xFD, 0, 0, 0x18, 0x3A]]"
    using tester_replay_examples [of ?st1] by auto
  then show ?thesis using assms by (simp add: tester_main_def)
qed

theorem tester_exit_replays_examples_witness:
  "\<exists>st'. tester_main 1 ['' EXIT ''] (t_demo []) = (None, st') \<and>
     wire (t_port st') =
       [[1, 6, 0, 1, 1, 0, 0xD9, 0x9A], [1, 6, 0, 1, 2, 0, 0xD9, 0x6A], [1, 3, 0, 1, 0, 1, 0xD5, 0xCA],
        [1, 6, 0, 0xFD, 0, 0, 0x18, 0x3A]] \<and> \<not> t_open st'"
proof -
  have "py_lower (py_strip '' EXIT '') = ''exit''" by code_simp
  then show ?thesis using tester_exit_replays_examples [of "'' EXIT ''" 1 "[]" "t_demo []"] by (simp add: t_demo_def)
qed

text \<open>C28: On a settled port whose device answers each poll with an empty or a long
  enough reply, \<^verbatim>\<open>status out\<close> prints one line per channel 1--8, labelled by the
  channel, but the frames it writes poll output registers 2--9: the tester's builder adds
  1 to the channel a second time.\<close>

theorem tester_status_out_polls_shifted:
  assumes "settled (t_port st)"
    and "\<forall>k < 8. script_resp (pending (t_port st)) k = [] \<or> 4 < length (script_resp (pending (t_port st)) k)"
  shows "\<exists>p. tester_command (uint d) ''status out'' st =
           (None, st\<lparr>t_port := p, t_console := t_console st @ ''You typed:  status out'' #
              map (\<lambda>k. ''Output '' @ py_str_int (1 + int k) @
                     (if script_resp (pending (t_port st)) k = [] then '': No response (timeout).''
                      else if script_resp (pending (t_port st)) k ! 4 = 1 then '' is ON'' else '' is OFF''))
                  [0..<8]\<rparr>) \<and>
         wire p = wire (t_port st) @ map (\<lambda>n. request_frame d (OutputRead (n + 1))) [1..<9] \<and> settled p"
proof -
  let ?rs = "pending (t_port st)"
  let ?line = "\<lambda>k. ''Output '' @ py_str_int (1 + int k) @
                 (if script_resp ?rs k = [] then '': No response (timeout).''
                  else if script_resp ?rs k ! 4 = 1 then '' is ON'' else '' is OFF'')"
  have b: "builst_read_output_raw (uint d) (int n) = Inr (request_frame d (OutputRead (n + 1)))"
    if "valid_channel n" for n
    using that builst_read_output_request_upto9 [of "n + 1" d]
    by (simp add: builst_read_output_raw_shift valid_channel_def add.commute)
  let ?E = "\<lambda>i resp. map_sum id (\<lambda>l. [l]) (status_line ''Output'' i resp)"
  have e: "\<forall>k < 8. \<exists>y. ?E (1 + int k) (script_resp ?rs k) = Inr y"
    using assms(2) status_line_ok by fastforce
  obtain p where
    bt: "batch (builst_read_output_raw (uint d)) ?E [1..8] [] (t_port st) =
          (None, [] @ map (\<lambda>k. projr (?E (1 + int k) (script_resp ?rs k))) [0..<8], p)"
    and w: "wire p = wire (t_port st) @ map (\<lambda>n. request_frame d (OutputRead (n + 1))) [1..<9]"
    and s: "settled p"
    using channel_batch_complete [of "t_port st" "builst_read_output_raw (uint d)"
                                  "\<lambda>n. request_frame d (OutputRead (n + 1))", OF assms(1) b e] by blast
  have "map (\<lambda>k. projr (?E (1 + int k) (script_resp ?rs k))) [0..<8] = map (\<lambda>k. [?line k]) [0..<8]"
    using assms(2) by (auto intro!: map_cong simp: status_line_ok)
  then have m: "concat (map (\<lambda>k. projr (?E (1 + int k) (script_resp ?rs k))) [0..<8]) = map ?line [0..<8]"
    by (simp only: concat_map_singleton)
  show ?thesis
    using bt w s m literal_split(1)
    by (intro exI [of _ p]) (simp add: tester_command_def tester_batch_def t_print_def Let_def)
qed

theorem tester_status_out_polls_shifted_witness:
  "\<exists>p. tester_command (uint (1::byte)) ''status out'' (t_demo [Reply [1, 3, 2, 0, 1, 0x79, 0x84] []]) =
        (None, (t_demo [Reply [1, 3, 2, 0, 1, 0x79, 0x84] []])\<lparr>t_port := p, t_console :=
           [''You typed:  status out'', ''Output 1 is ON'', ''Output 2: No response (timeout).'',
            ''Output 3: No response (timeout).'', ''Output 4: No response (timeout).'',
            ''Output 5: No response (timeout).'', ''Output 6: No response (timeout).'',
            ''Output 7: No response (timeout).'', ''Output 8: No response (timeout).'']\<rparr>) \<and>
        wire p = map (\<lambda>n. request_frame 1 (OutputRead (n + 1))) [1..<9]"
proof -
  let ?st = "t_demo [Reply [1, 3, 2, 0, 1, 0x79, 0x84] []]"
  have s: "settled (t_port ?st)" by (simp add: t_demo_def settled_def)
  have r: "\<forall>k < 8. script_resp (pending (t_port ?st)) k = [] \<or> 4 < length (script_resp (pending (t_port ?st)) k)"
    by (simp add: t_demo_def script_resp_def)
  have m: "map (\<lambda>k. ''Output '' @ py_str_int (1 + int k) @
                 (if script_resp (pending (t_port ?st)) k = [] then '': No response (timeout).''
                  else if script_resp (pending (t_port ?st)) k ! 4 = 1 then '' is ON'' else '' is OFF'')) [0..<8] =
           [''Output 1 is ON'', ''Output 2: No response (timeout).'',
            ''Output 3: No response (timeout).'', ''Output 4: No response (timeout).'',
            ''Output 5: No response (timeout).'', ''Output 6: No response (timeout).'',
            ''Output 7: No response (timeout).'', ''Output 8: No response (timeout).'']"
    by code_simp
  show ?thesis
    using tester_status_out_polls_shifted [OF s r, of 1] unfolding m by (simp add: t_demo_def) blast
qed

text \<open>C29: When no line typed is \<^verbatim>\<open>exit\<close>, the program ends with an exception (at the
  latest \<open>EOFError\<close> at the end of the input), having written only well-formed
  frames, and neither the example frames' replay nor the port's closing run.\<close>

theorem tester_without_exit_never_replays:
  assumes "\<forall>l \<in> set ls. py_lower (py_strip l) \<noteq> ''exit''"
  shows "\<exists>r st'. tester_main dev ls st = (Some r, st') \<and> t_open st' = t_open st \<and> wire_grows (t_port st) (t_port st')"
proof -
  obtain r st' where l: "tester_loop dev ls st = (Some r, st')" using tester_loop_no_exit [OF assms] by blast
  then show ?thesis using tester_loop_grows [OF l] by (auto simp: tester_main_def t_grows_def)
qed

theorem tester_without_exit_never_replays_witness:
  "\<exists>r st'. tester_main 1 [''status inp'', ''in 2''] (t_demo []) = (Some r, st') \<and> t_open st' \<and>
     wire_grows (t_port (t_demo [])) (t_port st')"
proof -
  have "\<forall>l \<in> set [''status inp'', ''in 2'']. py_lower (py_strip l) \<noteq> ''exit''" by code_simp
  then show ?thesis using tester_without_exit_never_replays [of "[''status inp'', ''in 2'']" 1 "t_demo []"]
    by (simp add: t_demo_def)
qed

text \<open>C30: Whatever lines are typed and whatever the device answers, every frame the
  tester writes to the port is 8 bytes long with a correct CRC.\<close>

theorem tester_writes_only_valid_frames:
  "tester_main dev ls st = (r, st') \<Longrightarrow>
     \<exists>ws. wire (t_port st') = wire (t_port st) @ ws \<and> (\<forall>fr \<in> set ws. length fr = 8 \<and> crc_valid fr)"
proof -
  assume m: "tester_main dev ls st = (r, st')"
  obtain r1 st1 where l: "tester_loop dev ls st = (r1, st1)" by fastforce
  have g: "wire_grows (t_port st) (t_port st1)" using tester_loop_grows [OF l] by (simp add: t_grows_def)
  show ?thesis
  proof (cases r1)
    case None
    obtain st2 where rp: "tester_replay EXAMPLES st1 = (None, st2)"
      "wire (t_port st2) = wire (t_port st1) @
         [[1, 6, 0, 1, 1, 0, 0xD9, 0x9A], [1, 6, 0, 1, 2, 0, 0xD9, 0x6A], [1, 3, 0, 1, 0, 1, 0xD5, 0xCA],
          [1, 6, 0, 0xFD, 0, 0, 0x18, 0x3A]]"
      using tester_replay_examples [of st1] by auto
    have "wire_grows (t_port st1) (t_port st2)"
      using rp(2) example_frames_valid by (auto simp: wire_grows_def well_formed_frames_def)
    then have "wire_grows (t_port st) (t_port st2)" by (rule wire_grows_trans [OF g])
    moreover have "t_port st' = t_port st2" using m l None rp(1) by (auto simp: tester_main_def)
    ultimately have "wire_grows (t_port st) (t_port st')" by simp
    then show ?thesis by (auto simp: wire_grows_def well_formed_frames_def list_all_iff)
  next
    case (Some x)
    then show ?thesis using m l g by (auto simp: tester_main_def wire_grows_def well_formed_frames_def list_all_iff)
  qed
qed

theorem tester_writes_only_valid_frames_witness:
  "\<exists>ws. wire (t_port (snd (tester_main 1 [''on all'', ''status out'', ''exit''] (t_demo [])))) = [] @ ws \<and>
        list_all (\<lambda>fr. length fr = 8 \<and> crc_valid fr) ws"
proof -
  let ?R = "tester_main 1 [''on all'', ''status out'', ''exit''] (t_demo [])"
  have "\<exists>ws. wire (t_port (snd ?R)) = wire (t_port (t_demo [])) @ ws \<and> (\<forall>fr \<in> set ws. length fr = 8 \<and> crc_valid fr)"
    by (rule tester_writes_only_valid_frames [OF surjective_pairing [of ?R]])
  moreover have "wire (t_port (t_demo [])) = []" by (simp add: t_demo_def)
  ultimately show ?thesis by (simp only: list_all_iff)
qed

end
