(* ===== verification/Startup.thy ===== *)
theory Startup
  imports Json_Bridge Text_Bridge Raw_Tester
begin

text \<open>
  The \<^verbatim>\<open>main\<close> functions of the three programs that open the serial port, after
  \<^verbatim>\<open>argparse\<close>: the parsed arguments are the record \<open>cli_args\<close> (the timeout as the
  text \<^verbatim>\<open>str(args.timeout)\<close> prints), and the outcome of \<^verbatim>\<open>serial.Serial(...)\<close> is
  \<open>port_opening\<close>, the text of the exception or the opened port. Each main returns
  what ended the program (\<open>None\<close> for a normal return, or a loop still running after
  the given messages), the lines it printed itself, and the state its loop reached.
  Connecting to the broker is assumed to succeed, and \<^verbatim>\<open>on_connect\<close> runs before the
  first message, which the broker delivers only after the subscription made there.
\<close>

record cli_args =
  arg_port :: string
  arg_device :: int
  arg_baud :: int
  arg_timeout :: string

type_synonym port_opening = "string + serial"

text \<open>The start-up prints of the text bridge and the tester (identical in both).\<close>

definition start_banner :: "cli_args \<Rightarrow> string list" where
  "start_banner args =
     [''Raw Modbus RTU test'',
      py_join '' '' [''Port:'', arg_port args, ''Baud:'', py_str_int (arg_baud args), ''Timeout:'', arg_timeout args]]"

definition mode_banner :: "cli_args \<Rightarrow> string list" where
  "mode_banner args =
     [py_join '' '' [''Using slave device ID:'', py_str_int (arg_device args)],
      CHR 0x0A # ''--- Interactive Mode ---'',
      ''Type: out <number> on/off   (example: out 3 on)'',
      ''Type: in <number>           (example: in 2)'',
      ''Type: status inp               (reads all inputs)'',
      ''Type: status out               (reads all outputs)'',
      ''Type: on all                 (turns ON all outputs)'',
      ''Type: off all                (turns OFF all outputs)'',
      ''Type: exit                   (to quit)'' @ [CHR 0x0A]]"

definition json_main :: "cli_args \<Rightarrow> port_opening \<Rightarrow> mqtt_payload list \<Rightarrow>
                         stop option \<times> string list \<times> bridge option" where
  "json_main args opened msgs =
     (case opened of
        Inl e \<Rightarrow> (Some (Exit 1), [py_join '' '' [''Serial error:'', e]], None)
      | Inr ser \<Rightarrow>
          (case bridge_run (arg_device args) msgs (on_connect \<lparr>port = ser, outbox = []\<rparr>) of
             Inl e \<Rightarrow> (Some (Raised e), [], None)
           | Inr st \<Rightarrow> (None, [], Some st)))"

definition text_main :: "cli_args \<Rightarrow> port_opening \<Rightarrow> string list \<Rightarrow>
                         stop option \<times> string list \<times> tbridge option" where
  "text_main args opened msgs =
     (case opened of
        Inl e \<Rightarrow> (None, start_banner args @ [py_join '' '' [''Failed to open serial port:'', e]], None)
      | Inr ser \<Rightarrow>
          (case text_run (arg_device args) msgs (text_on_connect \<lparr>tb_port = ser, tb_published = []\<rparr>) of
             (r, st) \<Rightarrow> (r, start_banner args @ mode_banner args, Some st)))"

definition raw_main :: "cli_args \<Rightarrow> port_opening \<Rightarrow> string list \<Rightarrow>
                        stop option \<times> string list \<times> tester option" where
  "raw_main args opened lines =
     (case opened of
        Inl e \<Rightarrow> (None, start_banner args @ [py_join '' '' [''Failed to open serial port:'', e]], None)
      | Inr ser \<Rightarrow>
          (case tester_main (arg_device args) lines
                  \<lparr>t_port = ser, t_console = start_banner args @ mode_banner args, t_open = True\<rparr> of
             (r, st) \<Rightarrow> (r, t_console st, Some st)))"

definition demo_args :: cli_args where
  "demo_args = \<lparr>arg_port = ''COM16'', arg_device = 1, arg_baud = 9600, arg_timeout = ''0.1''\<rparr>"

definition demo_port :: "reply list \<Rightarrow> serial" where
  "demo_port rs = \<lparr>in_buf = [], in_flight = [], wire = [], pending = rs\<rparr>"

subsection \<open>Lemmas\<close>

lemma on_connect_fresh:
  "port (on_connect \<lparr>port = ser, outbox = []\<rparr>) = ser"
  "outbox (on_connect \<lparr>port = ser, outbox = []\<rparr>) = [PDict [(''status'', PStr ''online'')]]"
  by (simp_all add: on_connect_def publish_json_def)

lemma json_main_open:
  "json_main args (Inr ser) msgs =
     (case bridge_run (arg_device args) msgs (on_connect \<lparr>port = ser, outbox = []\<rparr>) of
        Inl e \<Rightarrow> (Some (Raised e), [], None) | Inr st \<Rightarrow> (None, [], Some st))"
  by (simp add: json_main_def)

text \<open>
  C24: a port that cannot be opened. The JSON bridge then exits with status 1, and only
  then; the text bridge and the tester print the error and return normally, with exit
  status 0, the status of a clean end.
\<close>

theorem startup_port_failure:
  "(fst (json_main args opened msgs) = Some (Exit 1) \<longleftrightarrow> (\<exists>e. opened = Inl e)) \<and>
   text_main args (Inl e) ms = (None, start_banner args @ [''Failed to open serial port: '' @ e], None) \<and>
   raw_main args (Inl e) ls = (None, start_banner args @ [''Failed to open serial port: '' @ e], None)"
  by (auto simp: json_main_def text_main_def raw_main_def split: sum.splits)

theorem startup_port_failure_witness:
  "fst (json_main demo_args (Inl ''could not open port COM16'') []) = Some (Exit 1) \<and>
   fst (json_main demo_args (Inr (demo_port [])) demo_messages) \<noteq> Some (Exit 1) \<and>
   fst (text_main demo_args (Inl ''could not open port COM16'') []) = None \<and>
   fst (raw_main demo_args (Inl ''could not open port COM16'') []) = None"
  using startup_port_failure [of demo_args "Inr (demo_port [])" demo_messages "''could not open port COM16''" "[]" "[]"]
    startup_port_failure [of demo_args "Inl ''could not open port COM16''" "[]" "''could not open port COM16''" "[]" "[]"]
  by auto

text \<open>
  C33: the JSON bridge's run from start-up. When the port opens and no message crashes the
  loop, the first object published is \<open>{"status": "online"}\<close> of \<^verbatim>\<open>on_connect\<close>,
  followed by exactly one object per message, and every frame written to the opened port
  is 8 bytes with a correct CRC.
\<close>

theorem json_main_online_first:
  "json_main args opened msgs = (r, out, Some st) \<Longrightarrow>
     \<exists>ser objs ws. opened = Inr ser \<and> r = None \<and> out = [] \<and>
       outbox st = PDict [(''status'', PStr ''online'')] # objs \<and> length objs = length msgs \<and>
       wire (port st) = wire ser @ ws \<and> (\<forall>fr \<in> set ws. length fr = 8 \<and> crc_valid fr)"
proof -
  assume m: "json_main args opened msgs = (r, out, Some st)"
  then obtain ser where o: "opened = Inr ser" by (cases opened) (auto simp: json_main_def)
  then have b: "bridge_run (arg_device args) msgs (on_connect \<lparr>port = ser, outbox = []\<rparr>) = Inr st"
    "r = None" "out = []"
    using m by (auto simp: json_main_def split: sum.splits)
  then show ?thesis
    using o bridge_run_grows [OF b(1)] on_connect_fresh [of ser]
    by (auto simp: bridge_grows_def well_formed_frames_def list_all_iff)
qed

theorem json_main_online_first_witness:
  "\<exists>objs. outbox (the (snd (snd (json_main demo_args (Inr (demo_port demo_replies)) demo_messages)))) =
     PDict [(''status'', PStr ''online'')] # objs \<and> length objs = 3"
proof -
  let ?R = "json_main demo_args (Inr (demo_port demo_replies)) demo_messages"
  have r: "?R = (None, [], Some (the (snd (snd ?R))))" by code_simp
  show ?thesis using json_main_online_first [OF r] by (auto simp: demo_messages_def)
qed

end
