(* ===== verification/Echo_Bot.thy ===== *)
theory Echo_Bot
  imports Py_Strings
begin

text \<open>
  The MQTT echo bot \<^verbatim>\<open>src/mqtt_test_sub.py\<close>. A delivered message is a record of its
  payload (already decoded), topic, QoS and retain flag. The bot's state is its console,
  the messages it published as (topic, payload) pairs, and its subscriptions.
  \<^verbatim>\<open>on_message\<close> answers the three commands \<^verbatim>\<open>ping\<close>, \<^verbatim>\<open>tell a joke\<close> and \<^verbatim>\<open>bye\<close>
  with a reply tagged \<^verbatim>\<open>from-subscriber: \<close> on the topic it listens to, so the broker
  hands every reply back to the bot. The joke \<^verbatim>\<open>random.choice\<close> returns is a parameter.

  \<^verbatim>\<open>loop_forever\<close> is modelled by the delivery loop \<open>echo_loop\<close>: one iteration delivers
  the oldest message in flight to \<^verbatim>\<open>on_message\<close> and puts the messages the bot
  published on a subscribed topic at the end of the queue (QoS 0, not retained).
  The fuel is the number of iterations.
\<close>

record mqtt_message =
  m_payload :: string
  m_topic :: string
  m_qos :: int
  m_retain :: bool

record echo =
  e_console :: "string list"
  e_outbox :: "(string \<times> string) list"
  e_subscriptions :: "string list"

definition e_print :: "string list \<Rightarrow> echo \<Rightarrow> echo" where
  "e_print args st = st\<lparr>e_console := e_console st @ [py_join '' '' args]\<rparr>"

definition py_str_bool :: "bool \<Rightarrow> string" where
  "py_str_bool b = (if b then ''True'' else ''False'')"

text \<open>\<^verbatim>\<open>print_message_info\<close>, which no callback calls.\<close>

definition print_message_info :: "mqtt_message \<Rightarrow> echo \<Rightarrow> echo" where
  "print_message_info msg st =
     e_print [''Message retain flag:'', py_str_bool (m_retain msg)]
       (e_print [''Message qos:'', py_str_int (m_qos msg)]
         (e_print [''Message topic:'', m_topic msg]
           (e_print [''Message received:'', m_payload msg] st)))"

definition echo_on_connect :: "string \<Rightarrow> echo \<Rightarrow> echo" where
  "echo_on_connect reason_code st =
     (let st1 = e_print [''Connected:'', reason_code] st in
      st1\<lparr>e_subscriptions := e_subscriptions st1 @ [''george/test/board'']\<rparr>)"

text \<open>The \<^verbatim>\<open>if\<close>/\<^verbatim>\<open>elif\<close> chain choosing the reply; \<open>None\<close> is the early \<^verbatim>\<open>return\<close>.\<close>

definition echo_reply :: "string \<Rightarrow> string \<Rightarrow> string option" where
  "echo_reply joke incoming =
     (if incoming = ''ping'' then Some ''pong''
      else if incoming = ''tell a joke'' then Some joke
      else if incoming = ''bye'' then Some ''Goodbye!''
      else None)"

definition echo_on_message :: "string \<Rightarrow> mqtt_message \<Rightarrow> echo \<Rightarrow> echo" where
  "echo_on_message joke msg st =
     (let text = py_strip (m_payload msg); incoming = py_lower text;
          st1 = e_print [''Received: '' @ text] st in
      if py_startswith ''from-subscriber:'' incoming then st1
      else (case echo_reply joke incoming of
              None \<Rightarrow> st1
            | Some reply \<Rightarrow>
                e_print [''Replied:'', reply]
                  (st1\<lparr>e_outbox := e_outbox st1 @ [(''george/test/board'', ''from-subscriber: '' @ reply)]\<rparr>)))"

text \<open>What the broker delivers back of a list of publications.\<close>

definition deliveries :: "string list \<Rightarrow> (string \<times> string) list \<Rightarrow> mqtt_message list" where
  "deliveries subs pubs =
     map (\<lambda>(t, p). \<lparr>m_payload = p, m_topic = t, m_qos = 0, m_retain = False\<rparr>)
       (filter (\<lambda>(t, p). t \<in> set subs) pubs)"

definition echo_step :: "string \<Rightarrow> mqtt_message list \<times> echo \<Rightarrow> mqtt_message list \<times> echo" where
  "echo_step joke s =
     (case s of
        ([], st) \<Rightarrow> ([], st)
      | (m # q, st) \<Rightarrow>
          (let st' = echo_on_message joke m st in
           (q @ deliveries (e_subscriptions st') (drop (length (e_outbox st)) (e_outbox st')), st')))"

fun echo_loop :: "(nat \<Rightarrow> string) \<Rightarrow> nat \<Rightarrow> mqtt_message list \<times> echo \<Rightarrow> mqtt_message list \<times> echo" where
  "echo_loop choice 0 s = s"
| "echo_loop choice (Suc n) s = echo_loop (\<lambda>i. choice (Suc i)) n (echo_step (choice 0) s)"

text \<open>
  A message the bot takes for its own, and the weight of a queue: 1 for such a message,
  2 for any other, since it can cause one reply, which is the bot's own.
\<close>

definition echo_own :: "mqtt_message \<Rightarrow> bool" where
  "echo_own m \<longleftrightarrow> py_startswith ''from-subscriber:'' (py_lower (py_strip (m_payload m)))"

definition queue_weight :: "mqtt_message list \<Rightarrow> nat" where
  "queue_weight q = sum_list (map (\<lambda>m. if echo_own m then 1 else 2) q)"

definition echo_msg :: "string \<Rightarrow> mqtt_message" where
  "echo_msg p = \<lparr>m_payload = p, m_topic = ''george/test/board'', m_qos = 0, m_retain = False\<rparr>"

definition echo_demo :: echo where
  "echo_demo = echo_on_connect ''Success'' \<lparr>e_console = [], e_outbox = [], e_subscriptions = []\<rparr>"

subsection \<open>Lemmas\<close>

lemma py_strip_prefix:
  assumes "p \<noteq> []" "\<not> py_str_isspace (hd p)" "\<not> py_str_isspace (last p)"
  shows "\<exists>s'. py_strip (p @ s) = p @ s'"
proof -
  have d: "dropWhile py_str_isspace (p @ s) = p @ s" using assms(1,2) by (cases p) auto
  have r: "dropWhile py_str_isspace (rev p) = rev p" using assms(1,3) by (cases "rev p") (auto simp: last_rev [symmetric])
  show ?thesis
  proof (cases "\<forall>c \<in> set s. py_str_isspace c")
    case True
    then have "dropWhile py_str_isspace (rev s @ rev p) = rev p" using r by (subst dropWhile_append2) auto
    then have "py_strip (p @ s) = p" using d by (simp add: py_strip_def)
    then show ?thesis by (intro exI [of _ "[]"]) simp
  next
    case False
    then have "dropWhile py_str_isspace (rev s @ rev p) = dropWhile py_str_isspace (rev s) @ rev p"
      by auto
    then show ?thesis using d by (simp add: py_strip_def)
  qed
qed

lemma py_lower_append: "py_lower (a @ b) = py_lower a @ py_lower b"
  by (simp add: py_lower_def)

lemma tagged_own:
  assumes "m_payload m = ''from-subscriber: '' @ r"
  shows "echo_own m"
proof -
  obtain s' where s: "py_strip (''from-subscriber:'' @ (CHR '' '' # r)) = ''from-subscriber:'' @ s'"
    using py_strip_prefix [of "''from-subscriber:''" "CHR '' '' # r"] by (auto simp: py_str_isspace_def)
  have l: "py_lower ''from-subscriber:'' = ''from-subscriber:''" by code_simp
  have p: "m_payload m = ''from-subscriber:'' @ (CHR '' '' # r)" using assms by simp
  have "py_lower (py_strip (m_payload m)) = py_lower (''from-subscriber:'' @ s')" by (simp only: p s)
  also have "\<dots> = ''from-subscriber:'' @ py_lower s'" by (simp only: py_lower_append l)
  finally show ?thesis by (simp add: echo_own_def py_startswith_def)
qed

lemma own_no_reply: "echo_own m \<Longrightarrow> echo_reply j (py_lower (py_strip (m_payload m))) = None"
  by (auto simp: echo_own_def echo_reply_def py_startswith_def)

lemma echo_on_message_outbox:
  "e_outbox (echo_on_message j m st) = e_outbox st @
     (case echo_reply j (py_lower (py_strip (m_payload m))) of
        None \<Rightarrow> [] | Some r \<Rightarrow> [(''george/test/board'', ''from-subscriber: '' @ r)])"
  by (auto simp: echo_on_message_def e_print_def Let_def own_no_reply [unfolded echo_own_def] split: option.splits)

lemma echo_on_message_subscriptions [simp]: "e_subscriptions (echo_on_message j m st) = e_subscriptions st"
  by (auto simp: echo_on_message_def e_print_def Let_def split: option.splits)

lemma deliveries_tagged:
  "list_all echo_own (deliveries subs (map (\<lambda>r. (t, ''from-subscriber: '' @ r)) rs))"
proof -
  have "\<And>r. echo_own \<lparr>m_payload = ''from-subscriber: '' @ r, m_topic = t, m_qos = 0, m_retain = False\<rparr>"
    by (rule tagged_own) simp
  then show ?thesis by (auto simp: deliveries_def list_all_iff)
qed

lemma deliveries_length: "length (deliveries subs pubs) \<le> length pubs"
  by (simp add: deliveries_def)

lemma queue_weight_own: "list_all echo_own q \<Longrightarrow> queue_weight q = length q"
  by (induction q) (auto simp: queue_weight_def)

lemma queue_weight_zero: "queue_weight q = 0 \<Longrightarrow> q = []"
  by (cases q) (auto simp: queue_weight_def split: if_splits)

lemma queue_weight_length: "queue_weight q \<le> 2 * length q"
  by (induction q) (auto simp: queue_weight_def)

lemma echo_step_new:
  "echo_step j (m # q, st) = (q @ deliveries (e_subscriptions st) (map (\<lambda>r. (''george/test/board'', ''from-subscriber: '' @ r))
       (case echo_reply j (py_lower (py_strip (m_payload m))) of None \<Rightarrow> [] | Some r \<Rightarrow> [r])), echo_on_message j m st)"
  by (simp add: echo_step_def Let_def echo_on_message_outbox split: option.splits)

lemma echo_step_weight:
  "queue_weight (fst (echo_step j (m # q, st))) < queue_weight (m # q)"
proof (cases "echo_reply j (py_lower (py_strip (m_payload m)))")
  case None
  then show ?thesis by (simp add: echo_step_new deliveries_def queue_weight_def)
next
  case (Some r)
  then have "\<not> echo_own m" using own_no_reply by fastforce
  moreover have "queue_weight (deliveries (e_subscriptions st) [(''george/test/board'', ''from-subscriber: '' @ r)]) \<le> 1"
    using deliveries_tagged [of _ _ "[r]"] deliveries_length [of _ "[(''george/test/board'', ''from-subscriber: '' @ r)]"]
    by (simp add: queue_weight_own)
  ultimately show ?thesis using Some by (simp add: echo_step_new queue_weight_def)
qed

lemma echo_loop_idle: "echo_loop ch n ([], st) = ([], st)"
  by (induction n arbitrary: ch) (simp_all add: echo_step_def)

lemma echo_loop_drains: "queue_weight (fst s) \<le> n \<Longrightarrow> fst (echo_loop ch n s) = []"
proof (induction n arbitrary: ch s)
  case 0
  then show ?case by (cases s) (auto dest: queue_weight_zero)
next
  case (Suc n)
  obtain q st where s: "s = (q, st)" by fastforce
  show ?case
  proof (cases q)
    case Nil
    then show ?thesis using s by (simp add: echo_loop_idle)
  next
    case (Cons m q')
    have "queue_weight (fst (echo_step (ch 0) (m # q', st))) \<le> n"
      using echo_step_weight [of "ch 0" m q' st] Suc.prems s Cons by simp
    then show ?thesis using Suc.IH s Cons by simp
  qed
qed

text \<open>C31: Whatever jokes \<^verbatim>\<open>random.choice\<close> picks, a queue of \<open>k\<close> messages in flight
  to the bot is delivered, answered and redelivered to nothing within \<open>2 k\<close> iterations of
  the network loop: the bot's tagged replies, which the broker hands back to it, never
  start another reply, so a conversation cannot loop.\<close>

theorem echo_loop_quiesces:
  "2 * length q \<le> n \<Longrightarrow> fst (echo_loop choice n (q, st)) = []"
  using echo_loop_drains [of "(q, st)" n choice] queue_weight_length [of q] by simp

theorem echo_loop_quiesces_witness:
  "fst (echo_loop (\<lambda>i. ''tell a joke'') 4 ([echo_msg ''tell a joke'', echo_msg '' PING ''], echo_demo)) = []"
  using echo_loop_quiesces [of "[echo_msg ''tell a joke'', echo_msg '' PING '']" 4] by simp

lemma nonown_deliveries:
  "filter (\<lambda>m. \<not> echo_own m) (deliveries subs (map (\<lambda>r. (t, ''from-subscriber: '' @ r)) rs)) = []"
  using deliveries_tagged [of subs t rs] by (simp add: list_all_iff filter_empty_conv)

lemma echo_step_pubs:
  assumes "echo_step j (m # q, st) = (q', st')"
  shows "\<exists>pubs. e_outbox st' = e_outbox st @ pubs \<and>
           length pubs + length (filter (\<lambda>m. \<not> echo_own m) q') \<le> length (filter (\<lambda>m. \<not> echo_own m) (m # q)) \<and>
           (\<forall>(t, p) \<in> set pubs. t = ''george/test/board'' \<and> py_startswith ''from-subscriber: '' p)"
proof (cases "echo_reply j (py_lower (py_strip (m_payload m)))")
  case None
  then show ?thesis using assms
    by (intro exI [of _ "[]"]) (auto simp: echo_step_new echo_on_message_outbox deliveries_def)
next
  case (Some r)
  have "\<not> echo_own m" using Some own_no_reply by fastforce
  moreover have "filter (\<lambda>m. \<not> echo_own m) q' = filter (\<lambda>m. \<not> echo_own m) q"
    using assms Some nonown_deliveries [of _ _ "[r]"] by (auto simp: echo_step_new)
  moreover have "e_outbox st' = e_outbox st @ [(''george/test/board'', ''from-subscriber: '' @ r)]"
    using assms Some by (auto simp: echo_step_new echo_on_message_outbox)
  ultimately show ?thesis
    by (intro exI [of _ "[(''george/test/board'', ''from-subscriber: '' @ r)]"]) (simp add: py_startswith_def)
qed

lemma echo_loop_pubs:
  "\<exists>pubs. e_outbox (snd (echo_loop ch n (q, st))) = e_outbox st @ pubs \<and>
     length pubs \<le> length (filter (\<lambda>m. \<not> echo_own m) q) \<and>
     (\<forall>(t, p) \<in> set pubs. t = ''george/test/board'' \<and> py_startswith ''from-subscriber: '' p)"
proof (induction n arbitrary: ch q st)
  case 0
  then show ?case by simp
next
  case (Suc n)
  show ?case
  proof (cases q)
    case Nil
    then show ?thesis by (simp add: echo_loop_idle)
  next
    case (Cons m q0)
    obtain q1 st1 where s: "echo_step (ch 0) (m # q0, st) = (q1, st1)" by fastforce
    obtain pubs1 where p1: "e_outbox st1 = e_outbox st @ pubs1"
      "length pubs1 + length (filter (\<lambda>m. \<not> echo_own m) q1) \<le> length (filter (\<lambda>m. \<not> echo_own m) (m # q0))"
      "\<forall>(t, p) \<in> set pubs1. t = ''george/test/board'' \<and> py_startswith ''from-subscriber: '' p"
      using echo_step_pubs [OF s] by blast
    obtain pubs2 where p2: "e_outbox (snd (echo_loop (\<lambda>i. ch (Suc i)) n (q1, st1))) = e_outbox st1 @ pubs2"
      "length pubs2 \<le> length (filter (\<lambda>m. \<not> echo_own m) q1)"
      "\<forall>(t, p) \<in> set pubs2. t = ''george/test/board'' \<and> py_startswith ''from-subscriber: '' p"
      using Suc.IH by blast
    show ?thesis using Cons s p1 p2 by (intro exI [of _ "pubs1 @ pubs2"]) auto
  qed
qed

text \<open>C32: \<^verbatim>\<open>ping\<close>, \<^verbatim>\<open>tell a joke\<close> and \<^verbatim>\<open>bye\<close>, in any case and with any
  surrounding blanks, are answered by one publication on \<^verbatim>\<open>george/test/board\<close> of
  \<^verbatim>\<open>pong\<close>, the chosen joke and \<^verbatim>\<open>Goodbye!\<close>, tagged \<^verbatim>\<open>from-subscriber: \<close>.\<close>

theorem echo_answers_commands:
  "(py_lower (py_strip (m_payload m)) = ''ping'' \<longrightarrow>
      e_outbox (echo_on_message j m st) = e_outbox st @ [(''george/test/board'', ''from-subscriber: pong'')]) \<and>
   (py_lower (py_strip (m_payload m)) = ''tell a joke'' \<longrightarrow>
      e_outbox (echo_on_message j m st) = e_outbox st @ [(''george/test/board'', ''from-subscriber: '' @ j)]) \<and>
   (py_lower (py_strip (m_payload m)) = ''bye'' \<longrightarrow>
      e_outbox (echo_on_message j m st) = e_outbox st @ [(''george/test/board'', ''from-subscriber: Goodbye!'')])"
  by (simp add: echo_on_message_outbox echo_reply_def)

theorem echo_answers_commands_witness:
  "e_outbox (echo_on_message ''J'' (echo_msg '' Ping '') echo_demo) = [(''george/test/board'', ''from-subscriber: pong'')] \<and>
   e_outbox (echo_on_message ''J'' (echo_msg ''Tell a JOKE'') echo_demo) = [(''george/test/board'', ''from-subscriber: J'')] \<and>
   e_outbox (echo_on_message ''J'' (echo_msg ''bye '') echo_demo) = [(''george/test/board'', ''from-subscriber: Goodbye!'')]"
proof -
  have "py_lower (py_strip (m_payload (echo_msg '' Ping ''))) = ''ping''"
    "py_lower (py_strip (m_payload (echo_msg ''Tell a JOKE''))) = ''tell a joke''"
    "py_lower (py_strip (m_payload (echo_msg ''bye ''))) = ''bye''" by code_simp+
  moreover have "e_outbox echo_demo = []" by (simp add: echo_demo_def echo_on_connect_def e_print_def)
  ultimately show ?thesis
    using echo_answers_commands [where m = "echo_msg '' Ping ''" and j = "''J''" and st = echo_demo]
      echo_answers_commands [where m = "echo_msg ''Tell a JOKE''" and j = "''J''" and st = echo_demo]
      echo_answers_commands [where m = "echo_msg ''bye ''" and j = "''J''" and st = echo_demo]
    by simp
qed

text \<open>Every other message, the bot's own tagged replies included, is only echoed
  to the console as \<^verbatim>\<open>Received: \<close> and the stripped text; nothing is published.\<close>

theorem echo_ignores_other_messages:
  "py_lower (py_strip (m_payload m)) \<notin> {''ping'', ''tell a joke'', ''bye''} \<Longrightarrow>
     echo_on_message j m st = st\<lparr>e_console := e_console st @ [''Received: '' @ py_strip (m_payload m)]\<rparr>"
  by (auto simp: echo_on_message_def echo_reply_def e_print_def Let_def)

theorem echo_ignores_other_messages_witness:
  "echo_on_message ''J'' (echo_msg ''from-subscriber: pong'') echo_demo =
     echo_demo\<lparr>e_console := e_console echo_demo @ [''Received: from-subscriber: pong'']\<rparr>"
proof -
  have "py_lower (py_strip (m_payload (echo_msg ''from-subscriber: pong''))) \<notin> {''ping'', ''tell a joke'', ''bye''}"
    "py_strip (m_payload (echo_msg ''from-subscriber: pong'')) = ''from-subscriber: pong''" by code_simp+
  then show ?thesis using echo_ignores_other_messages [where m = "echo_msg ''from-subscriber: pong''"] by simp
qed

text \<open>C34: Over any number of iterations of the loop the bot publishes at most one reply per
  message in flight that is not its own, each on \<^verbatim>\<open>george/test/board\<close> and tagged
  \<^verbatim>\<open>from-subscriber: \<close>.\<close>

theorem echo_loop_reply_bound:
  "\<exists>pubs. e_outbox (snd (echo_loop choice n (q, st))) = e_outbox st @ pubs \<and>
     length pubs \<le> length (filter (\<lambda>m. \<not> echo_own m) q) \<and>
     (\<forall>(t, p) \<in> set pubs. t = ''george/test/board'' \<and> py_startswith ''from-subscriber: '' p)"
  by (rule echo_loop_pubs)

theorem echo_loop_reply_bound_witness:
  "\<exists>pubs. e_outbox (snd (echo_loop (\<lambda>i. ''tell a joke'') 5 ([echo_msg ''tell a joke'', echo_msg ''hello''], echo_demo))) =
      e_outbox echo_demo @ pubs \<and> length pubs \<le> 2 \<and>
      list_all (\<lambda>(t, p). t = ''george/test/board'' \<and> py_startswith ''from-subscriber: '' p) pubs"
proof -
  have "length (filter (\<lambda>m. \<not> echo_own m) [echo_msg ''tell a joke'', echo_msg ''hello'']) = 2" by code_simp
  then show ?thesis using echo_loop_reply_bound [of "\<lambda>i. ''tell a joke''" 5 "[echo_msg ''tell a joke'', echo_msg ''hello'']" echo_demo]
    by (auto simp: list_all_iff)
qed

end
