(* ===== verification/Spec2Isabelle.thy ===== *)
theory Spec2Isabelle
  imports Startup Echo_Bot
begin

text \<open>
  \<^bold>\<open>A verification development of the MQTT / Modbus RTU relay bridge.\<close>

  \<^bold>\<open>The program.\<close> Four Python scripts under \<^verbatim>\<open>src/\<close> drive an 8-channel relay and
  input module over a Modbus RTU serial line:
  \<^item> \<^verbatim>\<open>modbus_mqtt_bridge_json.py\<close>: an MQTT client whose \<^verbatim>\<open>on_message\<close> decodes a JSON
    command and hands it to \<^verbatim>\<open>process_command\<close>, which builds Modbus request frames
    (\<^verbatim>\<open>build_relay_command\<close>, \<^verbatim>\<open>build_read_input\<close>, \<^verbatim>\<open>build_read_output\<close>, each ending
    in \<^verbatim>\<open>crc16\<close>), exchanges each with the device over the serial port
    (\<^verbatim>\<open>reset_input_buffer\<close>, \<^verbatim>\<open>write\<close>, \<^verbatim>\<open>read(256)\<close>) and publishes a JSON result;
  \<^item> \<^verbatim>\<open>modbus_mqtt_bridge.py\<close>: the same bridge with a text command language
    (\<^verbatim>\<open>out 3 on\<close>, \<^verbatim>\<open>status inp\<close>, ...) and its own copies of the builders;
  \<^item> \<^verbatim>\<open>raw_modbus_test.py\<close>: an interactive serial tester with the text commands, whose
    output-status builder addresses register \<open>channel + 1\<close>;
  \<^item> \<^verbatim>\<open>mqtt_test_sub.py\<close>: an MQTT echo bot (ping, joke, bye).
  The components interact by calls only: command processors call the frame builders,
  the builders call \<^verbatim>\<open>crc16\<close>, and the processors thread two pieces of global state,
  the serial port and the MQTT client, through every exchange.

  \<^bold>\<open>Theories.\<close>
  \<^item> \<open>Prelude\<close>: bytes and 16-bit registers as words, the Python values and
    exceptions the code meets (\<open>pyval\<close>, \<open>py_error\<close>, \<open>'a py\<close>), and the built-ins
    it calls (\<^verbatim>\<open>bytes(...)\<close> as \<open>py_bytes\<close>, \<^verbatim>\<open>int.to_bytes\<close> as \<open>to_bytes_le\<close>,
    indexing, comparison, \<^verbatim>\<open>d[k]\<close>, \<^verbatim>\<open>d.get(k)\<close>, \<^verbatim>\<open>str(e)\<close>). Shared lemma
    collections \<open>py_simps\<close>, \<open>word_helpers\<close>.
  \<^item> \<open>Crc\<close>: \<^verbatim>\<open>crc16\<close> with its Python int register (\<open>crc_shift\<close>, \<open>crc_bits\<close>,
    \<open>crc_update\<close>, \<open>crc_loop\<close>, \<open>crc16\<close>: inner iteration, inner loop, outer iteration,
    outer loop, function), the same algorithm on \<open>16 word\<close> registers, and the strict
    receive check \<open>crc_valid\<close> the specification recommends. Proved: the documented
    reference vectors (a lemma, by evaluation), the register bound that keeps \<^verbatim>\<open>to_bytes\<close> from raising
    (C1), proved through the refinement of the int register by the word register, the zero residue
    of a frame with its CRC appended (C2), and that every single-byte change of a valid
    frame is detected (C3). The word proofs rest on the shift step being linear over XOR
    and invertible.
  \<^item> \<open>Frames\<close>: the frame builders. \<open>build_relay_command\<close>, \<open>build_read_input\<close>,
    \<open>build_read_output\<close> of the JSON bridge take the Python values JSON decodes to and
    raise as the code does; \<open>build_relay_command_text\<close>, \<open>builst_read_output\<close> and
    \<open>build_read_input_text\<close> are the text bridge's copies, \<open>builst_read_output_raw\<close>
    (register channel + 1) and \<open>build_read_input_raw\<close> the tester's; the tester's relay
    builder, which also prints, is in \<open>Raw_Tester\<close>.
    The abstract channel address map (\<open>request\<close>, \<open>request_frame\<close>) is the
    specification's request builder. Proved: the refinement of
    the map by the builders for channels 1--8 (C4), that every built frame is 8 bytes with a
    correct CRC (C5), the channel error (C6), the documented frames (a lemma, by
    evaluation), that reads accept any channel (C7), the two output-status addressings and
    the agreement of the input-status copies (C8), and the text builder's error order (C9).
  \<^item> \<open>Serial\<close>: pyserial's port as an environment record \<open>serial\<close> (received bytes,
    bytes still in flight, frames written, the device's scripted replies, each split into
    the part arriving within the read window and the late part); \<open>exchange\<close> is the
    \<^verbatim>\<open>reset_input_buffer; write; sleep; read(256)\<close> sequence and \<open>batch\<close> the
    for-loop of the batch commands, generic in the builder and the per-channel entry, with
    its complete and aborted runs. The late part of a reply is assumed to reach the input
    buffer before the next exchange resets it (\<open>ser_read\<close> moves it there); under that
    assumption an exchange never returns stale bytes (a lemma). pyserial does not guarantee
    it, and a late part arriving after the next reset would be read as a stale response.
  \<^item> \<open>Batch\<close>: \<open>batch\<close> over \<^verbatim>\<open>range(1, 9)\<close> with a builder that refines the address map.
  \<^item> \<open>Hex\<close>: \<^verbatim>\<open>hexdump\<close>, \<^verbatim>\<open>bytes.fromhex\<close> and \<^verbatim>\<open>hexstr_to_bytes\<close>; proved: their
    round trip (C18).
  \<^item> \<open>Json_Bridge\<close>: the JSON bridge's state (\<open>bridge\<close>: the port and the published
    objects), \<^verbatim>\<open>publish_json\<close>, the four commands \<open>cmd_output\<close>, \<open>cmd_output_all\<close>,
    \<open>cmd_input\<close>, \<open>cmd_status\<close> (each returns the exception it raised with the state
    reached), \<^verbatim>\<open>process_command\<close> with its \<^verbatim>\<open>except\<close> branch, \<^verbatim>\<open>on_message\<close>,
    \<^verbatim>\<open>on_connect\<close>, and the message loop \<open>bridge_run\<close>; the specification's decoder
    \<open>decode_read\<close>. Proved: the reported state against the decoder (C10), the status batch
    (C11) and its abort on a short reply (C12), the output_all batch (C13) and its rejection
    of an invalid action before any I/O (C14), the crash on a non-object or non-UTF-8 message (C15), one
    published object per message (C16), and that only well-formed frames reach the wire
    (C17), the last two by an invariant \<open>bridge_grows\<close> proved for every command; that
    every published value is a non-empty JSON object (C25) and that a stream of UTF-8 objects
    and invalid JSON is processed to its end without an exception escaping (C26). A payload
    is classified (\<open>mqtt_payload\<close>) as \<^verbatim>\<open>decode()\<close> and \<^verbatim>\<open>json.loads\<close> see it.
  \<^item> \<open>Py_Strings\<close>: the \<^verbatim>\<open>str\<close> built-ins of the text front ends (\<^verbatim>\<open>strip\<close>,
    \<^verbatim>\<open>lower\<close>, \<^verbatim>\<open>split\<close>, \<^verbatim>\<open>startswith\<close>, \<^verbatim>\<open>int\<close>, \<^verbatim>\<open>str\<close> of an int) on
    Latin-1 strings; \<open>py_split\<close> is a \<^theory_text>\<open>function\<close> with a measure termination
    proof. Lemma: \<^verbatim>\<open>int(str(i)) == i\<close>, used to parse the channel numbers of commands.
  \<^item> \<open>Text_Bridge\<close>: \<^verbatim>\<open>modbus_mqtt_bridge.py\<close>. Its state \<open>tbridge\<close> is the port and the
    published texts; \<open>text_process_command\<close> has one definition per branch
    (\<open>text_out\<close>, \<open>text_in\<close>, \<open>text_batch\<close> for the four batch commands) and returns,
    with the state reached, the exception or \<^verbatim>\<open>sys.exit\<close> that ends the program
    (\<open>stop\<close>), since nothing in the code catches them; \<open>text_on_message\<close> and the loop
    \<open>text_run\<close>. Proved: the relay command (C19), the crash on an invalid channel (C20),
    \<^verbatim>\<open>status out\<close> and its labels (C21), that only well-formed frames are written in every
    run (C22) and case-insensitivity (C23); the ignored messages are a lemma.
  \<^item> \<open>Raw_Tester\<close>: \<^verbatim>\<open>main\<close> of \<^verbatim>\<open>raw_modbus_test.py\<close> after the port is opened. Its
    state \<open>tester\<close> is the port, the console and whether the port is open; the typed lines
    are a list, and reading past its end raises \<open>EOFError\<close>. \<open>tester_command\<close> has one
    definition per branch (\<open>tester_out\<close>, \<open>tester_in\<close>, \<open>tester_batch\<close> with the
    per-channel lines \<open>on_all_line\<close>, \<open>off_all_line\<close>, \<open>status_line\<close>), each
    calling the tester's own builders (\<open>build_relay_command_raw\<close> returns the
    \<^verbatim>\<open>Frame without CRC:\<close> line it prints with its frame), \<open>tester_loop\<close>
    is the \<^verbatim>\<open>while True\<close> loop, \<open>tester_replay\<close> the replay of \<open>EXAMPLES\<close> and
    \<open>tester_main\<close> both with the closing of the port. The invariant \<open>t_grows\<close> (only
    well-formed frames written, port still open) holds across every command. Proved: the
    replay after \<^verbatim>\<open>exit\<close> (C27), the shifted registers of \<^verbatim>\<open>status out\<close> (C28), the
    end by an exception without replay or close when no line is \<^verbatim>\<open>exit\<close> (C29), and
    that only well-formed frames are written (C30).
  \<^item> \<open>Echo_Bot\<close>: \<^verbatim>\<open>mqtt_test_sub.py\<close>. Its state \<open>echo\<close> is the console, the
    publications and the subscriptions; \<open>echo_on_message\<close> with the reply chain
    \<open>echo_reply\<close>, \<open>echo_on_connect\<close>, \<open>print_message_info\<close>, and \<^verbatim>\<open>loop_forever\<close>
    as \<open>echo_loop\<close>, whose iterations (\<open>echo_step\<close>) deliver the oldest message in
    flight and queue the bot's publications on its subscribed topic, since the broker hands
    them back to it. Proved: a conversation ends, every queue of \<open>k\<close> messages being
    drained within \<open>2 k\<close> iterations whatever jokes are chosen (C31), by the weight
    \<open>queue_weight\<close> that every delivery decreases; the three commands' replies (C32);
    and at most one tagged reply per message that is not the bot's own (C34).
  \<^item> \<open>Startup\<close>: \<^verbatim>\<open>main\<close> of the JSON bridge, the text bridge and the tester after
    \<^verbatim>\<open>parse_args\<close> (\<open>json_main\<close>, \<open>text_main\<close>, \<open>raw_main\<close>): the parsed
    arguments \<open>cli_args\<close>, the start-up prints \<open>start_banner\<close> and \<open>mode_banner\<close>,
    the outcome of opening the port, \<^verbatim>\<open>on_connect\<close> and then the command loop of each
    program. Proved: the exit statuses of a failed opening, 1 for the JSON bridge only
    (C24), and that a run of the JSON bridge from start-up publishes the online status
    first and then one object per message, writing only well-formed frames (C33).
  The root theory imports them all.

  \<^bold>\<open>Environment and bounds.\<close> The device is a script of replies consumed one per write;
  a reply missing from the script is the empty response of a timeout. Reads take at most
  256 bytes, as \<^verbatim>\<open>read(256)\<close>. Every loop of the code is bounded (the byte loops of
  \<^verbatim>\<open>crc16\<close>, \<^verbatim>\<open>range(8)\<close>, \<^verbatim>\<open>range(1, 9)\<close>) and is a structurally recursive
  function; no fuel is needed. \<^verbatim>\<open>client.loop_forever()\<close> of the bridges is
  \<open>bridge_run\<close> or \<open>text_run\<close> over a finite list of messages, which is every finite
  prefix of the message stream, and the tester's \<^verbatim>\<open>while True\<close> loop is recursion on the
  finite list of typed lines. The echo bot's loop feeds its own output back, so its length
  is not given by the input: \<open>echo_loop\<close> takes fuel, the number of iterations, and C31
  shows that fuel \<open>2 k\<close> is enough for \<open>k\<close> messages in flight.

  \<^bold>\<open>Not modelled.\<close> The copies of \<^verbatim>\<open>crc16\<close>, \<^verbatim>\<open>hexdump\<close>, the register
  constants and \<^verbatim>\<open>EXAMPLES\<close> in \<^verbatim>\<open>modbus_mqtt_bridge.py\<close> and
  \<^verbatim>\<open>raw_modbus_test.py\<close> are not separate definitions: they are the same code as the
  definitions that model them (the text bridge's \<^verbatim>\<open>EXAMPLES\<close> is never used). Argument parsing (its result is the parameter \<open>cli_args\<close>), the
  opening of the port (its outcome is a parameter), and connecting to the broker (assumed
  to succeed), all library calls; \<^verbatim>\<open>get_random_joke\<close>, whose
  \<^verbatim>\<open>random.choice\<close> is a parameter of the echo bot (one of its jokes also holds
  U+2026, outside the Latin-1 strings of the model); the broker itself, beyond handing a
  publication back to a client subscribed to its topic; \<^verbatim>\<open>on_publish\<close> and the console
  output of the bridges; \<^verbatim>\<open>json.dumps\<close> and \<^verbatim>\<open>json.loads\<close> (library calls: JSON text
  is represented by the Python values it decodes to); in the text bridge and the echo bot,
  payloads that are not UTF-8 (their \<^verbatim>\<open>decode()\<close> raises there too, and nothing catches
  it), since their payloads are the decoded Latin-1 text; and timing (\<^verbatim>\<open>time.sleep\<close>),
  beyond the assumption on late bytes stated for \<open>Serial\<close>.
\<close>

end
